theory Spec2Isabelle
  imports Complex_Main "HOL-Library.Sublist"
begin

section \<open>JavaScript values as the code reads them\<close>

text \<open>
  A value as \<^verbatim>\<open>JSON.parse\<close> produces it. Numbers are the exact values of the doubles
  (only comparisons with constants are taken, which are exact). An object is the list of its
  keys and values; \<^verbatim>\<open>JSON.parse\<close> never yields a key twice. A property that is absent
  (JavaScript's \<^verbatim>\<open>undefined\<close>) is \<open>None\<close> of type \<open>json option\<close>.
\<close>

datatype json =
    JNull
  | JBool bool
  | JNum rat
  | JStr string
  | JArr "json list"
  | JObj "(string \<times> json) list"

text \<open>\<^verbatim>\<open>v?.key\<close> for the keys the code reads (none of them is \<^verbatim>\<open>length\<close> or an index):
  only an object has them.\<close>

fun get_prop :: "json option \<Rightarrow> string \<Rightarrow> json option" where
  "get_prop (Some (JObj kvs)) k = map_of kvs k"
| "get_prop _ k = None"

text \<open>\<^verbatim>\<open>v?.[0]\<close>: the first element of an array, the first character of a string, the
  property \<^verbatim>\<open>"0"\<close> of an object.\<close>

fun index0 :: "json option \<Rightarrow> json option" where
  "index0 (Some (JArr (x # xs))) = Some x"
| "index0 (Some (JStr (c # cs))) = Some (JStr [c])"
| "index0 (Some (JObj kvs)) = map_of kvs ''0''"
| "index0 _ = None"

text \<open>Truthiness, as \<^verbatim>\<open>if (v)\<close>, \<^verbatim>\<open>v && w\<close> and \<^verbatim>\<open>v || w\<close> test it.\<close>

fun truthy :: "json option \<Rightarrow> bool" where
  "truthy None = False"
| "truthy (Some JNull) = False"
| "truthy (Some (JBool b)) = b"
| "truthy (Some (JNum n)) = (n \<noteq> 0)"
| "truthy (Some (JStr s)) = (s \<noteq> [])"
| "truthy (Some (JArr xs)) = True"
| "truthy (Some (JObj kvs)) = True"

definition js_or :: "json option \<Rightarrow> json option \<Rightarrow> json option" where
  "js_or a b = (if truthy a then a else b)"

text \<open>
  The built-in functions of the JavaScript runtime that the code calls and whose result
  depends on number formatting, string escaping or Unicode tables. They are parameters of
  the model: every theorem holds for whatever they compute.
\<close>

record js_runtime =
  JSON_parse :: "string \<Rightarrow> json option"      \<comment> \<open>\<open>None\<close>: \<^verbatim>\<open>JSON.parse\<close> throws\<close>
  JSON_stringify :: "json \<Rightarrow> string"
  String_of :: "json \<Rightarrow> string"                \<comment> \<open>\<^verbatim>\<open>String(v)\<close>\<close>
  isNaN_of :: "json \<Rightarrow> bool"                   \<comment> \<open>\<^verbatim>\<open>isNaN(v)\<close>\<close>
  toLowerCase :: "string \<Rightarrow> string"

section \<open>The checker store: data\<close>

text \<open>A credential \<^verbatim>\<open>{ token, order }\<close>.\<close>

record keyObj =
  token :: string
  order :: nat

datatype category = Valid | LowBalance | ZeroBalance | NoQuota | RateLimit | Invalid | Duplicate

text \<open>\<^verbatim>\<open>CATEGORIES\<close> of the results store, in its order.\<close>

definition CATEGORIES :: "category list" where
  "CATEGORIES = [Valid, LowBalance, ZeroBalance, NoQuota, RateLimit, Invalid, Duplicate]"

text \<open>The \<^verbatim>\<open>balance\<close> field of a result as it arrives: absent, \<^verbatim>\<open>null\<close> (how JSON carries
  a NaN the balance adapter computed) or a number.\<close>

datatype jsbalance = BAbsent | BNull | BNum rat

text \<open>A validation result as the client reads it from a \<^verbatim>\<open>result\<close> message;
  \<open>r_finalCategory\<close> is the field the client adds. \<open>r_currency\<close> and
  \<open>r_totalGranted\<close> are the two fields of a balance adapter's answer that the display
  text calls a method on.\<close>

record res =
  r_token :: string
  r_isValid :: bool
  r_balance :: jsbalance
  r_order :: nat
  r_message :: "string option"
  r_rawError :: "json option"
  r_currency :: "json option"
  r_totalGranted :: "json option"
  r_finalCategory :: "category option"

text \<open>An entry of the results store (\<^verbatim>\<open>buildResultItem\<close>). The wording of the display
  text, the id string and the details shown in the modal dialogue are presentation and are
  left out; which template forms the display text, and whether forming it throws, is
  \<open>getDisplayText\<close> below.\<close>

record item =
  i_token :: string
  i_balance :: jsbalance
  i_order :: nat

record providerSettings =
  ps_baseUrl :: string
  ps_model :: string
  ps_enableStream :: bool

record providerConfig =
  provider :: string
  baseUrl :: string
  model :: string
  enableStream :: bool
  region :: string
  validationPrompt :: string
  validationMaxTokens :: "int option"
  validationMaxOutputTokens :: "int option"

text \<open>The config store. \<open>currentSettings\<close> is \<^verbatim>\<open>providerConfigs[currentProvider]\<close> and
  \<open>hasBalance\<close> is \<^verbatim>\<open>providers[currentProvider].hasBalance\<close>: the provider table
  (\<^verbatim>\<open>config/providers.json\<close>) is data of the deployment, and
  \<^verbatim>\<open>initializeProviderConfigs\<close> gives every provider of the table its settings.\<close>

record configStore =
  tokensInput :: string
  currentProvider :: string
  currentSettings :: providerSettings
  hasBalance :: bool
  currentRegion :: string
  threshold :: rat
  concurrency :: int
  cfg_validationPrompt :: string
  cfg_validationMaxTokens :: "int option"
  cfg_validationMaxOutputTokens :: "int option"

record batchInfo =
  batch :: "keyObj list"
  b_providerConfig :: providerConfig
  b_concurrency :: int

record jobQueueT =
  remainingKeys :: "keyObj list"
  q_providerConfig :: providerConfig
  q_concurrency :: int

text \<open>Status messages (\<^verbatim>\<open>_postStatus\<close>). The texts are Chinese sentences with numbers
  spliced in; each constructor is one template of the source with the values it splices.\<close>

datatype statusText =
    EnterAtLeastOneKey
  | KeyCountOverLimit nat
  | FilteredDuplicates nat
  | NothingToCheck
  | StartChecking nat
  | ProcessingKeys int nat
  | BackendError string
  | ConnectionLostRetrying nat nat
  | ReconnectFailedStopped
  | CheckFinished "(category \<times> nat) list"
  | CheckStopped
  | CheckPaused
  | CheckResumed

datatype statusType = Info | Warning | Error | Success

record status =
  st_text :: statusText
  st_type :: statusType
  st_duration :: nat

section \<open>The browser around the store: sockets and timers\<close>

datatype readyState = CONNECTING | OPEN | CLOSING | CLOSED

datatype command = Start "keyObj list" providerConfig int

text \<open>A WebSocket the store created. The \<^verbatim>\<open>onopen\<close> handler closes over the batch, the
  provider configuration and the concurrency it was set up with; \<open>ws_onclose\<close> says
  whether the \<^verbatim>\<open>onclose\<close> handler is still installed; \<open>ws_sent\<close> are the commands sent
  on it and \<open>ws_closeCalls\<close> the codes of the \<^verbatim>\<open>close(code, reason)\<close> calls.\<close>

record websocket =
  ws_state :: readyState
  ws_batch :: "keyObj list"
  ws_providerConfig :: providerConfig
  ws_concurrency :: int
  ws_onclose :: bool
  ws_sent :: "command list"
  ws_closeCalls :: "nat list"

datatype callback = CbProcessNextBatch | CbReconnect | CbFlushResultBuffer

record timer =
  t_id :: nat
  t_delay :: nat
  t_callback :: callback

text \<open>The state of the store (the variables of the \<^verbatim>\<open>defineStore\<close> closure), the
  results store it writes to, the config store it reads, and the browser objects it
  created: the sockets (a socket is named by its position in \<open>sockets\<close>) and the
  pending timers. \<open>posted\<close> lists every status message posted so far, oldest first;
  \<open>lastStatusMessage\<close> is the variable of the source.\<close>

record checker =
  isChecking :: bool
  isPaused :: bool
  completedCount :: nat
  totalTasks :: nat
  socket :: "nat option"
  lastStatusMessage :: "status option"
  reconnectAttempts :: nat
  currentBatch :: "batchInfo option"
  jobQueue :: "jobQueueT option"
  resultBuffer :: "(res \<times> nat) list"
  flushTimerId :: "nat option"
  results :: "category \<Rightarrow> item list"
  config :: configStore
  sockets :: "websocket list"
  timers :: "timer list"
  nextTimerId :: nat
  posted :: "status list"

definition BATCH_SIZE :: nat where "BATCH_SIZE = 500"
definition MAX_RECONNECT_ATTEMPTS :: nat where "MAX_RECONNECT_ATTEMPTS = 3"
definition BUFFER_FLUSH_INTERVAL :: nat where "BUFFER_FLUSH_INTERVAL = 100"
definition BUFFER_MAX_SIZE :: nat where "BUFFER_MAX_SIZE = 50"
definition MAX_KEYS_LIMIT :: nat where "MAX_KEYS_LIMIT = 50000"

section \<open>Parsing the input box\<close>

text \<open>
  \<^verbatim>\<open>tokensInput.trim().split(/[,;\n\r]+/).map(t => t.trim()).filter(Boolean)\<close>.
  A \<open>string\<close> is a list of bytes; \<open>js_ws\<close> holds the white space and line terminators
  of the ASCII range that \<^verbatim>\<open>trim\<close> strips (white space beyond ASCII is outside the model).
\<close>

definition js_ws :: "char \<Rightarrow> bool" where
  "js_ws c = (c \<in> set [CHR 0x09, CHR 0x0A, CHR 0x0B, CHR 0x0C, CHR 0x0D, CHR 0x20])"

definition trim :: "string \<Rightarrow> string" where
  "trim s = rev (dropWhile js_ws (rev (dropWhile js_ws s)))"

definition is_sep :: "char \<Rightarrow> bool" where
  "is_sep c = (c \<in> set [CHR '','', CHR '';'', CHR 0x0A, CHR 0x0D])"

text \<open>\<^verbatim>\<open>split\<close> at every maximal run of separators; \<open>cur\<close> is the piece being read.\<close>

function split_from :: "string \<Rightarrow> string \<Rightarrow> string list" where
  "split_from cur [] = [cur]"
| "split_from cur (c # cs) =
     (if is_sep c then cur # split_from [] (dropWhile is_sep cs)
      else split_from (cur @ [c]) cs)"
  by pat_completeness auto
termination
  by (relation "measure (\<lambda>(cur, s). length s)")
     (auto simp: length_dropWhile_le less_Suc_eq_le)

definition split_seps :: "string \<Rightarrow> string list" where
  "split_seps s = split_from [] s"

definition tokensRaw :: "string \<Rightarrow> string list" where
  "tokensRaw input = filter (\<lambda>t. t \<noteq> []) (map trim (split_seps (trim input)))"

section \<open>Categories\<close>

text \<open>\<^verbatim>\<open>categorizeTokenError\<close> (the category of its result; the short label that goes with it
  is not read by the store).\<close>

definition quotaKeywords :: "string list" where
  "quotaKeywords = [''insufficient'', ''credit'', ''quota'', ''balance'', ''billing'', ''paid'', ''top up'']"

definition js_includes :: "string \<Rightarrow> string \<Rightarrow> bool" where
  "js_includes s kw = sublist kw s"

definition lowerCaseMessage :: "js_runtime \<Rightarrow> res \<Rightarrow> string" where
  "lowerCaseMessage rt r =
     toLowerCase rt
       (case r_message r of
          Some m \<Rightarrow> if m \<noteq> [] then m
                    else (case r_rawError r of None \<Rightarrow> [] | Some e \<Rightarrow> JSON_stringify rt e)
        | None \<Rightarrow> (case r_rawError r of None \<Rightarrow> [] | Some e \<Rightarrow> JSON_stringify rt e))"

definition categorizeTokenError :: "js_runtime \<Rightarrow> res \<Rightarrow> category" where
  "categorizeTokenError rt r =
     (if r_isValid r then Valid
      else
        let rawError = r_rawError r;
            status = js_or (get_prop rawError ''status'') (Some (JNum 0));
            lower = lowerCaseMessage rt r;
            errorContent = js_or (get_prop rawError ''content'') (Some (JObj []));
            errorCode = js_or (get_prop (get_prop errorContent ''error'') ''code'')
                              (get_prop errorContent ''code'');
            errorType = js_or (get_prop (get_prop errorContent ''error'') ''type'')
                              (get_prop errorContent ''type'')
        in
          if status = Some (JNum 401) \<or> errorCode = Some (JStr ''invalid_api_key'')
             \<or> errorType = Some (JStr ''invalid_api_key'') then Invalid
          else if errorType = Some (JStr ''access_terminated'') then Invalid
          else if status = Some (JNum 402) then NoQuota
          else if errorCode = Some (JStr ''insufficient_quota'')
             \<or> errorType = Some (JStr ''insufficient_quota'') then NoQuota
          else if js_includes lower ''doesn't have a free quota tier'' then NoQuota
          else if list_ex (js_includes lower) quotaKeywords then NoQuota
          else if status = Some (JNum 429) then RateLimit
          else Invalid)"

text \<open>\<^verbatim>\<open>res.balance < threshold\<close>: an absent balance converts to NaN, \<^verbatim>\<open>null\<close> to 0.\<close>

fun balance_lt :: "jsbalance \<Rightarrow> rat \<Rightarrow> bool" where
  "balance_lt BAbsent t = False"
| "balance_lt BNull t = (0 < t)"
| "balance_lt (BNum b) t = (b < t)"

section \<open>Status, timers, results store\<close>

text \<open>
  A call of a function of the store returns or throws, and either way it leaves the store in
  some state: the assignments made before a \<^verbatim>\<open>throw\<close> stay. No function of the store has a
  \<^verbatim>\<open>try\<close>, so an exception ends the event handler or timer callback the browser was
  running, and the statements after the throwing call do not run.
\<close>

datatype outcome = Completed checker | Threw checker

fun after :: "outcome \<Rightarrow> checker" where
  "after (Completed st) = st"
| "after (Threw st) = st"

fun threw :: "outcome \<Rightarrow> bool" where
  "threw (Completed st) = False"
| "threw (Threw st) = True"

text \<open>\<^verbatim>\<open>f(); rest\<close>: the rest runs when the call returned.\<close>

definition andThen :: "outcome \<Rightarrow> (checker \<Rightarrow> outcome) \<Rightarrow> outcome" where
  "andThen oc rest = (case oc of Completed st \<Rightarrow> rest st | Threw st \<Rightarrow> Threw st)"

definition postStatus :: "statusText \<Rightarrow> statusType \<Rightarrow> nat \<Rightarrow> checker \<Rightarrow> checker" where
  "postStatus txt ty dur st =
     st\<lparr>lastStatusMessage := Some \<lparr>st_text = txt, st_type = ty, st_duration = dur\<rparr>,
        posted := posted st @ [\<lparr>st_text = txt, st_type = ty, st_duration = dur\<rparr>]\<rparr>"

definition setTimeout :: "callback \<Rightarrow> nat \<Rightarrow> checker \<Rightarrow> nat \<times> checker" where
  "setTimeout cb delay st =
     (nextTimerId st,
      st\<lparr>timers := timers st @ [\<lparr>t_id = nextTimerId st, t_delay = delay, t_callback = cb\<rparr>],
         nextTimerId := nextTimerId st + 1\<rparr>)"

definition clearTimeout :: "nat \<Rightarrow> checker \<Rightarrow> checker" where
  "clearTimeout tid st = st\<lparr>timers := filter (\<lambda>t. t_id t \<noteq> tid) (timers st)\<rparr>"

text \<open>
  The display text of a result (\<^verbatim>\<open>getDisplayText\<close> and \<^verbatim>\<open>displayTextFormatters\<close>): the
  template that forms it, or \<open>None\<close> when forming it throws. \<^verbatim>\<open>escapeHtml\<close>, the template
  literals and \<^verbatim>\<open>toLocaleDateString\<close> accept every value; \<^verbatim>\<open>v.toFixed(2)\<close> is a
  \<^verbatim>\<open>TypeError\<close> unless \<^verbatim>\<open>v\<close> is a number.
\<close>

datatype displayText =
  DuplicateText | MessageText | NoBalanceText | OpenRouterText | DeepSeekText | DefaultText

fun balance_toFixed :: "jsbalance \<Rightarrow> bool" where
  "balance_toFixed (BNum b) = True"
| "balance_toFixed _ = False"

fun json_toFixed :: "json \<Rightarrow> bool" where
  "json_toFixed (JNum n) = True"
| "json_toFixed _ = False"

text \<open>\<^verbatim>\<open>res.currency === 'USD'\<close>.\<close>

definition usd :: "res \<Rightarrow> bool" where
  "usd r = (r_currency r = Some (JStr ''USD''))"

definition format_openrouter :: "res \<Rightarrow> displayText option" where
  "format_openrouter r = Some OpenRouterText"

definition format_deepseek :: "res \<Rightarrow> displayText option" where
  "format_deepseek r =
     (if usd r \<and> \<not> balance_toFixed (r_balance r) then None else Some DeepSeekText)"

definition format_default :: "res \<Rightarrow> displayText option" where
  "format_default r =
     (if usd r \<and> \<not> balance_toFixed (r_balance r) then None
      else case r_totalGranted r of
             None \<Rightarrow> Some DefaultText
           | Some g \<Rightarrow> if usd r \<and> \<not> json_toFixed g then None else Some DefaultText)"

definition format_noBalance :: "res \<Rightarrow> displayText option" where
  "format_noBalance r = Some NoBalanceText"

text \<open>\<^verbatim>\<open>displayTextFormatters[provider]\<close> for a provider key; a key that names a property
  of \<^verbatim>\<open>Object.prototype\<close> is outside the model.\<close>

definition displayTextFormatters :: "string \<Rightarrow> (res \<Rightarrow> displayText option) option" where
  "displayTextFormatters key =
     (if key = ''openrouter'' then Some format_openrouter
      else if key = ''deepseek'' then Some format_deepseek
      else if key = ''default'' then Some format_default
      else if key = ''noBalance'' then Some format_noBalance
      else None)"

definition getDisplayText :: "configStore \<Rightarrow> res \<Rightarrow> displayText option" where
  "getDisplayText cfg r =
     (if r_finalCategory r = Some Duplicate then Some DuplicateText
      else if \<not> r_isValid r then Some MessageText
      else if \<not> hasBalance cfg then format_noBalance r
      else (case displayTextFormatters (currentProvider cfg) of
              Some formatter \<Rightarrow> formatter r
            | None \<Rightarrow> format_default r))"

text \<open>\<^verbatim>\<open>buildResultItem\<close>: \<^verbatim>\<open>null\<close> when the result names no category of the store (then
  the display text is not asked for), an exception when the display text throws, the
  category and the entry otherwise.\<close>

datatype built = BuildNull | BuildThrows | Built category item

definition buildResultItem :: "configStore \<Rightarrow> res \<Rightarrow> nat \<Rightarrow> built" where
  "buildResultItem cfg r ord =
     (case r_finalCategory r of
        None \<Rightarrow> BuildNull
      | Some c \<Rightarrow>
          (case getDisplayText cfg r of
             None \<Rightarrow> BuildThrows
           | Some txt \<Rightarrow> Built c \<lparr>i_token = r_token r, i_balance = r_balance r, i_order = ord\<rparr>))"

text \<open>\<^verbatim>\<open>grouped[category]\<close> after the first loop of \<^verbatim>\<open>addResults\<close>, when no item threw.\<close>

definition grouped :: "configStore \<Rightarrow> (res \<times> nat) list \<Rightarrow> category \<Rightarrow> item list" where
  "grouped cfg items c =
     List.map_filter
       (\<lambda>(r, ord). case buildResultItem cfg r ord of
                      Built c' it \<Rightarrow> if c' = c then Some it else None
                    | _ \<Rightarrow> None) items"

text \<open>\<^verbatim>\<open>addResults\<close>. The first loop builds every entry into a local table; the store is
  written only by the second loop, so an entry that throws leaves the store as it was and
  none of the items is stored.\<close>

definition addResults :: "(res \<times> nat) list \<Rightarrow> checker \<Rightarrow> outcome" where
  "addResults items st =
     (if items = [] then Completed st
      else if list_ex (\<lambda>(r, ord). buildResultItem (config st) r ord = BuildThrows) items
      then Threw st
      else Completed (st\<lparr>results := (\<lambda>c. results st c @ grouped (config st) items c)\<rparr>))"

text \<open>The items whose entries can all be built: none of them throws.\<close>

definition buildable :: "configStore \<Rightarrow> (res \<times> nat) list \<Rightarrow> bool" where
  "buildable cfg items = (\<not> list_ex (\<lambda>(r, ord). buildResultItem cfg r ord = BuildThrows) items)"

definition clearResults :: "checker \<Rightarrow> checker" where
  "clearResults st = st\<lparr>results := (\<lambda>c. [])\<rparr>"

text \<open>\<^verbatim>\<open>flushResultBuffer\<close>: the buffer is emptied and the timer cleared before
  \<^verbatim>\<open>addResults\<close> is called.\<close>

definition flushResultBuffer :: "checker \<Rightarrow> outcome" where
  "flushResultBuffer st =
     (if resultBuffer st = [] then Completed st
      else
        let itemsToAdd = resultBuffer st;
            st1 = st\<lparr>resultBuffer := []\<rparr>;
            st2 = (case flushTimerId st1 of
                     None \<Rightarrow> st1
                   | Some tid \<Rightarrow> (clearTimeout tid st1)\<lparr>flushTimerId := None\<rparr>)
        in addResults itemsToAdd st2)"

definition bufferResult :: "res \<Rightarrow> nat \<Rightarrow> checker \<Rightarrow> outcome" where
  "bufferResult r ord st =
     (let st1 = st\<lparr>resultBuffer := resultBuffer st @ [(r, ord)]\<rparr>
      in if length (resultBuffer st1) \<ge> BUFFER_MAX_SIZE then flushResultBuffer st1
         else if flushTimerId st1 = None
              then (case setTimeout CbFlushResultBuffer BUFFER_FLUSH_INTERVAL st1 of
                      (tid, st2) \<Rightarrow> Completed (st2\<lparr>flushTimerId := Some tid\<rparr>))
              else Completed st1)"

text \<open>\<^verbatim>\<open>processResult\<close> for a result object; the caller handles \<^verbatim>\<open>null\<close>.\<close>

definition finalCategoryOf :: "js_runtime \<Rightarrow> configStore \<Rightarrow> res \<Rightarrow> category" where
  "finalCategoryOf rt cfg r =
     (if r_isValid r \<and> hasBalance cfg then
        (if r_balance r = BNum 0 then ZeroBalance
         else if balance_lt (r_balance r) (threshold cfg) then LowBalance
         else Valid)
      else categorizeTokenError rt r)"

definition processResult :: "js_runtime \<Rightarrow> res \<Rightarrow> checker \<Rightarrow> outcome" where
  "processResult rt r st =
     bufferResult (r\<lparr>r_finalCategory := Some (finalCategoryOf rt (config st) r)\<rparr>) (r_order r)
       (st\<lparr>completedCount := completedCount st + 1\<rparr>)"

section \<open>Sockets\<close>

text \<open>\<^verbatim>\<open>_connectWebSocket\<close> with \<^verbatim>\<open>setupSocketListeners\<close>: a new socket, connecting, with the
  four handlers installed, becomes \<^verbatim>\<open>socket.value\<close>.\<close>

definition connectWebSocket :: "providerConfig \<Rightarrow> keyObj list \<Rightarrow> int \<Rightarrow> checker \<Rightarrow> checker" where
  "connectWebSocket pc b conc st =
     st\<lparr>sockets := sockets st @
          [\<lparr>ws_state = CONNECTING, ws_batch = b, ws_providerConfig = pc, ws_concurrency = conc,
            ws_onclose = True, ws_sent = [], ws_closeCalls = []\<rparr>],
        socket := Some (length (sockets st))\<rparr>"

definition update_socket :: "nat \<Rightarrow> (websocket \<Rightarrow> websocket) \<Rightarrow> checker \<Rightarrow> checker" where
  "update_socket sid f st =
     (if sid < length (sockets st) then st\<lparr>sockets := (sockets st)[sid := f (sockets st ! sid)]\<rparr>
      else st)"

definition socketIs :: "nat \<Rightarrow> readyState \<Rightarrow> checker \<Rightarrow> bool" where
  "socketIs sid rs st = (sid < length (sockets st) \<and> ws_state (sockets st ! sid) = rs)"

text \<open>\<^verbatim>\<open>ws.close(code, reason)\<close> of the browser: a socket that is connecting or open
  starts closing; one that is closing or closed stays as it is.\<close>

definition ws_close :: "nat \<Rightarrow> nat \<Rightarrow> checker \<Rightarrow> checker" where
  "ws_close sid code st =
     update_socket sid
       (\<lambda>w. w\<lparr>ws_closeCalls := ws_closeCalls w @ [code],
               ws_state := (if ws_state w = CLOSED then CLOSED else CLOSING)\<rparr>) st"

text \<open>\<^verbatim>\<open>ws.send(data)\<close> of the browser: it throws on a connecting socket, sends on an open
  one, and drops the data otherwise.\<close>

definition ws_send :: "nat \<Rightarrow> command \<Rightarrow> checker \<Rightarrow> outcome" where
  "ws_send sid cmd st =
     (if socketIs sid CONNECTING st then Threw st
      else Completed
             (update_socket sid
                (\<lambda>w. if ws_state w = OPEN then w\<lparr>ws_sent := ws_sent w @ [cmd]\<rparr> else w) st))"

text \<open>\<^verbatim>\<open>socket.value.onclose = null; socket.value.close(1000, ...); socket.value = null\<close>,
  the common end of \<^verbatim>\<open>stopCheck\<close> and \<^verbatim>\<open>pauseCheck\<close>.\<close>

definition dropSocket :: "checker \<Rightarrow> checker" where
  "dropSocket st =
     (case socket st of
        None \<Rightarrow> st
      | Some sid \<Rightarrow> (ws_close sid 1000 (update_socket sid (\<lambda>w. w\<lparr>ws_onclose := False\<rparr>) st))
                      \<lparr>socket := None\<rparr>)"

section \<open>The store's functions\<close>

definition summaryParts :: "checker \<Rightarrow> (category \<times> nat) list" where
  "summaryParts st =
     filter (\<lambda>p. snd p > 0) (map (\<lambda>c. (c, length (results st c))) CATEGORIES)"

definition finishCheck :: "checker \<Rightarrow> outcome" where
  "finishCheck st =
     andThen (flushResultBuffer st)
       (\<lambda>flushed.
          let st1 = flushed\<lparr>isChecking := False, jobQueue := None, currentBatch := None\<rparr>
          in Completed (postStatus (CheckFinished (summaryParts st1)) Success 8000 st1))"

definition processNextBatch :: "checker \<Rightarrow> outcome" where
  "processNextBatch st =
     (if isPaused st then Completed st
      else
        let st1 = st\<lparr>reconnectAttempts := 0\<rparr> in
        case jobQueue st1 of
          None \<Rightarrow> finishCheck st1
        | Some jq \<Rightarrow>
            if remainingKeys jq = [] then finishCheck st1
            else
              let b = take BATCH_SIZE (remainingKeys jq);
                  remaining = drop BATCH_SIZE (remainingKeys jq);
                  st2 = st1\<lparr>currentBatch := Some \<lparr>batch = b, b_providerConfig = q_providerConfig jq,
                                                 b_concurrency = q_concurrency jq\<rparr>,
                            jobQueue := Some (jq\<lparr>remainingKeys := remaining\<rparr>)\<rparr>;
                  st3 = postStatus (ProcessingKeys (int (totalTasks st2) - int (length remaining))
                                      (totalTasks st2)) Info 3000 st2
              in Completed (connectWebSocket (q_providerConfig jq) b (q_concurrency jq) st3))"

definition stopCheck :: "checker \<Rightarrow> outcome" where
  "stopCheck st =
     andThen (flushResultBuffer st)
       (\<lambda>flushed.
          Completed
            (postStatus CheckStopped Info 3000
               (dropSocket (flushed\<lparr>isChecking := False, isPaused := False,
                                    jobQueue := None, currentBatch := None\<rparr>))))"

text \<open>\<^verbatim>\<open>pauseCheck\<close>: the part of the batch in flight that has no result yet goes back to
  the head of the queue.\<close>

definition requeue :: "checker \<Rightarrow> checker" where
  "requeue st =
     (case (currentBatch st, jobQueue st) of
        (Some cb, Some jq) \<Rightarrow>
          if batch cb \<noteq> [] then st\<lparr>jobQueue := Some (jq\<lparr>remainingKeys := batch cb @ remainingKeys jq\<rparr>)\<rparr>
          else st
      | _ \<Rightarrow> st)"

definition pauseCheck :: "checker \<Rightarrow> outcome" where
  "pauseCheck st =
     (if isChecking st \<and> \<not> isPaused st then
        andThen (flushResultBuffer st)
          (\<lambda>flushed.
             Completed
               ((dropSocket (postStatus CheckPaused Info 3000
                   (requeue (flushed\<lparr>isPaused := True\<rparr>))))\<lparr>currentBatch := None\<rparr>))
      else Completed st)"

definition resumeCheck :: "checker \<Rightarrow> outcome" where
  "resumeCheck st =
     (if isChecking st \<and> isPaused st then
        processNextBatch (postStatus CheckResumed Info 3000 (st\<lparr>isPaused := False\<rparr>))
      else Completed st)"

text \<open>The \<^verbatim>\<open>forEach\<close> of \<^verbatim>\<open>startCheck\<close> over \<^verbatim>\<open>allKeys\<close>: the set of tokens seen, the keys
  to process and the results for the repeats.\<close>

definition duplicateResult :: "keyObj \<Rightarrow> res \<times> nat" where
  "duplicateResult k =
     (\<lparr>r_token = token k, r_isValid = False, r_balance = BAbsent, r_order = order k,
       r_message = None, r_rawError = None, r_currency = None, r_totalGranted = None,
       r_finalCategory = Some Duplicate\<rparr>, order k)"

definition dedup_step ::
  "keyObj \<Rightarrow> string set \<times> keyObj list \<times> (res \<times> nat) list
     \<Rightarrow> string set \<times> keyObj list \<times> (res \<times> nat) list" where
  "dedup_step k acc =
     (case acc of (uniqueTokens, keysToProcess, duplicateResults) \<Rightarrow>
        if token k \<in> uniqueTokens
        then (uniqueTokens, keysToProcess, duplicateResults @ [duplicateResult k])
        else (insert (token k) uniqueTokens, keysToProcess @ [k], duplicateResults))"

definition allKeys :: "string list \<Rightarrow> keyObj list" where
  "allKeys toks = map (\<lambda>(i, t). \<lparr>token = t, order = i\<rparr>) (enumerate 0 toks)"

definition keysToProcess :: "string list \<Rightarrow> keyObj list" where
  "keysToProcess toks = fst (snd (fold dedup_step (allKeys toks) ({}, [], [])))"

definition duplicateResults :: "string list \<Rightarrow> (res \<times> nat) list" where
  "duplicateResults toks = snd (snd (fold dedup_step (allKeys toks) ({}, [], [])))"

definition buildProviderConfig :: "configStore \<Rightarrow> providerConfig" where
  "buildProviderConfig cfg =
     \<lparr>provider = currentProvider cfg,
      baseUrl = ps_baseUrl (currentSettings cfg),
      model = ps_model (currentSettings cfg),
      enableStream = ps_enableStream (currentSettings cfg),
      region = currentRegion cfg,
      validationPrompt = cfg_validationPrompt cfg,
      validationMaxTokens = cfg_validationMaxTokens cfg,
      validationMaxOutputTokens = cfg_validationMaxOutputTokens cfg\<rparr>"

text \<open>\<^verbatim>\<open>startCheck\<close> from the point where the raw token list is known to be within the
  limit.\<close>

definition startTokens :: "string list \<Rightarrow> checker \<Rightarrow> outcome" where
  "startTokens toks st =
     (let dups = duplicateResults toks;
          keys = keysToProcess toks
      in andThen
           (if dups \<noteq> []
            then andThen (addResults dups st)
                   (\<lambda>added. Completed (postStatus (FilteredDuplicates (length dups)) Info 2000 added))
            else Completed st)
           (\<lambda>st1.
              if keys = [] then Completed (postStatus NothingToCheck Info 3000 st1)
              else
                processNextBatch
                  (postStatus (StartChecking (length keys)) Info 3000
                     (st1\<lparr>isChecking := True, isPaused := False, totalTasks := length keys,
                          jobQueue := Some \<lparr>remainingKeys = keys,
                                            q_providerConfig = buildProviderConfig (config st1),
                                            q_concurrency = concurrency (config st1)\<rparr>\<rparr>))))"

definition startCheck :: "checker \<Rightarrow> outcome" where
  "startCheck st =
     (if trim (tokensInput (config st)) = []
      then Completed (postStatus EnterAtLeastOneKey Warning 3000 st)
      else
        let st1 = (clearResults (st\<lparr>jobQueue := None\<rparr>))\<lparr>completedCount := 0\<rparr>;
            toks = tokensRaw (tokensInput (config st))
        in if length toks > MAX_KEYS_LIMIT
           then Completed (postStatus (KeyCountOverLimit MAX_KEYS_LIMIT) Error 5000 st1)
           else startTokens toks st1)"

section \<open>Handlers and events\<close>

text \<open>A message of the server, after \<^verbatim>\<open>JSON.parse\<close>: a result (\<open>None\<close> when its
  \<^verbatim>\<open>data\<close> is \<^verbatim>\<open>null\<close>), the end of the batch, an error, or anything else.\<close>

datatype message = MsgResult "res option" | MsgDone | MsgError string | MsgOther

text \<open>\<^verbatim>\<open>onopen\<close> of the socket \<open>sid\<close>: the start command, with the values the handler
  closed over, goes to whatever \<^verbatim>\<open>socket.value\<close> is now (a \<^verbatim>\<open>null\<close> there throws).\<close>

definition onopen :: "nat \<Rightarrow> checker \<Rightarrow> outcome" where
  "onopen sid st =
     (case socket st of
        None \<Rightarrow> Threw st
      | Some cur \<Rightarrow>
          ws_send cur (Start (ws_batch (sockets st ! sid)) (ws_providerConfig (sockets st ! sid))
                         (ws_concurrency (sockets st ! sid))) st)"

definition removeFromBatch :: "nat \<Rightarrow> checker \<Rightarrow> checker" where
  "removeFromBatch ord st =
     (case currentBatch st of
        None \<Rightarrow> st
      | Some cb \<Rightarrow> st\<lparr>currentBatch := Some (cb\<lparr>batch := filter (\<lambda>k. order k \<noteq> ord) (batch cb)\<rparr>)\<rparr>)"

definition hasUnresolved :: "checker \<Rightarrow> bool" where
  "hasUnresolved st = (case currentBatch st of None \<Rightarrow> False | Some cb \<Rightarrow> batch cb \<noteq> [])"

text \<open>\<^verbatim>\<open>onmessage\<close>. With \<^verbatim>\<open>data: null\<close>, \<^verbatim>\<open>processResult\<close> returns at once and the
  filter that follows throws at the first key of the batch, if there is one. When
  \<^verbatim>\<open>processResult\<close> throws, the key stays in the batch. On \<^verbatim>\<open>done\<close>, a \<^verbatim>\<open>null\<close>
  \<^verbatim>\<open>socket.value\<close> throws before the timer is set.\<close>

definition onmessage :: "js_runtime \<Rightarrow> message \<Rightarrow> checker \<Rightarrow> outcome" where
  "onmessage rt m st =
     (case m of
        MsgResult None \<Rightarrow> if hasUnresolved st then Threw st else Completed st
      | MsgResult (Some r) \<Rightarrow>
          andThen (processResult rt r st) (\<lambda>st1. Completed (removeFromBatch (r_order r) st1))
      | MsgDone \<Rightarrow>
          (case socket st of
             None \<Rightarrow> Threw (st\<lparr>currentBatch := None\<rparr>)
           | Some cur \<Rightarrow>
               Completed
                 (snd (setTimeout CbProcessNextBatch 100
                         (ws_close cur 1000 (st\<lparr>currentBatch := None\<rparr>)))))
      | MsgError txt \<Rightarrow> stopCheck (postStatus (BackendError txt) Error 3000 st)
      | MsgOther \<Rightarrow> Completed st)"

definition scheduleReconnect :: "checker \<Rightarrow> checker" where
  "scheduleReconnect st =
     (let st1 = st\<lparr>reconnectAttempts := reconnectAttempts st + 1\<rparr>;
          st2 = postStatus (ConnectionLostRetrying (reconnectAttempts st1) MAX_RECONNECT_ATTEMPTS)
                  Warning 3000 st1
      in snd (setTimeout CbReconnect (1000 * reconnectAttempts st2) st2))"

definition onclose :: "nat \<Rightarrow> checker \<Rightarrow> outcome" where
  "onclose code st =
     (if code \<noteq> 1000 \<and> isChecking st \<and> \<not> isPaused st then
        (if reconnectAttempts st < MAX_RECONNECT_ATTEMPTS \<and> hasUnresolved st
         then Completed (scheduleReconnect st)
         else stopCheck (postStatus ReconnectFailedStopped Error 3000 st))
      else Completed st)"

text \<open>The callback of the reconnect timer; without a current batch, reading its
  fields throws.\<close>

definition reconnect :: "checker \<Rightarrow> outcome" where
  "reconnect st =
     (if isChecking st \<and> \<not> isPaused st then
        (case currentBatch st of
           None \<Rightarrow> Threw st
         | Some cb \<Rightarrow> Completed (connectWebSocket (b_providerConfig cb) (batch cb) (b_concurrency cb) st))
      else Completed st)"

fun runCallback :: "callback \<Rightarrow> checker \<Rightarrow> outcome" where
  "runCallback CbProcessNextBatch st = processNextBatch st"
| "runCallback CbReconnect st = reconnect st"
| "runCallback CbFlushResultBuffer st = flushResultBuffer st"

text \<open>
  What can happen to the store: the user's four buttons, the events the browser
  dispatches on a socket, and a timer that fires. The browser dispatches \<^verbatim>\<open>open\<close> only
  on a connecting socket, \<^verbatim>\<open>message\<close> only on an open one (a message that arrives after
  \<^verbatim>\<open>close()\<close> was called is dropped), \<^verbatim>\<open>close\<close> once, with the close code; a timer
  fires once unless it was cleared. An event that the browser would not dispatch leaves
  the state as it is. \<open>dispatch\<close> is the call the browser makes for the event; the store
  after the event is the store as that call left it, whether it returned or threw.
\<close>

datatype event =
    UserStart | UserPause | UserResume | UserStop
  | SocketOpen nat
  | SocketMessage nat message
  | SocketClose nat nat
  | TimerFires nat

definition dispatch :: "js_runtime \<Rightarrow> event \<Rightarrow> checker \<Rightarrow> outcome" where
  "dispatch rt ev st =
     (case ev of
        UserStart \<Rightarrow> startCheck st
      | UserPause \<Rightarrow> pauseCheck st
      | UserResume \<Rightarrow> resumeCheck st
      | UserStop \<Rightarrow> stopCheck st
      | SocketOpen sid \<Rightarrow>
          if socketIs sid CONNECTING st
          then onopen sid (update_socket sid (\<lambda>w. w\<lparr>ws_state := OPEN\<rparr>) st)
          else Completed st
      | SocketMessage sid m \<Rightarrow> if socketIs sid OPEN st then onmessage rt m st else Completed st
      | SocketClose sid code \<Rightarrow>
          if sid < length (sockets st) \<and> ws_state (sockets st ! sid) \<noteq> CLOSED
          then (let st1 = update_socket sid (\<lambda>w. w\<lparr>ws_state := CLOSED\<rparr>) st
                in if ws_onclose (sockets st ! sid) then onclose code st1 else Completed st1)
          else Completed st
      | TimerFires tid \<Rightarrow>
          (case find (\<lambda>t. t_id t = tid) (timers st) of
             None \<Rightarrow> Completed st
           | Some t \<Rightarrow> runCallback (t_callback t) (clearTimeout tid st)))"

definition step :: "js_runtime \<Rightarrow> event \<Rightarrow> checker \<Rightarrow> checker" where
  "step rt ev st = after (dispatch rt ev st)"

definition run :: "js_runtime \<Rightarrow> event list \<Rightarrow> checker \<Rightarrow> checker" where
  "run rt evs st = fold (step rt) evs st"

text \<open>The store as the page loads it, over a given config store.\<close>

definition initial :: "configStore \<Rightarrow> checker" where
  "initial cfg =
     \<lparr>isChecking = False, isPaused = False, completedCount = 0, totalTasks = 0, socket = None,
      lastStatusMessage = None, reconnectAttempts = 0, currentBatch = None, jobQueue = None,
      resultBuffer = [], flushTimerId = None, results = (\<lambda>c. []), config = cfg,
      sockets = [], timers = [], nextTimerId = 0, posted = []\<rparr>"

definition totalResults :: "checker \<Rightarrow> nat" where
  "totalResults st = sum_list (map (\<lambda>c. length (results st c)) CATEGORIES)"

section \<open>First and later occurrences of a token\<close>

text \<open>The words of the specification: the \<open>i\<close>-th raw token is a first occurrence when
  no earlier position holds the same token.\<close>

definition firstOccurrence :: "string list \<Rightarrow> nat \<Rightarrow> bool" where
  "firstOccurrence toks i = (toks ! i \<notin> set (take i toks))"

definition firstKeys :: "string list \<Rightarrow> keyObj list" where
  "firstKeys toks =
     map (\<lambda>i. \<lparr>token = toks ! i, order = i\<rparr>) (filter (firstOccurrence toks) [0..<length toks])"

definition laterKeys :: "string list \<Rightarrow> keyObj list" where
  "laterKeys toks =
     map (\<lambda>i. \<lparr>token = toks ! i, order = i\<rparr>)
       (filter (\<lambda>i. \<not> firstOccurrence toks i) [0..<length toks])"

definition duplicateItems :: "string list \<Rightarrow> item list" where
  "duplicateItems toks =
     map (\<lambda>k. \<lparr>i_token = token k, i_balance = BAbsent, i_order = order k\<rparr>) (laterKeys toks)"

text \<open>The socket \<open>sid\<close> after its \<^verbatim>\<open>close\<close> event.\<close>

definition closed_socket :: "nat \<Rightarrow> checker \<Rightarrow> checker" where
  "closed_socket sid st = update_socket sid (\<lambda>w. w\<lparr>ws_state := CLOSED\<rparr>) st"

section \<open>The worker pool of a session\<close>

text \<open>
  \<^verbatim>\<open>TaskManager\<close> of \<^verbatim>\<open>websocket_handler.js\<close>. JavaScript runs one piece of code at a
  time: a worker runs from one \<^verbatim>\<open>await\<close> to the next without interruption, and which
  worker continues next is the choice of the scheduler. The state of a worker is the
  \<^verbatim>\<open>await\<close> it is suspended at: the check of an item, the zero-delay timer after it, or
  nothing any more once its loop has ended.

  An element of the queue is \<open>None\<close> when it is falsy (\<^verbatim>\<open>null\<close>, \<^verbatim>\<open>0\<close>, an empty
  string), which ends the loop of the worker that claims it as the end of the queue does.
  \<open>emitted\<close> lists the calls of the callbacks \<^verbatim>\<open>onResult\<close> and \<^verbatim>\<open>onDone\<close> in order (they
  are the caller's functions and are taken not to throw); \<open>claimed\<close> lists, for every
  call of \<^verbatim>\<open>getNextItem\<close> that advanced the cursor, the worker and the index it got.
  \<open>poolReturned\<close> says that \<^verbatim>\<open>runWorkerPool\<close> has continued after
  \<^verbatim>\<open>await Promise.all(workerPromises)\<close>.
\<close>

datatype worker = Checking keyObj | Yielding | Exited

text \<open>How \<^verbatim>\<open>checker.checkToken\<close> ends for an item: with a result or with an exception
  and its message. The call of \<^verbatim>\<open>onResult\<close> carries the item it was made for.\<close>

datatype 'r callbackCall = OnResult keyObj "string + 'r" | OnDone

record 'r taskManager =
  queue :: "keyObj option list"
  currentIndex :: nat
  isStopped :: bool
  tm_concurrency :: nat
  workers :: "worker list"
  poolReturned :: bool
  emitted :: "'r callbackCall list"
  claimed :: "(nat \<times> nat) list"

text \<open>\<^verbatim>\<open>getNextItem\<close>: \<^verbatim>\<open>null\<close> past the end, else the element at the cursor, which
  advances.\<close>

definition getNextItem :: "'r taskManager \<Rightarrow> keyObj option \<times> 'r taskManager" where
  "getNextItem tm =
     (if currentIndex tm \<ge> length (queue tm) then (None, tm)
      else (queue tm ! currentIndex tm, tm\<lparr>currentIndex := currentIndex tm + 1\<rparr>))"

definition setWorker :: "nat \<Rightarrow> worker \<Rightarrow> 'r taskManager \<Rightarrow> 'r taskManager" where
  "setWorker i w tm = tm\<lparr>workers := (workers tm)[i := w]\<rparr>"

text \<open>One turn of the loop of worker \<open>i\<close> up to its first \<^verbatim>\<open>await\<close>: the stop flag, the
  claim, and the start of \<^verbatim>\<open>runCheck\<close> (whose own test of the flag follows the loop's
  without a suspension in between).\<close>

definition loopHead :: "nat \<Rightarrow> 'r taskManager \<Rightarrow> 'r taskManager" where
  "loopHead i tm =
     (if isStopped tm then setWorker i Exited tm
      else
        (case getNextItem tm of
           (it, tm1) \<Rightarrow>
             let tm2 = (if currentIndex tm < length (queue tm)
                        then tm1\<lparr>claimed := claimed tm1 @ [(i, currentIndex tm)]\<rparr> else tm1)
             in case it of
                  None \<Rightarrow> setWorker i Exited tm2
                | Some item \<Rightarrow> setWorker i (Checking item) tm2))"

text \<open>The end of \<^verbatim>\<open>runWorkerPool\<close>: once every worker has returned, and only once, the
  function continues after \<^verbatim>\<open>Promise.all\<close> and calls \<^verbatim>\<open>onDone\<close> unless the pool is
  stopped. Promise reactions run before any other event, so nothing comes between the
  return of the last worker and this continuation.\<close>

definition afterAll :: "'r taskManager \<Rightarrow> 'r taskManager" where
  "afterAll tm =
     (if \<not> poolReturned tm \<and> list_all (\<lambda>w. w = Exited) (workers tm)
      then (if isStopped tm then tm\<lparr>poolReturned := True\<rparr>
            else tm\<lparr>poolReturned := True, emitted := emitted tm @ [OnDone]\<rparr>)
      else tm)"

text \<open>\<^verbatim>\<open>runWorkerPool\<close> up to its \<^verbatim>\<open>await\<close>: the workers are created one after the
  other, each running to its first \<^verbatim>\<open>await\<close> at once.\<close>

definition spawn :: "'r taskManager \<Rightarrow> 'r taskManager" where
  "spawn tm = loopHead (length (workers tm)) (tm\<lparr>workers := workers tm @ [Yielding]\<rparr>)"

definition runWorkerPool :: "'r taskManager \<Rightarrow> 'r taskManager" where
  "runWorkerPool tm = afterAll ((spawn ^^ tm_concurrency tm) tm)"

text \<open>What happens next to a running pool: the check of worker \<open>i\<close> ends (then
  \<^verbatim>\<open>runCheck\<close> reports through \<^verbatim>\<open>onResult\<close>, and the worker waits for its zero-delay
  timer), the timer of worker \<open>i\<close> fires (the worker takes its next turn), or
  \<^verbatim>\<open>stop()\<close> is called.\<close>

datatype 'r poolEvent = CheckEnds nat "string + 'r" | TimerEnds nat | StopCalled

definition poolStep :: "'r poolEvent \<Rightarrow> 'r taskManager \<Rightarrow> 'r taskManager" where
  "poolStep ev tm =
     (case ev of
        CheckEnds i outcome \<Rightarrow>
          (if i < length (workers tm) then
             (case workers tm ! i of
                Checking item \<Rightarrow>
                  setWorker i Yielding (tm\<lparr>emitted := emitted tm @ [OnResult item outcome]\<rparr>)
              | _ \<Rightarrow> tm)
           else tm)
      | TimerEnds i \<Rightarrow>
          (if i < length (workers tm) \<and> workers tm ! i = Yielding then afterAll (loopHead i tm)
           else tm)
      | StopCalled \<Rightarrow> tm\<lparr>isStopped := True\<rparr>)"

definition poolRun :: "'r poolEvent list \<Rightarrow> 'r taskManager \<Rightarrow> 'r taskManager" where
  "poolRun evs tm = fold poolStep evs tm"

text \<open>The manager after the constructor and the assignments of \<^verbatim>\<open>start\<close>.\<close>

definition newManager :: "keyObj option list \<Rightarrow> nat \<Rightarrow> 'r taskManager" where
  "newManager q n =
     \<lparr>queue = q, currentIndex = 0, isStopped = False, tm_concurrency = n, workers = [],
      poolReturned = False, emitted = [], claimed = []\<rparr>"

definition doneCount :: "'r taskManager \<Rightarrow> nat" where
  "doneCount tm = length (filter (\<lambda>c. c = OnDone) (emitted tm))"

text \<open>What holds of the cursor at every moment, and of a pool between two events.\<close>

definition cursorInv :: "'r taskManager \<Rightarrow> bool" where
  "cursorInv tm =
     (map snd (claimed tm) = [0..<currentIndex tm] \<and> currentIndex tm \<le> length (queue tm))"

definition poolInv :: "'r taskManager \<Rightarrow> bool" where
  "poolInv tm =
     (cursorInv tm
      \<and> poolReturned tm = list_all (\<lambda>w. w = Exited) (workers tm)
      \<and> doneCount tm = (if poolReturned tm \<and> (\<not> isStopped tm \<or> doneCount tm = 1) then 1 else 0))"

section \<open>The validator\<close>

subsection \<open>Requests, responses and what the validator does to the outside\<close>

text \<open>
  A request as \<^verbatim>\<open>secureProxiedFetch(url, options, region, env)\<close> receives it. The body is
  kept as the object that \<^verbatim>\<open>JSON.stringify\<close> turns into text (and that
  \<^verbatim>\<open>JSON.parse\<close> gives back in \<^verbatim>\<open>onFail\<close>).
\<close>

record request =
  rq_url :: string
  rq_method :: string
  rq_headers :: "(string \<times> string) list"
  rq_body :: "json option"
  rq_region :: string

text \<open>What the first \<^verbatim>\<open>reader.read()\<close> of a response body does: it reports the end of
  the stream, yields a chunk, or fails.\<close>

datatype readOutcome = ReadDone | ReadChunk | ReadFails string

text \<open>A response: \<open>rs_firstRead\<close> is \<open>None\<close> when \<^verbatim>\<open>response.body\<close> is \<^verbatim>\<open>null\<close>;
  \<open>rs_cancelFails\<close> says that the promise of \<^verbatim>\<open>reader.cancel()\<close> is rejected.\<close>

record response =
  rs_status :: nat
  rs_text :: string
  rs_firstRead :: "readOutcome option"
  rs_cancelFails :: bool

definition ok :: "response \<Rightarrow> bool" where
  "ok r = (200 \<le> rs_status r \<and> rs_status r \<le> 299)"

text \<open>The exceptions that reach the \<^verbatim>\<open>catch\<close> of \<^verbatim>\<open>_checkTokenTemplate\<close>: a fetch that
  rejects, a body that is not JSON, a property read on \<^verbatim>\<open>null\<close>, a read that fails, and
  whatever a balance adapter throws while it computes.\<close>

datatype exn = FetchFailed string | JsonSyntaxError | TypeError | ReadFailed string | Thrown string

datatype fetchOutcome = Throws string | Responds response

text \<open>The record of what the validator did, in order.\<close>

datatype effect =
    Fetched request
  | GetReader | ReaderRead | ReaderCancel | ConsoleWarn | ReaderReleaseLock

datatype rawError = UpstreamError nat json | Exception exn

text \<open>What a balance adapter returns; for \<open>br_balance\<close>, \<open>BNull\<close> stands for a NaN. No
  adapter of the source returns a \<^verbatim>\<open>token\<close> or an \<^verbatim>\<open>isValid\<close> field.\<close>

record balanceResult =
  br_balance :: jsbalance
  br_message :: "string option"
  br_others :: "(string \<times> json) list"

text \<open>
  The world of the validator: the JavaScript runtime; the network behind
  \<^verbatim>\<open>secureProxiedFetch\<close>, which answers a request knowing all that happened before; and
  what each balance adapter computes from the parsed body of its response (number parsing
  and rounding): an exception, nothing (the adapter falls through to its default), or its
  result.
\<close>

record platform =
  pf_runtime :: js_runtime
  pf_net :: "effect list \<Rightarrow> request \<Rightarrow> fetchOutcome"
  pf_interpret :: "string \<Rightarrow> json \<Rightarrow> exn + balanceResult option"

definition secureProxiedFetch ::
  "platform \<Rightarrow> request \<Rightarrow> effect list \<Rightarrow> fetchOutcome \<times> effect list" where
  "secureProxiedFetch pf req effs = (pf_net pf effs req, effs @ [Fetched req])"

record providerMeta =
  apiStyle :: string
  balanceCheck :: "string option"

record validationResult =
  v_token :: string
  v_isValid :: bool
  v_message :: "string option"
  v_error :: bool
  v_rawResponse :: "json option"
  v_rawError :: "rawError option"
  v_balance :: jsbalance
  v_others :: "(string \<times> json) list"

subsection \<open>The messages of the source\<close>

text \<open>In English: valid, but the balance cannot be fetched.\<close>

definition MSG_BALANCE_UNAVAILABLE :: string where
  "MSG_BALANCE_UNAVAILABLE =
     [CHR 0xE6, CHR 0x9C, CHR 0x89, CHR 0xE6, CHR 0x95, CHR 0x88, CHR 0xE4, CHR 0xBD,
      CHR 0x86, CHR 0xE6, CHR 0x97, CHR 0xA0, CHR 0xE6, CHR 0xB3, CHR 0x95, CHR 0xE8,
      CHR 0x8E, CHR 0xB7, CHR 0xE5, CHR 0x8F, CHR 0x96, CHR 0xE4, CHR 0xBD, CHR 0x99,
      CHR 0xE9, CHR 0xA2, CHR 0x9D]"

text \<open>In English: validation failed (the stream ended early).\<close>

definition MSG_STREAM_ENDED :: string where
  "MSG_STREAM_ENDED =
     [CHR 0xE9, CHR 0xAA, CHR 0x8C, CHR 0xE8, CHR 0xAF, CHR 0x81, CHR 0xE5, CHR 0xA4,
      CHR 0xB1, CHR 0xE8, CHR 0xB4, CHR 0xA5, CHR 0x20, CHR 0x28, CHR 0xE6, CHR 0xB5,
      CHR 0x81, CHR 0xE6, CHR 0x8F, CHR 0x90, CHR 0xE5, CHR 0x89, CHR 0x8D, CHR 0xE7,
      CHR 0xBB, CHR 0x93, CHR 0xE6, CHR 0x9D, CHR 0x9F, CHR 0x29]"

text \<open>In English: network error or unknown exception.\<close>

definition MSG_NETWORK :: string where
  "MSG_NETWORK =
     [CHR 0xE7, CHR 0xBD, CHR 0x91, CHR 0xE7, CHR 0xBB, CHR 0x9C, CHR 0xE9, CHR 0x94,
      CHR 0x99, CHR 0xE8, CHR 0xAF, CHR 0xAF, CHR 0xE6, CHR 0x88, CHR 0x96, CHR 0xE6,
      CHR 0x9C, CHR 0xAA, CHR 0xE7, CHR 0x9F, CHR 0xA5, CHR 0xE5, CHR 0xBC, CHR 0x82,
      CHR 0xE5, CHR 0xB8, CHR 0xB8]"

text \<open>In English: authentication failed.\<close>

definition MSG_AUTH_FAILED :: string where
  "MSG_AUTH_FAILED =
     [CHR 0xE8, CHR 0xAE, CHR 0xA4, CHR 0xE8, CHR 0xAF, CHR 0x81, CHR 0xE5, CHR 0xA4,
      CHR 0xB1, CHR 0xE8, CHR 0xB4, CHR 0xA5]"

text \<open>In English: too many requests.\<close>

definition MSG_RATE_LIMITED :: string where
  "MSG_RATE_LIMITED =
     [CHR 0xE8, CHR 0xAF, CHR 0xB7, CHR 0xE6, CHR 0xB1, CHR 0x82, CHR 0xE9, CHR 0xA2,
      CHR 0x91, CHR 0xE7, CHR 0xB9, CHR 0x81]"

text \<open>In English: unsupported provider type.\<close>

definition MSG_UNSUPPORTED_STYLE :: string where
  "MSG_UNSUPPORTED_STYLE =
     [CHR 0xE4, CHR 0xB8, CHR 0x8D, CHR 0xE6, CHR 0x94, CHR 0xAF, CHR 0xE6, CHR 0x8C,
      CHR 0x81, CHR 0xE7, CHR 0x9A, CHR 0x84, CHR 0xE6, CHR 0x8F, CHR 0x90, CHR 0xE4,
      CHR 0xBE, CHR 0x9B, CHR 0xE5, CHR 0x95, CHR 0x86, CHR 0xE7, CHR 0xB1, CHR 0xBB,
      CHR 0xE5, CHR 0x9E, CHR 0x8B]"
subsection \<open>Strings and objects\<close>

text \<open>\<^verbatim>\<open>normalizeBaseUrl\<close>: the slashes at the end go.\<close>

definition normalizeBaseUrl :: "string \<Rightarrow> string" where
  "normalizeBaseUrl url = rev (dropWhile (\<lambda>c. c = CHR ''/'') (rev url))"

text \<open>\<^verbatim>\<open>s.replace(pat, "")\<close> with a string pattern: the first occurrence goes.\<close>

fun remove_first :: "string \<Rightarrow> string \<Rightarrow> string" where
  "remove_first pat [] = []"
| "remove_first pat (c # cs) =
     (if prefix pat (c # cs) then drop (length pat) (c # cs) else c # remove_first pat cs)"

fun digits :: "nat \<Rightarrow> string" where
  "digits n =
     (if n < 10 then [char_of (48 + n)] else digits (n div 10) @ [char_of (48 + n mod 10)])"

text \<open>\<^verbatim>\<open>x || d\<close> for a number that may be missing.\<close>

definition or_default :: "int option \<Rightarrow> int \<Rightarrow> int" where
  "or_default x d = (case x of None \<Rightarrow> d | Some n \<Rightarrow> if n = 0 then d else n)"

definition obj_delete :: "string \<Rightarrow> (string \<times> json) list \<Rightarrow> (string \<times> json) list" where
  "obj_delete k kvs = filter (\<lambda>kv. fst kv \<noteq> k) kvs"

definition obj_set :: "string \<Rightarrow> json \<Rightarrow> (string \<times> json) list \<Rightarrow> (string \<times> json) list" where
  "obj_set k v kvs =
     (if k \<in> fst ` set kvs then map (\<lambda>kv. if fst kv = k then (k, v) else kv) kvs
      else kvs @ [(k, v)])"

subsection \<open>Error responses\<close>

record apiError =
  ae_message :: string
  ae_status :: nat
  ae_content :: json

text \<open>\<^verbatim>\<open>typeof v === 'object'\<close> for a truthy value.\<close>

fun is_object :: "json \<Rightarrow> bool" where
  "is_object (JArr xs) = True"
| "is_object (JObj kvs) = True"
| "is_object JNull = True"
| "is_object _ = False"

definition rawErrorContent :: "js_runtime \<Rightarrow> response \<Rightarrow> json" where
  "rawErrorContent rt r =
     (case JSON_parse rt (rs_text r) of Some j \<Rightarrow> j | None \<Rightarrow> JStr (rs_text r))"

definition str :: "js_runtime \<Rightarrow> json option \<Rightarrow> string" where
  "str rt v = (case v of Some j \<Rightarrow> String_of rt j | None \<Rightarrow> ''undefined'')"

definition nan :: "js_runtime \<Rightarrow> json option \<Rightarrow> bool" where
  "nan rt v = (case v of Some j \<Rightarrow> isNaN_of rt j | None \<Rightarrow> True)"

definition detailText :: "js_runtime \<Rightarrow> json option \<Rightarrow> string" where
  "detailText rt v =
     (case v of
        Some j \<Rightarrow> if is_object j then JSON_stringify rt j else String_of rt j
      | None \<Rightarrow> ''undefined'')"

definition handleApiError :: "js_runtime \<Rightarrow> response \<Rightarrow> apiError" where
  "handleApiError rt r =
     (let content = Some (rawErrorContent rt r);
          reason = get_prop (index0 (get_prop (get_prop content ''error'') ''details'')) ''reason'';
          code = get_prop (get_prop content ''error'') ''code'';
          errorMessage = get_prop (get_prop content ''error'') ''message'';
          topLevelMessage = get_prop content ''message'';
          detail = get_prop content ''detail'';
          message =
            (if truthy reason then str rt reason
             else if truthy code \<and> nan rt code then str rt code
             else if truthy errorMessage then str rt errorMessage
             else if truthy topLevelMessage then str rt topLevelMessage
             else if truthy (get_prop (get_prop content ''errors'') ''message'')
                  then str rt (get_prop (get_prop content ''errors'') ''message'')
             else if truthy detail then detailText rt detail
             else if rs_status r = 401 then MSG_AUTH_FAILED
             else if rs_status r = 429 then MSG_RATE_LIMITED
             else ''HTTP '' @ digits (rs_status r))
      in \<lparr>ae_message = message, ae_status = rs_status r, ae_content = rawErrorContent rt r\<rparr>)"



subsection \<open>Balance adapters\<close>

definition BALANCE_UNAVAILABLE :: balanceResult where
  "BALANCE_UNAVAILABLE =
     \<lparr>br_balance = BNum (- 1), br_message = Some MSG_BALANCE_UNAVAILABLE, br_others = []\<rparr>"

definition bearer :: "string \<Rightarrow> string \<times> string" where
  "bearer tok = (''Authorization'', ''Bearer '' @ tok)"

text \<open>The request of the balance adapter of a given name in \<^verbatim>\<open>balanceCheckers\<close>;
  \<open>None\<close> when the table has no such adapter.\<close>

definition balanceRequest :: "string \<Rightarrow> string \<Rightarrow> string \<Rightarrow> string \<Rightarrow> request option" where
  "balanceRequest name tok base reg =
     (let stripped = remove_first ''/v1'' (normalizeBaseUrl base);
          get = (\<lambda>url hs. Some \<lparr>rq_url = url, rq_method = ''GET'', rq_headers = hs,
                                  rq_body = None, rq_region = reg\<rparr>)
      in if name = ''checkOpenRouterBalance'' then get (stripped @ ''/v1/credits'') [bearer tok]
         else if name = ''checkSiliconFlowBalance'' then get (stripped @ ''/v1/user/info'') [bearer tok]
         else if name = ''checkDeepSeekBalance''
           then get (stripped @ ''/user/balance'') [bearer tok, (''Accept'', ''application/json'')]
         else if name = ''checkMoonshotBalance''
           then get (normalizeBaseUrl base @ ''/users/me/balance'') [bearer tok]
         else if name = ''checkNewAPIBalance'' then get (stripped @ ''/api/usage/token'') [bearer tok]
         else None)"

text \<open>An adapter: the fetch, then for an \<^verbatim>\<open>ok\<close> response the body as JSON and what the
  adapter makes of it; \<^verbatim>\<open>BALANCE_UNAVAILABLE\<close> for any other response and when the
  adapter finds nothing to return. Exceptions leave the adapter.\<close>

definition balanceChecker ::
  "platform \<Rightarrow> string \<Rightarrow> request \<Rightarrow> effect list \<Rightarrow> (exn + balanceResult) \<times> effect list" where
  "balanceChecker pf name req effs =
     (case secureProxiedFetch pf req effs of
        (Throws m, effs1) \<Rightarrow> (Inl (FetchFailed m), effs1)
      | (Responds resp, effs1) \<Rightarrow>
          if ok resp then
            (case JSON_parse (pf_runtime pf) (rs_text resp) of
               None \<Rightarrow> (Inl JsonSyntaxError, effs1)
             | Some d \<Rightarrow>
                 (case pf_interpret pf name d of
                    Inl e \<Rightarrow> (Inl e, effs1)
                  | Inr None \<Rightarrow> (Inr BALANCE_UNAVAILABLE, effs1)
                  | Inr (Some b) \<Rightarrow> (Inr b, effs1)))
          else (Inr BALANCE_UNAVAILABLE, effs1))"

text \<open>\<^verbatim>\<open>Object.assign(result, balanceResult)\<close>.\<close>

definition assignBalance :: "validationResult \<Rightarrow> balanceResult \<Rightarrow> validationResult" where
  "assignBalance res b =
     res\<lparr>v_balance := br_balance b,
         v_message := (case br_message b of None \<Rightarrow> v_message res | Some m \<Rightarrow> Some m),
         v_others := v_others res @ br_others b\<rparr>"

subsection \<open>The template\<close>

text \<open>The result of the \<^verbatim>\<open>catch\<close> of the template, of a failed validation, and of a
  stream that ends at once.\<close>

definition caught :: "string \<Rightarrow> exn \<Rightarrow> validationResult" where
  "caught tok e =
     \<lparr>v_token = tok, v_isValid = False, v_message = Some MSG_NETWORK, v_error = True,
      v_rawResponse = None, v_rawError = Some (Exception e), v_balance = BAbsent, v_others = []\<rparr>"

definition failed :: "string \<Rightarrow> apiError \<Rightarrow> validationResult" where
  "failed tok err =
     \<lparr>v_token = tok, v_isValid = False, v_message = Some (ae_message err), v_error = True,
      v_rawResponse = None, v_rawError = Some (UpstreamError (ae_status err) (ae_content err)),
      v_balance = BAbsent, v_others = []\<rparr>"

definition streamEnded :: "string \<Rightarrow> validationResult" where
  "streamEnded tok =
     \<lparr>v_token = tok, v_isValid = False, v_message = Some MSG_STREAM_ENDED, v_error = True,
      v_rawResponse = None, v_rawError = None, v_balance = BAbsent, v_others = []\<rparr>"

definition validWith :: "string \<Rightarrow> json \<Rightarrow> validationResult" where
  "validWith tok raw =
     \<lparr>v_token = tok, v_isValid = True, v_message = None, v_error = False,
      v_rawResponse = Some raw, v_rawError = None, v_balance = BAbsent, v_others = []\<rparr>"

text \<open>How a part of the template ends: with a \<^verbatim>\<open>return\<close>, by going on to the next
  statement with a value, or with an exception.\<close>

datatype 'a exit = Returns validationResult | GoesOn 'a | Raises exn

text \<open>The block under \<^verbatim>\<open>if (enableStream)\<close>: \<^verbatim>\<open>getReader\<close> throws on a \<^verbatim>\<open>null\<close> body,
  before the \<^verbatim>\<open>try\<close>; otherwise one read, and the \<^verbatim>\<open>finally\<close> clause (cancel, with a
  warning when the cancel is rejected, and release) on each of the three ways out.\<close>

definition cleanup :: "response \<Rightarrow> effect list" where
  "cleanup resp =
     (if rs_cancelFails resp then [ReaderCancel, ConsoleWarn] else [ReaderCancel])
       @ [ReaderReleaseLock]"

definition streamBlock :: "string \<Rightarrow> response \<Rightarrow> effect list \<Rightarrow> json exit \<times> effect list" where
  "streamBlock tok resp effs =
     (case rs_firstRead resp of
        None \<Rightarrow> (Raises TypeError, effs)
      | Some ReadDone \<Rightarrow> (Returns (streamEnded tok), effs @ [GetReader, ReaderRead] @ cleanup resp)
      | Some ReadChunk \<Rightarrow>
          (GoesOn (JObj [(''note'', JStr ''Validation successful via streaming.'')]),
           effs @ [GetReader, ReaderRead] @ cleanup resp)
      | Some (ReadFails m) \<Rightarrow>
          (Raises (ReadFailed m), effs @ [GetReader, ReaderRead] @ cleanup resp))"

definition bufferedBody :: "js_runtime \<Rightarrow> response \<Rightarrow> json" where
  "bufferedBody rt resp =
     (case JSON_parse rt (rs_text resp) of
        Some j \<Rightarrow> j
      | None \<Rightarrow> JObj [(''note'', JStr ''Failed to parse JSON response.'')])"

text \<open>The balance step: only when the provider names an adapter that exists.\<close>

definition balanceStep ::
  "platform \<Rightarrow> providerMeta \<Rightarrow> providerConfig \<Rightarrow> validationResult \<Rightarrow> effect list
     \<Rightarrow> validationResult \<times> effect list" where
  "balanceStep pf meta pc res effs =
     (case balanceCheck meta of
        None \<Rightarrow> (res, effs)
      | Some name \<Rightarrow>
          (case balanceRequest name (v_token res) (baseUrl pc) (region pc) of
             None \<Rightarrow> (res, effs)
           | Some req \<Rightarrow>
               (case balanceChecker pf name req effs of
                  (Inl e, effs1) \<Rightarrow> (caught (v_token res) e, effs1)
                | (Inr b, effs1) \<Rightarrow> (assignBalance res b, effs1))))"

text \<open>A strategy: how to build the request and, for one of them, what to try after a
  failure.\<close>

record strategy =
  buildRequest :: "string \<Rightarrow> providerConfig \<Rightarrow> request"
  onFail :: "(apiError \<Rightarrow> string \<Rightarrow> providerConfig \<Rightarrow> effect list
               \<Rightarrow> validationResult option \<times> effect list) option"

definition checkTokenTemplate ::
  "platform \<Rightarrow> string \<Rightarrow> providerMeta \<Rightarrow> providerConfig \<Rightarrow> strategy \<Rightarrow> effect list
     \<Rightarrow> validationResult \<times> effect list" where
  "checkTokenTemplate pf tok meta pc strat effs =
     (case secureProxiedFetch pf (buildRequest strat tok pc) effs of
        (Throws m, effs1) \<Rightarrow> (caught tok (FetchFailed m), effs1)
      | (Responds resp, effs1) \<Rightarrow>
          if ok resp then
            (if enableStream pc then
               (case streamBlock tok resp effs1 of
                  (Returns r, effs2) \<Rightarrow> (r, effs2)
                | (Raises e, effs2) \<Rightarrow> (caught tok e, effs2)
                | (GoesOn raw, effs2) \<Rightarrow> balanceStep pf meta pc (validWith tok raw) effs2)
             else balanceStep pf meta pc (validWith tok (bufferedBody (pf_runtime pf) resp)) effs1)
          else
            (let err = handleApiError (pf_runtime pf) resp in
             case onFail strat of
               None \<Rightarrow> (failed tok err, effs1)
             | Some f \<Rightarrow>
                 (case f err tok pc effs1 of
                    (Some r, effs2) \<Rightarrow> (r, effs2)
                  | (None, effs2) \<Rightarrow> (failed tok err, effs2))))"

subsection \<open>The four strategies\<close>

definition jsonHeaders :: "(string \<times> string) list" where
  "jsonHeaders = [(''Content-Type'', ''application/json'')]"

definition promptOr :: "string \<Rightarrow> string \<Rightarrow> string" where
  "promptOr p d = (if p = [] then d else p)"

definition post :: "string \<Rightarrow> (string \<times> string) list \<Rightarrow> json \<Rightarrow> string \<Rightarrow> request" where
  "post url hs b reg =
     \<lparr>rq_url = url, rq_method = ''POST'', rq_headers = hs, rq_body = Some b, rq_region = reg\<rparr>"

definition openai_body :: "providerConfig \<Rightarrow> (string \<times> json) list" where
  "openai_body pc =
     [(''model'', JStr (model pc)),
      (''messages'', JArr [JObj [(''role'', JStr ''user''),
                                (''content'', JStr (promptOr (validationPrompt pc) ''Hi''))]]),
      (''max_tokens'', JNum (of_int (or_default (validationMaxTokens pc) 1))),
      (''stream'', JBool (enableStream pc))]"

definition openai_buildRequest :: "string \<Rightarrow> providerConfig \<Rightarrow> request" where
  "openai_buildRequest tok pc =
     post (normalizeBaseUrl (baseUrl pc) @ ''/chat/completions'') (jsonHeaders @ [bearer tok])
       (JObj (openai_body pc)) (region pc)"

definition openai_responses_buildRequest :: "string \<Rightarrow> providerConfig \<Rightarrow> request" where
  "openai_responses_buildRequest tok pc =
     post (normalizeBaseUrl (baseUrl pc) @ ''/responses'') (jsonHeaders @ [bearer tok])
       (JObj [(''model'', JStr (model pc)),
              (''input'', JStr (promptOr (validationPrompt pc) ''You just need to reply Hi.'')),
              (''max_output_tokens'', JNum (of_int (or_default (validationMaxOutputTokens pc) 16))),
              (''stream'', JBool (enableStream pc))])
       (region pc)"

definition anthropic_buildRequest :: "string \<Rightarrow> providerConfig \<Rightarrow> request" where
  "anthropic_buildRequest tok pc =
     post (normalizeBaseUrl (baseUrl pc) @ ''/messages'')
       [(''x-api-key'', tok), (''anthropic-version'', ''2023-06-01''),
        (''Content-Type'', ''application/json''),
        (''anthropic-dangerous-direct-browser-access'', ''true'')]
       (JObj [(''model'', JStr (model pc)),
              (''max_tokens'', JNum (of_int (or_default (validationMaxTokens pc) 1))),
              (''messages'', JArr [JObj [(''role'', JStr ''user''),
                 (''content'', JStr (promptOr (validationPrompt pc) ''You just need to reply Hi.''))]]),
              (''stream'', JBool (enableStream pc))])
       (region pc)"

definition gemini_buildRequest :: "string \<Rightarrow> providerConfig \<Rightarrow> request" where
  "gemini_buildRequest tok pc =
     post (normalizeBaseUrl (baseUrl pc) @ ''/v1beta/models/'' @ model pc @ '':''
             @ (if enableStream pc then ''streamGenerateContent'' else ''generateContent''))
       (jsonHeaders @ [(''x-goog-api-key'', tok)])
       (JObj [(''contents'', JArr [JObj [(''parts'', JArr [JObj [(''text'',
                 JStr (promptOr (validationPrompt pc) ''You just need to reply Hi.''))]])]]),
              (''generationConfig'', JObj [(''maxOutputTokens'',
                 JNum (of_int (or_default (validationMaxOutputTokens pc) 16)))])])
       (region pc)"

text \<open>\<^verbatim>\<open>apiStrategies.openai.onFail\<close>: for the one error it knows, the request is built
  again, \<^verbatim>\<open>max_tokens\<close> leaves its body and \<^verbatim>\<open>max_completion_tokens\<close> enters it, and the
  template runs once more with a strategy that only hands out this request and has no
  \<^verbatim>\<open>onFail\<close>, for a provider description without balance adapter.\<close>

definition unsupportedMaxTokens :: "apiError \<Rightarrow> bool" where
  "unsupportedMaxTokens err =
     (get_prop (get_prop (Some (ae_content err)) ''error'') ''code'' = Some (JStr ''unsupported_parameter'')
      \<and> get_prop (get_prop (Some (ae_content err)) ''error'') ''param'' = Some (JStr ''max_tokens''))"

definition retryBody :: "providerConfig \<Rightarrow> (string \<times> json) list" where
  "retryBody pc =
     obj_set ''max_completion_tokens'' (JNum (of_int (or_default (validationMaxOutputTokens pc) 16)))
       (obj_delete ''max_tokens'' (openai_body pc))"

definition retryRequest :: "string \<Rightarrow> providerConfig \<Rightarrow> request" where
  "retryRequest tok pc = (openai_buildRequest tok pc)\<lparr>rq_body := Some (JObj (retryBody pc))\<rparr>"

definition emptyMeta :: providerMeta where
  "emptyMeta = \<lparr>apiStyle = [], balanceCheck = None\<rparr>"

definition retryStrategy :: "string \<Rightarrow> providerConfig \<Rightarrow> strategy" where
  "retryStrategy tok pc = \<lparr>buildRequest = (\<lambda>t c. retryRequest tok pc), onFail = None\<rparr>"

definition openai_onFail ::
  "platform \<Rightarrow> apiError \<Rightarrow> string \<Rightarrow> providerConfig \<Rightarrow> effect list
     \<Rightarrow> validationResult option \<times> effect list" where
  "openai_onFail pf err tok pc effs =
     (if unsupportedMaxTokens err then
        (case checkTokenTemplate pf tok emptyMeta pc (retryStrategy tok pc) effs of
           (r, effs1) \<Rightarrow> (Some r, effs1))
      else (None, effs))"

definition apiStrategies :: "platform \<Rightarrow> string \<Rightarrow> strategy option" where
  "apiStrategies pf style =
     (if style = ''openai''
        then Some \<lparr>buildRequest = openai_buildRequest, onFail = Some (openai_onFail pf)\<rparr>
      else if style = ''openai_responses''
        then Some \<lparr>buildRequest = openai_responses_buildRequest, onFail = None\<rparr>
      else if style = ''anthropic''
        then Some \<lparr>buildRequest = anthropic_buildRequest, onFail = None\<rparr>
      else if style = ''gemini''
        then Some \<lparr>buildRequest = gemini_buildRequest, onFail = None\<rparr>
      else None)"

definition unsupportedStyle :: "string \<Rightarrow> validationResult" where
  "unsupportedStyle tok =
     \<lparr>v_token = tok, v_isValid = False, v_message = Some MSG_UNSUPPORTED_STYLE, v_error = True,
      v_rawResponse = None, v_rawError = None, v_balance = BAbsent, v_others = []\<rparr>"

definition checkToken ::
  "platform \<Rightarrow> string \<Rightarrow> providerMeta \<Rightarrow> providerConfig \<Rightarrow> effect list
     \<Rightarrow> validationResult \<times> effect list" where
  "checkToken pf tok meta pc effs =
     (case apiStrategies pf (apiStyle meta) of
        None \<Rightarrow> (unsupportedStyle tok, effs)
      | Some strat \<Rightarrow> checkTokenTemplate pf tok meta pc strat effs)"

definition fetches :: "effect list \<Rightarrow> request list" where
  "fetches effs = List.map_filter (\<lambda>e. case e of Fetched r \<Rightarrow> Some r | _ \<Rightarrow> None) effs"

section \<open>Example inputs\<close>

definition example_cfg :: "string \<Rightarrow> configStore" where
  "example_cfg input =
     \<lparr>tokensInput = input, currentProvider = ''deepseek'',
      currentSettings = \<lparr>ps_baseUrl = ''https://api.deepseek.com'', ps_model = ''deepseek-chat'',
                         ps_enableStream = False\<rparr>,
      hasBalance = True, currentRegion = ''wnam'', threshold = 1, concurrency = 10,
      cfg_validationPrompt = ''You just need to reply Hi.'', cfg_validationMaxTokens = Some 1,
      cfg_validationMaxOutputTokens = Some 16\<rparr>"

definition example_rt :: js_runtime where
  "example_rt =
     \<lparr>JSON_parse = (\<lambda>s. None), JSON_stringify = (\<lambda>j. ''{}''), String_of = (\<lambda>j. []),
      isNaN_of = (\<lambda>j. True), toLowerCase = (\<lambda>s. s)\<rparr>"

text \<open>An input of \<open>n\<close> keys.\<close>

definition manyKeys :: "nat \<Rightarrow> string" where
  "manyKeys n = concat (replicate n ''k,'')"

definition valid_res :: "string \<Rightarrow> nat \<Rightarrow> jsbalance \<Rightarrow> res" where
  "valid_res t n b =
     \<lparr>r_token = t, r_isValid = True, r_balance = b, r_order = n, r_message = None,
      r_rawError = None, r_currency = None, r_totalGranted = None, r_finalCategory = None\<rparr>"

definition oneKeyRun :: checker where
  "oneKeyRun =
     run example_rt
       [UserStart, SocketOpen 0, SocketMessage 0 (MsgResult (Some (valid_res ''k1'' 0 (BNum 5))))]
       (initial (example_cfg ''k1''))"

definition openRun :: checker where
  "openRun = run example_rt [UserStart, SocketOpen 0] (initial (example_cfg ''k1''))"

definition threeRetries :: checker where
  "threeRetries =
     run example_rt
       [SocketClose 0 1006, TimerFires 0, SocketClose 1 1006, TimerFires 1,
        SocketClose 2 1006, TimerFires 2] openRun"

text \<open>
  A run over the input \<^verbatim>\<open>k1,k2\<close> in which the first session closes abnormally and the user
  pauses and resumes before the reconnect timer (one second) fires. The resume opens session
  1 for the whole batch; the timer, which only looks at the two flags, then opens session 2
  for the same batch. Both servers validate \<^verbatim>\<open>k1\<close>; session 1 delivers both results and
  \<^verbatim>\<open>done\<close>, session 2 delivers its result for \<^verbatim>\<open>k1\<close> in between.
\<close>

definition resumedBeforeTimer :: "event list" where
  "resumedBeforeTimer =
     [UserStart, SocketOpen 0, SocketClose 0 1006, UserPause, UserResume, SocketOpen 1,
      TimerFires 0, SocketOpen 2,
      SocketMessage 1 (MsgResult (Some (valid_res ''k1'' 0 (BNum 5)))),
      SocketMessage 2 (MsgResult (Some (valid_res ''k1'' 0 (BNum 5)))),
      SocketMessage 1 (MsgResult (Some (valid_res ''k2'' 1 (BNum 5)))),
      SocketMessage 1 MsgDone, SocketClose 1 1000, SocketClose 2 1000,
      TimerFires 1, TimerFires 2]"

definition doubledRun :: checker where
  "doubledRun = run example_rt resumedBeforeTimer (initial (example_cfg ''k1,k2''))"

text \<open>The same input and the same results in a run without disturbance.\<close>

definition plainRun :: checker where
  "plainRun =
     run example_rt
       [UserStart, SocketOpen 0,
        SocketMessage 0 (MsgResult (Some (valid_res ''k1'' 0 (BNum 5)))),
        SocketMessage 0 (MsgResult (Some (valid_res ''k2'' 1 (BNum 5)))),
        SocketMessage 0 MsgDone, SocketClose 0 1000, TimerFires 0, TimerFires 1]
       (initial (example_cfg ''k1,k2''))"

definition threeItems :: "keyObj option list" where
  "threeItems =
     [Some \<lparr>token = ''a'', order = 0\<rparr>, Some \<lparr>token = ''b'', order = 1\<rparr>,
      Some \<lparr>token = ''c'', order = 2\<rparr>]"

definition toTheEnd :: "unit poolEvent list" where
  "toTheEnd =
     [CheckEnds 0 (Inr ()), TimerEnds 0, CheckEnds 1 (Inl ''boom''), TimerEnds 1,
      CheckEnds 0 (Inr ()), TimerEnds 0]"

definition stoppedEarly :: "unit poolEvent list" where
  "stoppedEarly =
     [CheckEnds 0 (Inr ())] @ StopCalled # [TimerEnds 0, CheckEnds 1 (Inr ()), TimerEnds 1]"

text \<open>Example responses and networks for the validator. The example runtime parses the
  two bodies that the examples use as \<^verbatim>\<open>JSON.parse\<close> does.\<close>

definition quoted :: "string \<Rightarrow> string" where
  "quoted s = [CHR 0x22] @ s @ [CHR 0x22]"

definition unsupportedText :: string where
  "unsupportedText =
     ''{'' @ quoted ''error'' @ '':{'' @ quoted ''code'' @ '':'' @ quoted ''unsupported_parameter''
       @ '','' @ quoted ''param'' @ '':'' @ quoted ''max_tokens'' @ ''}}''"

definition unsupportedJson :: json where
  "unsupportedJson =
     JObj [(''error'', JObj [(''code'', JStr ''unsupported_parameter''),
                             (''param'', JStr ''max_tokens'')])]"

definition completionText :: string where
  "completionText = ''{'' @ quoted ''id'' @ '':'' @ quoted ''chatcmpl-1'' @ ''}''"

definition completionJson :: json where
  "completionJson = JObj [(''id'', JStr ''chatcmpl-1'')]"

definition serverRuntime :: js_runtime where
  "serverRuntime =
     \<lparr>JSON_parse =
        (\<lambda>s. if s = unsupportedText then Some unsupportedJson
             else if s = completionText then Some completionJson else None),
      JSON_stringify = (\<lambda>j. ''{}''),
      String_of = (\<lambda>j. case j of JStr s \<Rightarrow> s | _ \<Rightarrow> ''[object Object]''),
      isNaN_of = (\<lambda>j. True), toLowerCase = (\<lambda>s. s)\<rparr>"

definition serverConfig :: providerConfig where
  "serverConfig = buildProviderConfig (example_cfg ''sk-1'')"

definition deepseekMeta :: providerMeta where
  "deepseekMeta = \<lparr>apiStyle = ''openai'', balanceCheck = Some ''checkDeepSeekBalance''\<rparr>"

text \<open>An upstream that rejects \<^verbatim>\<open>max_tokens\<close> and, when asked again, the new parameter
  as well.\<close>

definition rejection :: response where
  "rejection = \<lparr>rs_status = 400, rs_text = unsupportedText, rs_firstRead = Some ReadDone,
                 rs_cancelFails = False\<rparr>"

definition rejecting :: platform where
  "rejecting =
     \<lparr>pf_runtime = serverRuntime,
      pf_net = (\<lambda>effs req. Responds rejection),
      pf_interpret = (\<lambda>name d. Inr None)\<rparr>"

text \<open>An upstream that accepts the key, with a body that streams, while the request for
  the balance (the only \<^verbatim>\<open>GET\<close>) fails in the network.\<close>

definition acceptance :: response where
  "acceptance = \<lparr>rs_status = 200, rs_text = completionText, rs_firstRead = Some ReadChunk,
                  rs_cancelFails = False\<rparr>"

definition balanceDown :: platform where
  "balanceDown =
     \<lparr>pf_runtime = serverRuntime,
      pf_net = (\<lambda>effs req.
         if rq_method req = ''GET'' then Throws ''connection reset'' else Responds acceptance),
      pf_interpret = (\<lambda>name d. Inr None)\<rparr>"

definition streamingConfig :: providerConfig where
  "streamingConfig = serverConfig\<lparr>enableStream := True\<rparr>"

section \<open>Properties of the checker store\<close>

subsection \<open>The results store and the buffer\<close>

lemma grouped_append: "grouped cfg (xs @ ys) c = grouped cfg xs c @ grouped cfg ys c"
  by (simp add: grouped_def map_filter_def)

lemma grouped_Nil: "grouped cfg [] c = []"
  by (simp add: grouped_def map_filter_simps)

lemma grouped_single:
  "grouped cfg [(r, ord)] c =
     (if r_finalCategory r = Some c \<and> getDisplayText cfg r \<noteq> None
      then [\<lparr>i_token = r_token r, i_balance = r_balance r, i_order = ord\<rparr>] else [])"
  by (auto simp: grouped_def map_filter_simps buildResultItem_def split: option.splits)

lemma buildable_Nil: "buildable cfg []"
  by (simp add: buildable_def)

lemma buildable_append: "buildable cfg (xs @ ys) = (buildable cfg xs \<and> buildable cfg ys)"
  by (auto simp: buildable_def)

lemma buildable_single:
  "buildable cfg [(r, ord)] = (r_finalCategory r = None \<or> getDisplayText cfg r \<noteq> None)"
  by (auto simp: buildable_def buildResultItem_def split: option.splits)

lemma addResults_buildable:
  "buildable (config st) items \<Longrightarrow>
   addResults items st = Completed (st\<lparr>results := (\<lambda>c. results st c @ grouped (config st) items c)\<rparr>)"
  by (simp add: addResults_def buildable_def grouped_Nil)

lemma addResults_throws:
  "\<not> buildable (config st) items \<Longrightarrow> addResults items st = Threw st"
  by (auto simp: addResults_def buildable_def)

lemma after_addResults_fields:
  "isChecking (after (addResults items st)) = isChecking st"
  "isPaused (after (addResults items st)) = isPaused st"
  "completedCount (after (addResults items st)) = completedCount st"
  "totalTasks (after (addResults items st)) = totalTasks st"
  "socket (after (addResults items st)) = socket st"
  "reconnectAttempts (after (addResults items st)) = reconnectAttempts st"
  "currentBatch (after (addResults items st)) = currentBatch st"
  "jobQueue (after (addResults items st)) = jobQueue st"
  "resultBuffer (after (addResults items st)) = resultBuffer st"
  "flushTimerId (after (addResults items st)) = flushTimerId st"
  "config (after (addResults items st)) = config st"
  "sockets (after (addResults items st)) = sockets st"
  "timers (after (addResults items st)) = timers st"
  "nextTimerId (after (addResults items st)) = nextTimerId st"
  "posted (after (addResults items st)) = posted st"
  "lastStatusMessage (after (addResults items st)) = lastStatusMessage st"
  by (simp_all add: addResults_def)

text \<open>A flush always leaves the buffer empty; what was in it reaches the store only when
  every entry could be built.\<close>

lemma resultBuffer_flushResultBuffer: "resultBuffer (after (flushResultBuffer st)) = []"
  by (simp add: flushResultBuffer_def Let_def after_addResults_fields clearTimeout_def
      split: option.splits)

lemma after_flush_fields:
  "isChecking (after (flushResultBuffer st)) = isChecking st"
  "isPaused (after (flushResultBuffer st)) = isPaused st"
  "completedCount (after (flushResultBuffer st)) = completedCount st"
  "totalTasks (after (flushResultBuffer st)) = totalTasks st"
  "socket (after (flushResultBuffer st)) = socket st"
  "reconnectAttempts (after (flushResultBuffer st)) = reconnectAttempts st"
  "currentBatch (after (flushResultBuffer st)) = currentBatch st"
  "jobQueue (after (flushResultBuffer st)) = jobQueue st"
  "config (after (flushResultBuffer st)) = config st"
  "sockets (after (flushResultBuffer st)) = sockets st"
  "nextTimerId (after (flushResultBuffer st)) = nextTimerId st"
  "posted (after (flushResultBuffer st)) = posted st"
  "lastStatusMessage (after (flushResultBuffer st)) = lastStatusMessage st"
  by (simp_all add: flushResultBuffer_def Let_def after_addResults_fields clearTimeout_def
      split: option.splits)

lemma timers_flush: "set (timers (after (flushResultBuffer st))) \<subseteq> set (timers st)"
  by (auto simp: flushResultBuffer_def Let_def after_addResults_fields clearTimeout_def
      split: option.splits)

lemma flush_buildable:
  assumes "buildable (config st) (resultBuffer st)"
  shows "\<not> threw (flushResultBuffer st)"
    and "results (after (flushResultBuffer st)) c
           = results st c @ grouped (config st) (resultBuffer st) c"
  using assms
  by (simp_all add: flushResultBuffer_def Let_def addResults_buildable clearTimeout_def
      grouped_Nil split: option.splits)

lemma flush_throws:
  assumes "\<not> buildable (config st) (resultBuffer st)"
  shows "threw (flushResultBuffer st)"
    and "results (after (flushResultBuffer st)) = results st"
  using assms
  by (auto simp: flushResultBuffer_def Let_def addResults_throws clearTimeout_def buildable_Nil
      split: option.splits)

lemma bufferResult_below_max:
  assumes "length (resultBuffer st) + 1 < BUFFER_MAX_SIZE"
  shows "\<not> threw (bufferResult r ord st)"
    and "resultBuffer (after (bufferResult r ord st)) = resultBuffer st @ [(r, ord)]"
    and "results (after (bufferResult r ord st)) = results st"
    and "config (after (bufferResult r ord st)) = config st"
  using assms by (simp_all add: bufferResult_def Let_def setTimeout_def)

lemma config_bufferResult: "config (after (bufferResult r ord st)) = config st"
  by (simp add: bufferResult_def Let_def setTimeout_def after_flush_fields)

lemma results_flush_bufferResult:
  assumes "buildable (config st) (resultBuffer st @ [(r, ord)])"
  shows "results (after (flushResultBuffer (after (bufferResult r ord st)))) c
           = results st c @ grouped (config st) (resultBuffer st @ [(r, ord)]) c"
proof (cases "length (resultBuffer st) + 1 < BUFFER_MAX_SIZE")
  case True
  let ?st1 = "after (bufferResult r ord st)"
  from bufferResult_below_max [OF True, of r ord]
  have b: "resultBuffer ?st1 = resultBuffer st @ [(r, ord)]" and r: "results ?st1 = results st"
    and c: "config ?st1 = config st" by simp_all
  from assms b c have "buildable (config ?st1) (resultBuffer ?st1)" by simp
  from flush_buildable(2) [OF this, of c] show ?thesis by (simp add: b r c)
next
  case False
  let ?st1 = "st\<lparr>resultBuffer := resultBuffer st @ [(r, ord)]\<rparr>"
  from False have e: "bufferResult r ord st = flushResultBuffer ?st1"
    by (simp add: bufferResult_def Let_def)
  from assms have bb: "buildable (config ?st1) (resultBuffer ?st1)" by simp
  have n: "resultBuffer (after (flushResultBuffer ?st1)) = []"
    by (rule resultBuffer_flushResultBuffer)
  have "flushResultBuffer (after (flushResultBuffer ?st1)) = Completed (after (flushResultBuffer ?st1))"
    using n by (simp add: flushResultBuffer_def)
  then show ?thesis
    unfolding e using flush_buildable(2) [OF bb, of c] by simp
qed

subsection \<open>Categories by balance\<close>

text \<open>
  C10. A result with \<^verbatim>\<open>isValid: true\<close>, processed while the current provider has
  \<^verbatim>\<open>hasBalance\<close>, gets its final category from the balance alone: \<^verbatim>\<open>balance === 0\<close> gives
  zeroBalance, otherwise \<^verbatim>\<open>balance < threshold\<close> gives lowBalance, otherwise valid. So the
  sentinel \<open>-1\<close> of a failed balance check is lowBalance whenever the threshold is above
  \<open>-1\<close>. The result goes to the buffer with that category: below the size that flushes at
  once it is the last entry of the buffer. A flush puts it last in that category of the
  store when every buffered entry, this one included, can be built (the display text of none
  of them throws).
\<close>

theorem processResult_balance_category:
  assumes "r_isValid r" and "hasBalance (config st)"
  shows "processResult rt r st =
           bufferResult (r\<lparr>r_finalCategory := Some (finalCategoryOf rt (config st) r)\<rparr>) (r_order r)
             (st\<lparr>completedCount := completedCount st + 1\<rparr>)
         \<and> finalCategoryOf rt (config st) r =
             (if r_balance r = BNum 0 then ZeroBalance
              else if balance_lt (r_balance r) (threshold (config st)) then LowBalance
              else Valid)
         \<and> (\<forall>b. r_balance r = BNum b \<longrightarrow>
               finalCategoryOf rt (config st) r =
                 (if b = 0 then ZeroBalance
                  else if b < threshold (config st) then LowBalance else Valid))
         \<and> (r_balance r = BNum (- 1) \<and> - 1 < threshold (config st) \<longrightarrow>
               finalCategoryOf rt (config st) r = LowBalance)
         \<and> (length (resultBuffer st) + 1 < BUFFER_MAX_SIZE \<longrightarrow>
               \<not> threw (processResult rt r st)
               \<and> resultBuffer (after (processResult rt r st)) =
                   resultBuffer st
                     @ [(r\<lparr>r_finalCategory := Some (finalCategoryOf rt (config st) r)\<rparr>, r_order r)])
         \<and> (buildable (config st)
              (resultBuffer st
                 @ [(r\<lparr>r_finalCategory := Some (finalCategoryOf rt (config st) r)\<rparr>, r_order r)]) \<longrightarrow>
               results (after (flushResultBuffer (after (processResult rt r st))))
                   (finalCategoryOf rt (config st) r) =
                 results st (finalCategoryOf rt (config st) r)
                   @ grouped (config st) (resultBuffer st) (finalCategoryOf rt (config st) r)
                   @ [\<lparr>i_token = r_token r, i_balance = r_balance r, i_order = r_order r\<rparr>])"
proof -
  let ?c = "finalCategoryOf rt (config st) r"
  let ?r = "r\<lparr>r_finalCategory := Some ?c\<rparr>"
  let ?st = "st\<lparr>completedCount := completedCount st + 1\<rparr>"
  have P: "processResult rt r st = bufferResult ?r (r_order r) ?st"
    by (simp add: processResult_def)
  have C: "?c = (if r_balance r = BNum 0 then ZeroBalance
              else if balance_lt (r_balance r) (threshold (config st)) then LowBalance
              else Valid)"
    using assms by (simp add: finalCategoryOf_def)
  have N: "\<forall>b. r_balance r = BNum b \<longrightarrow>
               ?c = (if b = 0 then ZeroBalance
                     else if b < threshold (config st) then LowBalance else Valid)"
    using assms by (auto simp: finalCategoryOf_def)
  have S: "r_balance r = BNum (- 1) \<and> - 1 < threshold (config st) \<longrightarrow> ?c = LowBalance"
    using assms by (auto simp: finalCategoryOf_def)
  have B: "\<not> threw (processResult rt r st)
       \<and> resultBuffer (after (processResult rt r st)) = resultBuffer st @ [(?r, r_order r)]"
    if h: "length (resultBuffer st) + 1 < BUFFER_MAX_SIZE"
  proof -
    from h have "length (resultBuffer ?st) + 1 < BUFFER_MAX_SIZE" by simp
    from bufferResult_below_max(1,2) [OF this, of ?r "r_order r"] show ?thesis
      unfolding P by simp
  qed
  have F: "results (after (flushResultBuffer (after (processResult rt r st)))) ?c =
             results st ?c @ grouped (config st) (resultBuffer st) ?c
               @ [\<lparr>i_token = r_token r, i_balance = r_balance r, i_order = r_order r\<rparr>]"
    if h: "buildable (config st) (resultBuffer st @ [(?r, r_order r)])"
  proof -
    from h have b: "buildable (config ?st) (resultBuffer ?st @ [(?r, r_order r)])" by simp
    from h have d: "getDisplayText (config st) ?r \<noteq> None"
      by (simp add: buildable_append buildable_single)
    show ?thesis
      unfolding P using results_flush_bufferResult [OF b, of ?c] d
      by (simp add: grouped_append grouped_single)
  qed
  from P C N S B F show ?thesis by blast
qed

theorem processResult_balance_category_witness:
  "r_isValid (valid_res ''sk-1'' 0 (BNum (- 1)))
   \<and> hasBalance (config (initial (example_cfg ''sk-1'')))
   \<and> - 1 < threshold (config (initial (example_cfg ''sk-1'')))
   \<and> finalCategoryOf example_rt (config (initial (example_cfg ''sk-1'')))
         (valid_res ''sk-1'' 0 (BNum (- 1))) = LowBalance
   \<and> resultBuffer (after (processResult example_rt (valid_res ''sk-1'' 0 (BNum (- 1)))
                 (initial (example_cfg ''sk-1''))))
       = [((valid_res ''sk-1'' 0 (BNum (- 1)))\<lparr>r_finalCategory := Some LowBalance\<rparr>, 0)]
   \<and> results (after (flushResultBuffer (after (processResult example_rt
                 (valid_res ''sk-1'' 0 (BNum (- 1))) (initial (example_cfg ''sk-1''))))))
         LowBalance
       = [\<lparr>i_token = ''sk-1'', i_balance = BNum (- 1), i_order = 0\<rparr>]"
proof -
  let ?r = "valid_res ''sk-1'' 0 (BNum (- 1))"
  let ?st = "initial (example_cfg ''sk-1'')"
  have h1: "r_isValid ?r" by (simp add: valid_res_def)
  have h2: "hasBalance (config ?st)" by (simp add: initial_def example_cfg_def)
  have b: "r_balance ?r = BNum (- 1)" by (simp add: valid_res_def)
  have t: "- 1 < threshold (config ?st)" by (simp add: initial_def example_cfg_def)
  note T = processResult_balance_category [OF h1 h2, of example_rt]
  from T b t have c: "finalCategoryOf example_rt (config ?st) ?r = LowBalance" by blast
  have l: "length (resultBuffer ?st) + 1 < BUFFER_MAX_SIZE"
    by (simp add: initial_def BUFFER_MAX_SIZE_def)
  from T l have "resultBuffer (after (processResult example_rt ?r ?st)) =
      resultBuffer ?st @ [(?r\<lparr>r_finalCategory := Some (finalCategoryOf example_rt (config ?st) ?r)\<rparr>,
                           r_order ?r)]"
    by blast
  then have B: "resultBuffer (after (processResult example_rt ?r ?st))
                  = [(?r\<lparr>r_finalCategory := Some LowBalance\<rparr>, 0)]"
    unfolding c by (simp add: initial_def valid_res_def)
  have bb: "buildable (config ?st)
              (resultBuffer ?st
                 @ [(?r\<lparr>r_finalCategory := Some (finalCategoryOf example_rt (config ?st) ?r)\<rparr>,
                     r_order ?r)])"
    unfolding c
    by (simp add: initial_def buildable_def buildResultItem_def getDisplayText_def valid_res_def
        example_cfg_def displayTextFormatters_def format_deepseek_def usd_def)
  from T bb have "results (after (flushResultBuffer (after (processResult example_rt ?r ?st))))
                 (finalCategoryOf example_rt (config ?st) ?r)
               = results ?st (finalCategoryOf example_rt (config ?st) ?r)
                 @ grouped (config ?st) (resultBuffer ?st) (finalCategoryOf example_rt (config ?st) ?r)
                 @ [\<lparr>i_token = r_token ?r, i_balance = r_balance ?r, i_order = r_order ?r\<rparr>]"
    by blast
  then have R: "results (after (flushResultBuffer (after (processResult example_rt ?r ?st)))) LowBalance
               = [\<lparr>i_token = ''sk-1'', i_balance = BNum (- 1), i_order = 0\<rparr>]"
    unfolding c by (simp add: initial_def grouped_Nil valid_res_def)
  from h1 h2 t c B R show ?thesis by blast
qed

subsection \<open>Parsing, duplicates and the key limit\<close>

lemma allKeys_snoc: "allKeys (toks @ [t]) = allKeys toks @ [\<lparr>token = t, order = length toks\<rparr>]"
  by (simp add: allKeys_def enumerate_append_eq)

lemma firstOccurrence_snoc_old:
  "i < length toks \<Longrightarrow> firstOccurrence (toks @ [t]) i = firstOccurrence toks i"
  by (simp add: firstOccurrence_def nth_append)

lemma firstOccurrence_snoc_new:
  "firstOccurrence (toks @ [t]) (length toks) = (t \<notin> set toks)"
  by (simp add: firstOccurrence_def)

lemma firstKeys_snoc:
  "firstKeys (toks @ [t]) =
     firstKeys toks @ (if t \<in> set toks then [] else [\<lparr>token = t, order = length toks\<rparr>])"
proof -
  have f: "filter (firstOccurrence (toks @ [t])) [0..<length toks]
             = filter (firstOccurrence toks) [0..<length toks]"
    by (rule filter_cong) (simp_all add: firstOccurrence_snoc_old)
  have m: "map (\<lambda>i. \<lparr>token = (toks @ [t]) ! i, order = i\<rparr>) (filter (firstOccurrence toks) [0..<length toks])
             = map (\<lambda>i. \<lparr>token = toks ! i, order = i\<rparr>) (filter (firstOccurrence toks) [0..<length toks])"
    by (rule map_cong) (simp_all add: nth_append)
  show ?thesis
    by (simp add: firstKeys_def f m firstOccurrence_snoc_new)
qed

lemma laterKeys_snoc:
  "laterKeys (toks @ [t]) =
     laterKeys toks @ (if t \<in> set toks then [\<lparr>token = t, order = length toks\<rparr>] else [])"
proof -
  have f: "filter (\<lambda>i. \<not> firstOccurrence (toks @ [t]) i) [0..<length toks]
             = filter (\<lambda>i. \<not> firstOccurrence toks i) [0..<length toks]"
    by (rule filter_cong) (simp_all add: firstOccurrence_snoc_old)
  have m: "map (\<lambda>i. \<lparr>token = (toks @ [t]) ! i, order = i\<rparr>) (filter (\<lambda>i. \<not> firstOccurrence toks i) [0..<length toks])
             = map (\<lambda>i. \<lparr>token = toks ! i, order = i\<rparr>) (filter (\<lambda>i. \<not> firstOccurrence toks i) [0..<length toks])"
    by (rule map_cong) (simp_all add: nth_append)
  show ?thesis
    by (simp add: laterKeys_def f m firstOccurrence_snoc_new)
qed

lemma fold_dedup:
  "fold dedup_step (allKeys toks) ({}, [], [])
     = (set toks, firstKeys toks, map duplicateResult (laterKeys toks))"
proof (induction toks rule: rev_induct)
  case Nil
  show ?case by (simp add: allKeys_def firstKeys_def laterKeys_def)
next
  case (snoc t toks)
  have "fold dedup_step (allKeys (toks @ [t])) ({}, [], [])
          = dedup_step \<lparr>token = t, order = length toks\<rparr> (fold dedup_step (allKeys toks) ({}, [], []))"
    by (simp add: allKeys_snoc)
  also have "\<dots> = dedup_step \<lparr>token = t, order = length toks\<rparr>
                      (set toks, firstKeys toks, map duplicateResult (laterKeys toks))"
    by (simp only: snoc.IH)
  also have "\<dots> = (set (toks @ [t]), firstKeys (toks @ [t]), map duplicateResult (laterKeys (toks @ [t])))"
    by (auto simp: dedup_step_def firstKeys_snoc laterKeys_snoc)
  finally show ?case .
qed

lemma keysToProcess_eq: "keysToProcess toks = firstKeys toks"
  by (simp add: keysToProcess_def fold_dedup)

lemma duplicateResults_eq: "duplicateResults toks = map duplicateResult (laterKeys toks)"
  by (simp add: duplicateResults_def fold_dedup)

lemma firstKeys_nonempty: "toks \<noteq> [] \<Longrightarrow> firstKeys toks \<noteq> []"
proof -
  assume "toks \<noteq> []"
  then have "0 \<in> set (filter (firstOccurrence toks) [0..<length toks])"
    by (simp add: firstOccurrence_def)
  then show ?thesis unfolding firstKeys_def by (metis empty_iff list.set(1) map_is_Nil_conv)
qed

lemma trim_Nil: "trim [] = []"
  by (simp add: trim_def)

lemma tokensRaw_blank: "trim input = [] \<Longrightarrow> tokensRaw input = []"
  by (simp add: tokensRaw_def split_seps_def trim_Nil)

lemma manyKeys_Suc: "manyKeys (Suc n) = CHR ''k'' # CHR '','' # manyKeys n"
  by (simp add: manyKeys_def)

lemma manyKeys_0: "manyKeys 0 = []"
  by (simp add: manyKeys_def)

lemma dropWhile_manyKeys: "dropWhile is_sep (manyKeys n) = manyKeys n"
  by (cases n) (simp_all add: manyKeys_0 manyKeys_Suc is_sep_def)

lemma split_manyKeys: "split_from [] (manyKeys n) = replicate n ''k'' @ [[]]"
  by (induction n) (simp_all add: manyKeys_0 manyKeys_Suc is_sep_def dropWhile_manyKeys)

lemma rev_manyKeys_Suc: "rev (manyKeys (Suc n)) = CHR '','' # CHR ''k'' # rev (manyKeys n)"
  by (simp add: manyKeys_def rev_concat flip: replicate_append_same)

lemma trim_manyKeys: "trim (manyKeys n) = manyKeys n"
proof (cases n)
  case 0
  then show ?thesis by (simp add: trim_def manyKeys_0)
next
  case (Suc m)
  have 1: "dropWhile js_ws (manyKeys (Suc m)) = manyKeys (Suc m)"
    by (simp add: manyKeys_Suc js_ws_def)
  have 2: "dropWhile js_ws (rev (manyKeys (Suc m))) = rev (manyKeys (Suc m))"
    by (simp add: rev_manyKeys_Suc js_ws_def)
  show ?thesis unfolding Suc trim_def 1 2 by simp
qed

lemma tokensRaw_manyKeys: "tokensRaw (manyKeys n) = replicate n ''k''"
proof -
  have k: "trim ''k'' = ''k''" by (simp add: trim_def js_ws_def)
  show ?thesis
    by (simp add: tokensRaw_def split_seps_def trim_manyKeys split_manyKeys trim_Nil k)
qed


lemma startCheck_over_limit:
  assumes "length (tokensRaw (tokensInput (config st))) > MAX_KEYS_LIMIT"
  shows "startCheck st =
           Completed (postStatus (KeyCountOverLimit MAX_KEYS_LIMIT) Error 5000
             ((clearResults (st\<lparr>jobQueue := None\<rparr>))\<lparr>completedCount := 0\<rparr>))"
proof -
  from assms have "tokensRaw (tokensInput (config st)) \<noteq> []" by auto
  then have "trim (tokensInput (config st)) \<noteq> []" using tokensRaw_blank by blast
  with assms show ?thesis by (simp add: startCheck_def Let_def)
qed

lemma startCheck_within_limit:
  assumes "tokensRaw (tokensInput (config st)) = toks" and "toks \<noteq> []"
    and "length toks \<le> MAX_KEYS_LIMIT"
  shows "startCheck st = startTokens toks ((clearResults (st\<lparr>jobQueue := None\<rparr>))\<lparr>completedCount := 0\<rparr>)"
proof -
  from assms have "trim (tokensInput (config st)) \<noteq> []" using tokensRaw_blank by blast
  with assms show ?thesis by (simp add: startCheck_def Let_def)
qed

text \<open>The entry of a repeated key is built without looking at the provider: its display
  text is the fixed one of duplicates, so storing the repeats never throws.\<close>

lemma buildResultItem_duplicate:
  "buildResultItem cfg (fst (duplicateResult k)) (snd (duplicateResult k))
     = Built Duplicate \<lparr>i_token = token k, i_balance = BAbsent, i_order = order k\<rparr>"
  by (simp add: buildResultItem_def getDisplayText_def duplicateResult_def)

lemma buildable_duplicates: "buildable cfg (map duplicateResult ks)"
proof -
  have "buildResultItem cfg r ord \<noteq> BuildThrows" if "(r, ord) \<in> set (map duplicateResult ks)"
    for r ord
  proof -
    from that obtain k where "(r, ord) = duplicateResult k" by auto
    then have "r = fst (duplicateResult k)" "ord = snd (duplicateResult k)"
      by (metis fst_conv, metis snd_conv)
    then show ?thesis using buildResultItem_duplicate [of cfg k] by simp
  qed
  then show ?thesis unfolding buildable_def list_ex_iff by blast
qed

lemma grouped_duplicateResult:
  "grouped cfg (map duplicateResult ks) c =
     (if c = Duplicate then map (\<lambda>k. \<lparr>i_token = token k, i_balance = BAbsent, i_order = order k\<rparr>) ks else [])"
proof (induction ks)
  case Nil
  show ?case by (simp add: grouped_Nil)
next
  case (Cons k ks)
  have "grouped cfg (map duplicateResult (k # ks)) c
          = grouped cfg [duplicateResult k] c @ grouped cfg (map duplicateResult ks) c"
    using grouped_append [of cfg "[duplicateResult k]" "map duplicateResult ks" c] by simp
  moreover have "grouped cfg [duplicateResult k] c =
      (if c = Duplicate then [\<lparr>i_token = token k, i_balance = BAbsent, i_order = order k\<rparr>] else [])"
    using buildResultItem_duplicate [of cfg k]
    by (auto simp: grouped_def map_filter_simps split: prod.splits)
  ultimately show ?case using Cons.IH by simp
qed

lemma addResults_duplicates:
  "addResults (map duplicateResult ks) st =
     Completed (st\<lparr>results := (\<lambda>c. results st c @
        (if c = Duplicate
         then map (\<lambda>k. \<lparr>i_token = token k, i_balance = BAbsent, i_order = order k\<rparr>) ks else []))\<rparr>)"
  using addResults_buildable [of st "map duplicateResult ks", OF buildable_duplicates]
  by (simp add: grouped_duplicateResult)

lemma startTokens_fields:
  assumes "toks \<noteq> []" and "\<forall>c. results st c = []"
  shows "\<not> threw (startTokens toks st)
    \<and> isChecking (after (startTokens toks st)) \<and> \<not> isPaused (after (startTokens toks st))
    \<and> totalTasks (after (startTokens toks st)) = length (firstKeys toks)
    \<and> reconnectAttempts (after (startTokens toks st)) = 0
    \<and> currentBatch (after (startTokens toks st)) =
         Some \<lparr>batch = take BATCH_SIZE (firstKeys toks),
               b_providerConfig = buildProviderConfig (config st),
               b_concurrency = concurrency (config st)\<rparr>
    \<and> jobQueue (after (startTokens toks st)) =
         Some \<lparr>remainingKeys = drop BATCH_SIZE (firstKeys toks),
               q_providerConfig = buildProviderConfig (config st),
               q_concurrency = concurrency (config st)\<rparr>
    \<and> sockets (after (startTokens toks st)) = sockets st @
         [\<lparr>ws_state = CONNECTING, ws_batch = take BATCH_SIZE (firstKeys toks),
           ws_providerConfig = buildProviderConfig (config st),
           ws_concurrency = concurrency (config st), ws_onclose = True, ws_sent = [],
           ws_closeCalls = []\<rparr>]
    \<and> socket (after (startTokens toks st)) = Some (length (sockets st))
    \<and> results (after (startTokens toks st)) = (\<lambda>c. if c = Duplicate then duplicateItems toks else [])
    \<and> resultBuffer (after (startTokens toks st)) = resultBuffer st
    \<and> timers (after (startTokens toks st)) = timers st
    \<and> completedCount (after (startTokens toks st)) = completedCount st"
  using assms firstKeys_nonempty [OF assms(1)]
  by (simp add: startTokens_def Let_def keysToProcess_eq duplicateResults_eq processNextBatch_def
      postStatus_def connectWebSocket_def addResults_duplicates andThen_def duplicateItems_def
      fun_eq_iff)

lemma clear_fields:
  "config ((clearResults (st\<lparr>jobQueue := None\<rparr>))\<lparr>completedCount := 0\<rparr>) = config st"
  "sockets ((clearResults (st\<lparr>jobQueue := None\<rparr>))\<lparr>completedCount := 0\<rparr>) = sockets st"
  "timers ((clearResults (st\<lparr>jobQueue := None\<rparr>))\<lparr>completedCount := 0\<rparr>) = timers st"
  "resultBuffer ((clearResults (st\<lparr>jobQueue := None\<rparr>))\<lparr>completedCount := 0\<rparr>) = resultBuffer st"
  "completedCount ((clearResults (st\<lparr>jobQueue := None\<rparr>))\<lparr>completedCount := 0\<rparr>) = 0"
  "results ((clearResults (st\<lparr>jobQueue := None\<rparr>))\<lparr>completedCount := 0\<rparr>) c = []"
  by (simp_all add: clearResults_def)

text \<open>
  C7. \<^verbatim>\<open>startCheck\<close> removes repeated tokens before any batch is formed. With the raw
  token list within the limit and not empty: the keys to process are the first occurrences,
  each with its position in the raw list as order, and they alone form the first batch and
  the job queue; every later occurrence is stored at once in the category duplicate, with
  its own position as order, and is in no batch handed to a socket (the only socket created
  carries the first batch, and nothing has been sent on it). The call returns: storing the
  repeats does not throw. For the input \<^verbatim>\<open>k1,k1,k2\<close> the store holds one duplicate, of
  order 1.
\<close>

theorem startCheck_dedup:
  assumes "tokensRaw (tokensInput (config st)) = toks" and "toks \<noteq> []"
    and "length toks \<le> MAX_KEYS_LIMIT"
  shows "keysToProcess toks = firstKeys toks
    \<and> duplicateResults toks = map duplicateResult (laterKeys toks)
    \<and> \<not> threw (startCheck st)
    \<and> results (after (startCheck st)) Duplicate = duplicateItems toks
    \<and> (\<forall>c. c \<noteq> Duplicate \<longrightarrow> results (after (startCheck st)) c = [])
    \<and> currentBatch (after (startCheck st)) =
         Some \<lparr>batch = take BATCH_SIZE (firstKeys toks),
               b_providerConfig = buildProviderConfig (config st),
               b_concurrency = concurrency (config st)\<rparr>
    \<and> jobQueue (after (startCheck st)) =
         Some \<lparr>remainingKeys = drop BATCH_SIZE (firstKeys toks),
               q_providerConfig = buildProviderConfig (config st),
               q_concurrency = concurrency (config st)\<rparr>
    \<and> sockets (after (startCheck st)) = sockets st @
         [\<lparr>ws_state = CONNECTING, ws_batch = take BATCH_SIZE (firstKeys toks),
           ws_providerConfig = buildProviderConfig (config st),
           ws_concurrency = concurrency (config st), ws_onclose = True, ws_sent = [],
           ws_closeCalls = []\<rparr>]
    \<and> totalTasks (after (startCheck st)) = length (firstKeys toks)
    \<and> completedCount (after (startCheck st)) = 0
    \<and> resultBuffer (after (startCheck st)) = resultBuffer st"
proof -
  let ?st1 = "(clearResults (st\<lparr>jobQueue := None\<rparr>))\<lparr>completedCount := 0\<rparr>"
  have s: "startCheck st = startTokens toks ?st1"
    by (rule startCheck_within_limit [OF assms])
  have r: "\<forall>c. results ?st1 c = []" by (simp add: clearResults_def)
  show ?thesis
    unfolding s using startTokens_fields [OF assms(2) r]
    by (simp add: keysToProcess_eq duplicateResults_eq clear_fields)
qed

lemma tokensRaw_example: "tokensRaw ''k1,k1,k2'' = [''k1'', ''k1'', ''k2'']"
  by (simp add: tokensRaw_def split_seps_def trim_def js_ws_def is_sep_def)

lemma firstKeys_example:
  "firstKeys [''k1'', ''k1'', ''k2''] = [\<lparr>token = ''k1'', order = 0\<rparr>, \<lparr>token = ''k2'', order = 2\<rparr>]"
  by (simp add: firstKeys_def firstOccurrence_def upt_rec)

lemma laterKeys_example:
  "laterKeys [''k1'', ''k1'', ''k2''] = [\<lparr>token = ''k1'', order = 1\<rparr>]"
  by (simp add: laterKeys_def firstOccurrence_def upt_rec)

theorem startCheck_dedup_witness:
  "tokensRaw (tokensInput (config (initial (example_cfg ''k1,k1,k2'')))) = [''k1'', ''k1'', ''k2'']
   \<and> length [''k1'', ''k1'', ''k2''] \<le> MAX_KEYS_LIMIT
   \<and> \<not> threw (startCheck (initial (example_cfg ''k1,k1,k2'')))
   \<and> results (after (startCheck (initial (example_cfg ''k1,k1,k2'')))) Duplicate
        = [\<lparr>i_token = ''k1'', i_balance = BAbsent, i_order = 1\<rparr>]
   \<and> map_option batch (currentBatch (after (startCheck (initial (example_cfg ''k1,k1,k2'')))))
        = Some [\<lparr>token = ''k1'', order = 0\<rparr>, \<lparr>token = ''k2'', order = 2\<rparr>]"
proof -
  let ?st = "initial (example_cfg ''k1,k1,k2'')"
  have h1: "tokensRaw (tokensInput (config ?st)) = [''k1'', ''k1'', ''k2'']"
    by (simp add: initial_def example_cfg_def tokensRaw_example)
  have h2: "[''k1'', ''k1'', ''k2''] \<noteq> []" by simp
  have h3: "length [''k1'', ''k1'', ''k2''] \<le> MAX_KEYS_LIMIT" by (simp add: MAX_KEYS_LIMIT_def)
  note T = startCheck_dedup [OF h1 h2 h3]
  from T have d: "results (after (startCheck ?st)) Duplicate = duplicateItems [''k1'', ''k1'', ''k2'']"
    by blast
  from T have n: "\<not> threw (startCheck ?st)" by blast
  from T have b: "currentBatch (after (startCheck ?st)) =
         Some \<lparr>batch = take BATCH_SIZE (firstKeys [''k1'', ''k1'', ''k2'']),
               b_providerConfig = buildProviderConfig (config ?st),
               b_concurrency = concurrency (config ?st)\<rparr>"
    by blast
  show ?thesis
    using h1 h3 n by (simp add: d b duplicateItems_def laterKeys_example firstKeys_example BATCH_SIZE_def)
qed

text \<open>
  C9. The limit on the number of keys is 50000. A raw list longer than that is rejected:
  \<^verbatim>\<open>startCheck\<close> only clears the old job and results and posts the error; the run does
  not start (\<^verbatim>\<open>isChecking\<close> keeps its value, there is no job queue), no batch is formed
  and no socket is opened. A raw list of 1 to 50000 keys, so one of exactly 50000, is
  accepted: the run starts, the queue and the first batch are formed and one socket is
  opened.
\<close>

theorem startCheck_key_limit:
  "MAX_KEYS_LIMIT = 50000
   \<and> (length (tokensRaw (tokensInput (config st))) > MAX_KEYS_LIMIT \<longrightarrow>
        startCheck st =
          Completed (postStatus (KeyCountOverLimit MAX_KEYS_LIMIT) Error 5000
            ((clearResults (st\<lparr>jobQueue := None\<rparr>))\<lparr>completedCount := 0\<rparr>))
        \<and> isChecking (after (startCheck st)) = isChecking st
        \<and> jobQueue (after (startCheck st)) = None
        \<and> currentBatch (after (startCheck st)) = currentBatch st
        \<and> sockets (after (startCheck st)) = sockets st
        \<and> socket (after (startCheck st)) = socket st
        \<and> timers (after (startCheck st)) = timers st
        \<and> lastStatusMessage (after (startCheck st)) =
            Some \<lparr>st_text = KeyCountOverLimit 50000, st_type = Error, st_duration = 5000\<rparr>)
   \<and> (0 < length (tokensRaw (tokensInput (config st)))
        \<and> length (tokensRaw (tokensInput (config st))) \<le> MAX_KEYS_LIMIT \<longrightarrow>
        \<not> threw (startCheck st)
        \<and> isChecking (after (startCheck st))
        \<and> jobQueue (after (startCheck st)) =
            Some \<lparr>remainingKeys = drop BATCH_SIZE (keysToProcess (tokensRaw (tokensInput (config st)))),
                  q_providerConfig = buildProviderConfig (config st),
                  q_concurrency = concurrency (config st)\<rparr>
        \<and> currentBatch (after (startCheck st)) =
            Some \<lparr>batch = take BATCH_SIZE (keysToProcess (tokensRaw (tokensInput (config st)))),
                  b_providerConfig = buildProviderConfig (config st),
                  b_concurrency = concurrency (config st)\<rparr>
        \<and> socket (after (startCheck st)) = Some (length (sockets st))
        \<and> length (sockets (after (startCheck st))) = length (sockets st) + 1)"
proof (intro conjI impI)
  show "MAX_KEYS_LIMIT = 50000" by (simp add: MAX_KEYS_LIMIT_def)
next
  assume a: "0 < length (tokensRaw (tokensInput (config st)))
        \<and> length (tokensRaw (tokensInput (config st))) \<le> MAX_KEYS_LIMIT"
  let ?toks = "tokensRaw (tokensInput (config st))"
  let ?st1 = "(clearResults (st\<lparr>jobQueue := None\<rparr>))\<lparr>completedCount := 0\<rparr>"
  from a have ne: "?toks \<noteq> []" and le: "length ?toks \<le> MAX_KEYS_LIMIT" by auto
  have s: "startCheck st = startTokens ?toks ?st1"
    by (rule startCheck_within_limit [OF refl ne le])
  have r: "\<forall>c. results ?st1 c = []" by (simp add: clearResults_def)
  note F = startTokens_fields [OF ne r]
  show "\<not> threw (startCheck st)" unfolding s using F by blast
  show "isChecking (after (startCheck st))" unfolding s using F by blast
  show "jobQueue (after (startCheck st)) =
            Some \<lparr>remainingKeys = drop BATCH_SIZE (keysToProcess ?toks),
                  q_providerConfig = buildProviderConfig (config st),
                  q_concurrency = concurrency (config st)\<rparr>"
    unfolding s using F by (simp add: keysToProcess_eq clear_fields)
  show "currentBatch (after (startCheck st)) =
            Some \<lparr>batch = take BATCH_SIZE (keysToProcess ?toks),
                  b_providerConfig = buildProviderConfig (config st),
                  b_concurrency = concurrency (config st)\<rparr>"
    unfolding s using F by (simp add: keysToProcess_eq clear_fields)
  show "socket (after (startCheck st)) = Some (length (sockets st))"
    unfolding s using F by (simp add: clear_fields)
  show "length (sockets (after (startCheck st))) = length (sockets st) + 1"
    unfolding s using F by (simp add: clear_fields)
next
  assume a: "length (tokensRaw (tokensInput (config st))) > MAX_KEYS_LIMIT"
  note s = startCheck_over_limit [OF a]
  show "startCheck st = Completed (postStatus (KeyCountOverLimit MAX_KEYS_LIMIT) Error 5000
            ((clearResults (st\<lparr>jobQueue := None\<rparr>))\<lparr>completedCount := 0\<rparr>))" by (rule s)
  show "isChecking (after (startCheck st)) = isChecking st"
    unfolding s by (simp add: postStatus_def clearResults_def)
  show "jobQueue (after (startCheck st)) = None"
    unfolding s by (simp add: postStatus_def clearResults_def)
  show "currentBatch (after (startCheck st)) = currentBatch st"
    unfolding s by (simp add: postStatus_def clearResults_def)
  show "sockets (after (startCheck st)) = sockets st"
    unfolding s by (simp add: postStatus_def clearResults_def)
  show "socket (after (startCheck st)) = socket st"
    unfolding s by (simp add: postStatus_def clearResults_def)
  show "timers (after (startCheck st)) = timers st"
    unfolding s by (simp add: postStatus_def clearResults_def)
  show "lastStatusMessage (after (startCheck st)) =
            Some \<lparr>st_text = KeyCountOverLimit 50000, st_type = Error, st_duration = 5000\<rparr>"
    unfolding s by (simp add: postStatus_def clearResults_def MAX_KEYS_LIMIT_def)
qed

theorem startCheck_key_limit_witness:
  "length (tokensRaw (tokensInput (config (initial (example_cfg (manyKeys 50001)))))) > MAX_KEYS_LIMIT
   \<and> \<not> isChecking (after (startCheck (initial (example_cfg (manyKeys 50001)))))
   \<and> jobQueue (after (startCheck (initial (example_cfg (manyKeys 50001))))) = None
   \<and> sockets (after (startCheck (initial (example_cfg (manyKeys 50001))))) = []
   \<and> length (tokensRaw (tokensInput (config (initial (example_cfg (manyKeys 50000)))))) = MAX_KEYS_LIMIT
   \<and> \<not> threw (startCheck (initial (example_cfg (manyKeys 50000))))
   \<and> isChecking (after (startCheck (initial (example_cfg (manyKeys 50000)))))
   \<and> length (sockets (after (startCheck (initial (example_cfg (manyKeys 50000)))))) = 1"
proof -
  let ?over = "initial (example_cfg (manyKeys 50001))"
  let ?full = "initial (example_cfg (manyKeys 50000))"
  have i1: "tokensInput (config ?over) = manyKeys 50001"
    by (simp add: initial_def example_cfg_def)
  have i2: "tokensInput (config ?full) = manyKeys 50000"
    by (simp add: initial_def example_cfg_def)
  have o: "length (tokensRaw (tokensInput (config ?over))) > MAX_KEYS_LIMIT"
    unfolding i1 tokensRaw_manyKeys by (simp add: MAX_KEYS_LIMIT_def)
  have f: "length (tokensRaw (tokensInput (config ?full))) = MAX_KEYS_LIMIT"
    unfolding i2 tokensRaw_manyKeys by (simp add: MAX_KEYS_LIMIT_def)
  have f': "0 < length (tokensRaw (tokensInput (config ?full)))
      \<and> length (tokensRaw (tokensInput (config ?full))) \<le> MAX_KEYS_LIMIT"
    unfolding f by (simp add: MAX_KEYS_LIMIT_def)
  have s0: "sockets ?over = []" "sockets ?full = []" "\<not> isChecking ?over"
    by (simp_all add: initial_def)
  from startCheck_key_limit [of ?over] o
  have A: "isChecking (after (startCheck ?over)) = isChecking ?over
      \<and> jobQueue (after (startCheck ?over)) = None
      \<and> sockets (after (startCheck ?over)) = sockets ?over"
    by blast
  from startCheck_key_limit [of ?full] f'
  have B: "\<not> threw (startCheck ?full) \<and> isChecking (after (startCheck ?full))
      \<and> length (sockets (after (startCheck ?full))) = length (sockets ?full) + 1"
    by blast
  from A B o f s0 show ?thesis by simp
qed

subsection \<open>The reconnect counter\<close>

text \<open>Only \<^verbatim>\<open>processNextBatch\<close> (to 0) and the \<^verbatim>\<open>onclose\<close> handler (by one, below the
  maximum) change the counter.\<close>

lemma ra_basic:
  "reconnectAttempts (postStatus txt ty dur st) = reconnectAttempts st"
  "reconnectAttempts (clearTimeout tid st) = reconnectAttempts st"
  "reconnectAttempts (after (addResults items st)) = reconnectAttempts st"
  "reconnectAttempts (clearResults st) = reconnectAttempts st"
  "reconnectAttempts (update_socket sid f st) = reconnectAttempts st"
  "reconnectAttempts (connectWebSocket pc b conc st) = reconnectAttempts st"
  "reconnectAttempts (snd (setTimeout cb d st)) = reconnectAttempts st"
  by (simp_all add: postStatus_def clearTimeout_def addResults_def clearResults_def
      update_socket_def connectWebSocket_def setTimeout_def)

lemma ra_flush: "reconnectAttempts (after (flushResultBuffer st)) = reconnectAttempts st"
  by (rule after_flush_fields)

lemma ra_sock:
  "reconnectAttempts (ws_close sid code st) = reconnectAttempts st"
  "reconnectAttempts (after (ws_send sid cmd st)) = reconnectAttempts st"
  "reconnectAttempts (dropSocket st) = reconnectAttempts st"
  by (simp_all add: ws_close_def ws_send_def dropSocket_def ra_basic split: option.splits)

lemma ra_buffer: "reconnectAttempts (after (bufferResult r ord st)) = reconnectAttempts st"
  by (simp add: bufferResult_def Let_def ra_flush setTimeout_def split: prod.splits)

lemma ra_processResult: "reconnectAttempts (after (processResult rt r st)) = reconnectAttempts st"
  by (simp add: processResult_def ra_buffer)

lemma ra_finish: "reconnectAttempts (after (finishCheck st)) = reconnectAttempts st"
  using ra_flush [of st]
  by (cases "flushResultBuffer st") (simp_all add: finishCheck_def andThen_def Let_def ra_basic)

lemma ra_stop: "reconnectAttempts (after (stopCheck st)) = reconnectAttempts st"
  using ra_flush [of st]
  by (cases "flushResultBuffer st") (simp_all add: stopCheck_def andThen_def ra_basic ra_sock)

lemma ra_pause: "reconnectAttempts (after (pauseCheck st)) = reconnectAttempts st"
  using ra_flush [of st]
  by (cases "flushResultBuffer st")
     (simp_all add: pauseCheck_def andThen_def requeue_def ra_basic ra_sock split: option.splits)

lemma ra_processNextBatch:
  "reconnectAttempts (after (processNextBatch st)) = (if isPaused st then reconnectAttempts st else 0)"
  by (simp add: processNextBatch_def Let_def ra_basic ra_finish split: option.splits)

lemma ra_resume: "reconnectAttempts (after (resumeCheck st)) \<le> reconnectAttempts st"
  by (simp add: resumeCheck_def ra_processNextBatch ra_basic)

lemma ra_startTokens: "reconnectAttempts (after (startTokens toks st)) \<le> reconnectAttempts st"
proof (cases "duplicateResults toks = []")
  case True
  then show ?thesis
    by (simp add: startTokens_def Let_def andThen_def ra_processNextBatch ra_basic)
next
  case False
  have "reconnectAttempts (after (addResults (duplicateResults toks) st)) = reconnectAttempts st"
    by (rule ra_basic)
  with False show ?thesis
    by (cases "addResults (duplicateResults toks) st")
       (simp_all add: startTokens_def Let_def andThen_def ra_processNextBatch ra_basic)
qed

lemma ra_start: "reconnectAttempts (after (startCheck st)) \<le> reconnectAttempts st"
proof -
  have "reconnectAttempts (after (startTokens toks ((clearResults (st\<lparr>jobQueue := None\<rparr>))\<lparr>completedCount := 0\<rparr>)))
          \<le> reconnectAttempts st" for toks
    using ra_startTokens [of toks "(clearResults (st\<lparr>jobQueue := None\<rparr>))\<lparr>completedCount := 0\<rparr>"]
    by (simp add: clearResults_def)
  then show ?thesis
    by (simp add: startCheck_def Let_def ra_basic clearResults_def)
qed

lemma ra_onopen: "reconnectAttempts (after (onopen sid st)) = reconnectAttempts st"
  by (simp add: onopen_def ra_sock split: option.splits)

lemma ra_onmessage: "reconnectAttempts (after (onmessage rt m st)) = reconnectAttempts st"
proof (cases m)
  case (MsgResult ro)
  show ?thesis
  proof (cases ro)
    case None
    with MsgResult show ?thesis by (simp add: onmessage_def)
  next
    case (Some r)
    with MsgResult ra_processResult [of rt r st] show ?thesis
      by (cases "processResult rt r st")
         (simp_all add: onmessage_def andThen_def removeFromBatch_def split: option.splits)
  qed
next
  case MsgDone
  then show ?thesis by (simp add: onmessage_def ra_basic ra_sock split: option.splits)
next
  case (MsgError errorText)
  then show ?thesis by (simp add: onmessage_def ra_stop ra_basic)
next
  case MsgOther
  then show ?thesis by (simp add: onmessage_def)
qed

lemma ra_onclose:
  "reconnectAttempts st \<le> MAX_RECONNECT_ATTEMPTS \<Longrightarrow>
   reconnectAttempts (after (onclose code st)) \<le> MAX_RECONNECT_ATTEMPTS"
  by (simp add: onclose_def scheduleReconnect_def Let_def ra_basic ra_stop)

lemma ra_reconnect: "reconnectAttempts (after (reconnect st)) = reconnectAttempts st"
  by (simp add: reconnect_def ra_basic split: option.splits)

lemma ra_callback: "reconnectAttempts (after (runCallback cb st)) \<le> reconnectAttempts st"
  by (cases cb) (simp_all add: ra_processNextBatch ra_reconnect ra_flush)

lemma ra_step:
  assumes "reconnectAttempts st \<le> MAX_RECONNECT_ATTEMPTS"
  shows "reconnectAttempts (step rt ev st) \<le> MAX_RECONNECT_ATTEMPTS"
proof (cases ev)
  case UserStart
  then show ?thesis using assms ra_start [of st] by (simp add: step_def dispatch_def)
next
  case UserPause
  then show ?thesis using assms by (simp add: step_def dispatch_def ra_pause)
next
  case UserResume
  then show ?thesis using assms ra_resume [of st] by (simp add: step_def dispatch_def)
next
  case UserStop
  then show ?thesis using assms by (simp add: step_def dispatch_def ra_stop)
next
  case (SocketOpen sid)
  then show ?thesis using assms by (simp add: step_def dispatch_def ra_onopen ra_basic)
next
  case (SocketMessage sid m)
  then show ?thesis using assms by (simp add: step_def dispatch_def ra_onmessage)
next
  case (SocketClose sid code)
  then show ?thesis
    using assms ra_onclose [of "update_socket sid (\<lambda>w. w\<lparr>ws_state := CLOSED\<rparr>) st" code]
    by (simp add: step_def dispatch_def Let_def ra_basic)
next
  case (TimerFires tid)
  show ?thesis
  proof (cases "find (\<lambda>t. t_id t = tid) (timers st)")
    case None
    with TimerFires assms show ?thesis by (simp add: step_def dispatch_def)
  next
    case (Some t)
    with TimerFires assms ra_callback [of "t_callback t" "clearTimeout tid st"]
    show ?thesis by (simp add: step_def dispatch_def ra_basic)
  qed
qed

lemma ra_run:
  "reconnectAttempts st \<le> MAX_RECONNECT_ATTEMPTS \<Longrightarrow>
   reconnectAttempts (run rt evs st) \<le> MAX_RECONNECT_ATTEMPTS"
  unfolding run_def by (induction evs arbitrary: st) (simp_all add: ra_step)

subsection \<open>Abnormal close and reconnection\<close>

lemma step_close:
  assumes "sid < length (sockets st)" and "ws_state (sockets st ! sid) \<noteq> CLOSED"
    and "ws_onclose (sockets st ! sid)"
  shows "step rt (SocketClose sid code) st = after (onclose code (closed_socket sid st))"
  using assms by (simp add: step_def dispatch_def Let_def closed_socket_def)

lemma closed_socket_fields:
  "isChecking (closed_socket sid st) = isChecking st"
  "isPaused (closed_socket sid st) = isPaused st"
  "reconnectAttempts (closed_socket sid st) = reconnectAttempts st"
  "currentBatch (closed_socket sid st) = currentBatch st"
  "jobQueue (closed_socket sid st) = jobQueue st"
  "timers (closed_socket sid st) = timers st"
  "nextTimerId (closed_socket sid st) = nextTimerId st"
  "posted (closed_socket sid st) = posted st"
  "config (closed_socket sid st) = config st"
  "resultBuffer (closed_socket sid st) = resultBuffer st"
  "hasUnresolved (closed_socket sid st) = hasUnresolved st"
  "length (sockets (closed_socket sid st)) = length (sockets st)"
  by (simp_all add: closed_socket_def update_socket_def hasUnresolved_def)

lemma scheduleReconnect_fields:
  "reconnectAttempts (scheduleReconnect st) = reconnectAttempts st + 1"
  "timers (scheduleReconnect st) = timers st @
     [\<lparr>t_id = nextTimerId st, t_delay = 1000 * (reconnectAttempts st + 1), t_callback = CbReconnect\<rparr>]"
  "posted (scheduleReconnect st) = posted st @
     [\<lparr>st_text = ConnectionLostRetrying (reconnectAttempts st + 1) MAX_RECONNECT_ATTEMPTS,
       st_type = Warning, st_duration = 3000\<rparr>]"
  "isChecking (scheduleReconnect st) = isChecking st"
  "isPaused (scheduleReconnect st) = isPaused st"
  "currentBatch (scheduleReconnect st) = currentBatch st"
  "jobQueue (scheduleReconnect st) = jobQueue st"
  "sockets (scheduleReconnect st) = sockets st"
  "socket (scheduleReconnect st) = socket st"
  by (simp_all add: scheduleReconnect_def Let_def postStatus_def setTimeout_def)

lemma postStatus_fields:
  "posted (postStatus txt ty dur st) = posted st @ [\<lparr>st_text = txt, st_type = ty, st_duration = dur\<rparr>]"
  "timers (postStatus txt ty dur st) = timers st"
  "sockets (postStatus txt ty dur st) = sockets st"
  "config (postStatus txt ty dur st) = config st"
  "resultBuffer (postStatus txt ty dur st) = resultBuffer st"
  "isChecking (postStatus txt ty dur st) = isChecking st"
  "jobQueue (postStatus txt ty dur st) = jobQueue st"
  "currentBatch (postStatus txt ty dur st) = currentBatch st"
  by (simp_all add: postStatus_def)

text \<open>\<^verbatim>\<open>stopCheck\<close> stops the run when its flush returns; when the flush throws, nothing
  but the flush has happened.\<close>

lemma stopCheck_flushed:
  assumes "buildable (config st) (resultBuffer st)"
  shows "\<not> threw (stopCheck st)"
    and "isChecking (after (stopCheck st)) = False"
    and "isPaused (after (stopCheck st)) = False"
    and "jobQueue (after (stopCheck st)) = None"
    and "currentBatch (after (stopCheck st)) = None"
    and "socket (after (stopCheck st)) = None"
    and "posted (after (stopCheck st)) = posted st @ [\<lparr>st_text = CheckStopped, st_type = Info, st_duration = 3000\<rparr>]"
proof -
  from flush_buildable(1) [OF assms] obtain s where s: "flushResultBuffer st = Completed s"
    by (cases "flushResultBuffer st") simp_all
  from after_flush_fields(12) [of st] s have p: "posted s = posted st" by simp
  show "\<not> threw (stopCheck st)" "isChecking (after (stopCheck st)) = False"
    "isPaused (after (stopCheck st)) = False" "jobQueue (after (stopCheck st)) = None"
    "currentBatch (after (stopCheck st)) = None" "socket (after (stopCheck st)) = None"
    "posted (after (stopCheck st)) = posted st @ [\<lparr>st_text = CheckStopped, st_type = Info, st_duration = 3000\<rparr>]"
    using p
    by (simp_all add: stopCheck_def andThen_def s postStatus_def dropSocket_def ws_close_def
        update_socket_def split: option.splits)
qed

lemma stopCheck_thrown:
  assumes "\<not> buildable (config st) (resultBuffer st)"
  shows "stopCheck st = Threw (after (flushResultBuffer st))"
proof -
  from flush_throws(1) [OF assms] obtain s where s: "flushResultBuffer st = Threw s"
    by (cases "flushResultBuffer st") simp_all
  show ?thesis by (simp add: stopCheck_def andThen_def s)
qed

lemma stopCheck_frame:
  "length (sockets (after (stopCheck st))) = length (sockets st)"
  "set (timers (after (stopCheck st))) \<subseteq> set (timers st)"
proof -
  have l: "length (sockets (after (flushResultBuffer st))) = length (sockets st)"
    by (simp add: after_flush_fields)
  note t = timers_flush [of st]
  show "length (sockets (after (stopCheck st))) = length (sockets st)"
    using l
    by (cases "flushResultBuffer st")
       (simp_all add: stopCheck_def andThen_def postStatus_def dropSocket_def ws_close_def
         update_socket_def split: option.splits)
  show "set (timers (after (stopCheck st))) \<subseteq> set (timers st)"
    using t
    by (cases "flushResultBuffer st")
       (simp_all add: stopCheck_def andThen_def postStatus_def dropSocket_def ws_close_def
         update_socket_def split: option.splits)
qed

lemmas store_defs =
  run_def step_def dispatch_def andThen_def startCheck_def startTokens_def processNextBatch_def
  finishCheck_def stopCheck_def pauseCheck_def resumeCheck_def requeue_def dropSocket_def
  ws_close_def ws_send_def update_socket_def connectWebSocket_def onopen_def onmessage_def
  onclose_def reconnect_def scheduleReconnect_def hasUnresolved_def removeFromBatch_def
  processResult_def bufferResult_def flushResultBuffer_def addResults_def clearResults_def
  clearTimeout_def setTimeout_def postStatus_def socketIs_def summaryParts_def
  finalCategoryOf_def categorizeTokenError_def grouped_def map_filter_simps buildResultItem_def
  getDisplayText_def displayTextFormatters_def format_deepseek_def usd_def
  buildProviderConfig_def initial_def example_cfg_def valid_res_def
  BATCH_SIZE_def MAX_RECONNECT_ATTEMPTS_def BUFFER_FLUSH_INTERVAL_def BUFFER_MAX_SIZE_def
  MAX_KEYS_LIMIT_def CATEGORIES_def

lemma tokensRaw_k1: "tokensRaw ''k1'' = [''k1'']"
  by (simp add: tokensRaw_def split_seps_def trim_def js_ws_def is_sep_def)

lemma trim_k1: "trim ''k1'' = ''k1''"
  by (simp add: trim_def js_ws_def)

lemma keys_k1: "keysToProcess [''k1''] = [\<lparr>token = ''k1'', order = 0\<rparr>]"
  "duplicateResults [''k1''] = []"
  by (simp_all add: keysToProcess_def duplicateResults_def allKeys_def dedup_step_def)

lemma oneKeyRun_facts:
  "isChecking oneKeyRun \<and> \<not> isPaused oneKeyRun \<and> reconnectAttempts oneKeyRun = 0
   \<and> map ws_state (sockets oneKeyRun) = [OPEN] \<and> map ws_onclose (sockets oneKeyRun) = [True]
   \<and> map_option batch (currentBatch oneKeyRun) = Some []
   \<and> map_option remainingKeys (jobQueue oneKeyRun) = Some []
   \<and> buildable (config oneKeyRun) (resultBuffer oneKeyRun)
   \<and> completedCount oneKeyRun = 1
   \<and> map t_callback (timers oneKeyRun) = [CbFlushResultBuffer]
   \<and> map st_text (posted oneKeyRun) = [StartChecking 1, ProcessingKeys 1 1]"
  unfolding oneKeyRun_def
  by (simp add: store_defs buildable_def tokensRaw_k1 trim_k1 keys_k1 Let_def)

lemma onclose_retry:
  assumes "isChecking st" and "\<not> isPaused st" and "code \<noteq> 1000"
    and "reconnectAttempts st < MAX_RECONNECT_ATTEMPTS" and "hasUnresolved st"
  shows "onclose code st = Completed (scheduleReconnect st)"
  using assms by (simp add: onclose_def)

lemma onclose_abort:
  assumes "isChecking st" and "\<not> isPaused st" and "code \<noteq> 1000"
    and "MAX_RECONNECT_ATTEMPTS \<le> reconnectAttempts st \<or> \<not> hasUnresolved st"
  shows "onclose code st = stopCheck (postStatus ReconnectFailedStopped Error 3000 st)"
  using assms by (auto simp: onclose_def)

text \<open>What the close event does when the handler takes its second branch: no timer is
  set, no session is opened and the counter stays; the error status is posted and
  \<^verbatim>\<open>stopCheck\<close> runs, which ends the run and drops the queue once its flush has
  returned.\<close>

lemma close_aborts:
  assumes "sid < length (sockets st)" and "ws_state (sockets st ! sid) \<noteq> CLOSED"
    and "ws_onclose (sockets st ! sid)"
    and "isChecking st" and "\<not> isPaused st" and "code \<noteq> 1000"
    and "MAX_RECONNECT_ATTEMPTS \<le> reconnectAttempts st \<or> \<not> hasUnresolved st"
  shows "step rt (SocketClose sid code) st =
           after (stopCheck (postStatus ReconnectFailedStopped Error 3000 (closed_socket sid st)))"
    and "reconnectAttempts (step rt (SocketClose sid code) st) = reconnectAttempts st"
    and "set (timers (step rt (SocketClose sid code) st)) \<subseteq> set (timers st)"
    and "length (sockets (step rt (SocketClose sid code) st)) = length (sockets st)"
    and "buildable (config st) (resultBuffer st) \<Longrightarrow>
           \<not> isChecking (step rt (SocketClose sid code) st)
           \<and> jobQueue (step rt (SocketClose sid code) st) = None
           \<and> currentBatch (step rt (SocketClose sid code) st) = None
           \<and> posted (step rt (SocketClose sid code) st) = posted st @
               [\<lparr>st_text = ReconnectFailedStopped, st_type = Error, st_duration = 3000\<rparr>,
                \<lparr>st_text = CheckStopped, st_type = Info, st_duration = 3000\<rparr>]"
proof -
  let ?c = "closed_socket sid st"
  let ?p = "postStatus ReconnectFailedStopped Error 3000 ?c"
  have c: "isChecking ?c" "\<not> isPaused ?c" using assms(4,5) by (simp_all add: closed_socket_fields)
  have "onclose code ?c = stopCheck ?p"
    using assms(7) by (intro onclose_abort c assms(6)) (simp add: closed_socket_fields)
  with step_close [OF assms(1-3), of rt code]
  show e: "step rt (SocketClose sid code) st = after (stopCheck ?p)" by simp
  show "reconnectAttempts (step rt (SocketClose sid code) st) = reconnectAttempts st"
    unfolding e by (simp add: ra_stop ra_basic closed_socket_fields)
  show "set (timers (step rt (SocketClose sid code) st)) \<subseteq> set (timers st)"
    unfolding e using stopCheck_frame(2) [of ?p]
    by (simp add: postStatus_fields closed_socket_fields)
  show "length (sockets (step rt (SocketClose sid code) st)) = length (sockets st)"
    unfolding e by (simp add: stopCheck_frame(1) postStatus_fields closed_socket_fields)
  show "\<not> isChecking (step rt (SocketClose sid code) st)
           \<and> jobQueue (step rt (SocketClose sid code) st) = None
           \<and> currentBatch (step rt (SocketClose sid code) st) = None
           \<and> posted (step rt (SocketClose sid code) st) = posted st @
               [\<lparr>st_text = ReconnectFailedStopped, st_type = Error, st_duration = 3000\<rparr>,
                \<lparr>st_text = CheckStopped, st_type = Info, st_duration = 3000\<rparr>]"
    if "buildable (config st) (resultBuffer st)"
  proof -
    from that have b: "buildable (config ?p) (resultBuffer ?p)"
      by (simp add: postStatus_fields closed_socket_fields)
    show ?thesis
      unfolding e using stopCheck_flushed [OF b]
      by (simp add: postStatus_fields closed_socket_fields)
  qed
qed

text \<open>
  C4. While a run is active and not paused, every abnormal close is to reconnect the batch
  until three attempts have been made. The handler reconnects only while the tracked batch
  still holds a credential without result. When every credential of the batch has its
  result (the session broke before \<^verbatim>\<open>done\<close> arrived) or the batch is no longer tracked
  (the close event of a session closed after \<^verbatim>\<open>done\<close> reports an abnormal code), an
  abnormal close takes the branch written for the exhausted attempts, whatever the number of
  attempts made, also none: no timer is set, no session is opened and the counter is not
  touched; the status "reconnect failed" is posted and \<^verbatim>\<open>stopCheck\<close> runs, which, once
  its flush has returned, ends the run and discards the job queue with every key still
  waiting in it.
\<close>

theorem abnormal_close_of_resulted_batch_stops_run:
  assumes "sid < length (sockets st)" and "ws_state (sockets st ! sid) \<noteq> CLOSED"
    and "ws_onclose (sockets st ! sid)"
    and "isChecking st" and "\<not> isPaused st" and "code \<noteq> 1000"
    and "\<not> hasUnresolved st"
  shows "step rt (SocketClose sid code) st =
           after (stopCheck (postStatus ReconnectFailedStopped Error 3000 (closed_socket sid st)))
    \<and> reconnectAttempts (step rt (SocketClose sid code) st) = reconnectAttempts st
    \<and> set (timers (step rt (SocketClose sid code) st)) \<subseteq> set (timers st)
    \<and> length (sockets (step rt (SocketClose sid code) st)) = length (sockets st)
    \<and> (buildable (config st) (resultBuffer st) \<longrightarrow>
         \<not> isChecking (step rt (SocketClose sid code) st)
         \<and> jobQueue (step rt (SocketClose sid code) st) = None
         \<and> currentBatch (step rt (SocketClose sid code) st) = None
         \<and> posted (step rt (SocketClose sid code) st) = posted st @
             [\<lparr>st_text = ReconnectFailedStopped, st_type = Error, st_duration = 3000\<rparr>,
              \<lparr>st_text = CheckStopped, st_type = Info, st_duration = 3000\<rparr>])"
proof -
  from assms(7) have h: "MAX_RECONNECT_ATTEMPTS \<le> reconnectAttempts st \<or> \<not> hasUnresolved st"
    by simp
  note A = close_aborts [OF assms(1-6) h, of rt]
  from A(1) A(2) A(3) A(4) A(5) show ?thesis by blast
qed

text \<open>A batch of one key whose result has arrived, and whose session then closes
  abnormally before \<^verbatim>\<open>done\<close>: the run is active and not paused, no reconnection has been
  attempted, and the first abnormal close stops the run.\<close>

theorem abnormal_close_of_resulted_batch_stops_run_witness:
  "isChecking oneKeyRun \<and> \<not> isPaused oneKeyRun \<and> reconnectAttempts oneKeyRun = 0
   \<and> map ws_state (sockets oneKeyRun) = [OPEN] \<and> map ws_onclose (sockets oneKeyRun) = [True]
   \<and> map_option batch (currentBatch oneKeyRun) = Some []
   \<and> (1006::nat) \<noteq> 1000
   \<and> \<not> isChecking (step example_rt (SocketClose 0 1006) oneKeyRun)
   \<and> reconnectAttempts (step example_rt (SocketClose 0 1006) oneKeyRun) = 0
   \<and> jobQueue (step example_rt (SocketClose 0 1006) oneKeyRun) = None
   \<and> CbReconnect \<notin> t_callback ` set (timers (step example_rt (SocketClose 0 1006) oneKeyRun))
   \<and> length (sockets (step example_rt (SocketClose 0 1006) oneKeyRun)) = 1
   \<and> map st_text (posted (step example_rt (SocketClose 0 1006) oneKeyRun))
        = [StartChecking 1, ProcessingKeys 1 1, ReconnectFailedStopped, CheckStopped]"
proof -
  note O = oneKeyRun_facts
  from O have l: "length (sockets oneKeyRun) = 1"
    using length_map [of ws_state "sockets oneKeyRun"] by simp
  from l have o1: "0 < length (sockets oneKeyRun)" by simp
  from O have "map ws_state (sockets oneKeyRun) ! 0 = OPEN"
    and "map ws_onclose (sockets oneKeyRun) ! 0 = True" by simp_all
  with o1 have o2: "ws_state (sockets oneKeyRun ! 0) \<noteq> CLOSED"
    and o3: "ws_onclose (sockets oneKeyRun ! 0)" by simp_all
  from O have o4: "isChecking oneKeyRun" and o5: "\<not> isPaused oneKeyRun" by simp_all
  have c: "(1006::nat) \<noteq> 1000" by simp
  from O have o7: "\<not> hasUnresolved oneKeyRun"
    by (cases "currentBatch oneKeyRun") (simp_all add: hasUnresolved_def)
  from O have b: "buildable (config oneKeyRun) (resultBuffer oneKeyRun)" by simp
  note T = abnormal_close_of_resulted_batch_stops_run [OF o1 o2 o3 o4 o5 c o7, of example_rt]
  from T b have A: "\<not> isChecking (step example_rt (SocketClose 0 1006) oneKeyRun)
      \<and> jobQueue (step example_rt (SocketClose 0 1006) oneKeyRun) = None
      \<and> posted (step example_rt (SocketClose 0 1006) oneKeyRun) = posted oneKeyRun @
             [\<lparr>st_text = ReconnectFailedStopped, st_type = Error, st_duration = 3000\<rparr>,
              \<lparr>st_text = CheckStopped, st_type = Info, st_duration = 3000\<rparr>]"
    by blast
  from T have B: "reconnectAttempts (step example_rt (SocketClose 0 1006) oneKeyRun)
        = reconnectAttempts oneKeyRun
      \<and> set (timers (step example_rt (SocketClose 0 1006) oneKeyRun)) \<subseteq> set (timers oneKeyRun)
      \<and> length (sockets (step example_rt (SocketClose 0 1006) oneKeyRun))
          = length (sockets oneKeyRun)"
    by blast
  from O have "t_callback ` set (timers oneKeyRun) = {CbFlushResultBuffer}"
    using set_map [of t_callback "timers oneKeyRun"] by simp
  with B have t: "CbReconnect \<notin> t_callback ` set (timers (step example_rt (SocketClose 0 1006) oneKeyRun))"
    by auto
  from A B O l c t show ?thesis by simp
qed

text \<open>The other branch of the handler, and the timer it sets: below three attempts and
  with a credential of the tracked batch still without result, the close makes the counter
  \<open>N\<close>, posts a warning and sets a timer of \<open>N\<close> seconds; no session is opened yet. When
  the timer fires in a run that is active and not paused, a session is opened for the batch
  tracked at that moment.\<close>

lemma close_schedules_reconnect:
  assumes "sid < length (sockets st)" and "ws_state (sockets st ! sid) \<noteq> CLOSED"
    and "ws_onclose (sockets st ! sid)"
    and "isChecking st" and "\<not> isPaused st" and "code \<noteq> 1000"
    and "reconnectAttempts st < 3" and "hasUnresolved st"
  shows "step rt (SocketClose sid code) st = scheduleReconnect (closed_socket sid st)"
    and "reconnectAttempts (step rt (SocketClose sid code) st) = reconnectAttempts st + 1"
    and "timers (step rt (SocketClose sid code) st) = timers st @
           [\<lparr>t_id = nextTimerId st, t_delay = 1000 * (reconnectAttempts st + 1),
             t_callback = CbReconnect\<rparr>]"
    and "posted (step rt (SocketClose sid code) st) = posted st @
           [\<lparr>st_text = ConnectionLostRetrying (reconnectAttempts st + 1) 3,
             st_type = Warning, st_duration = 3000\<rparr>]"
    and "isChecking (step rt (SocketClose sid code) st)"
    and "currentBatch (step rt (SocketClose sid code) st) = currentBatch st"
    and "jobQueue (step rt (SocketClose sid code) st) = jobQueue st"
    and "length (sockets (step rt (SocketClose sid code) st)) = length (sockets st)"
proof -
  let ?c = "closed_socket sid st"
  have M: "MAX_RECONNECT_ATTEMPTS = 3" by (simp add: MAX_RECONNECT_ATTEMPTS_def)
  have c: "isChecking ?c" "\<not> isPaused ?c" using assms(4,5) by (simp_all add: closed_socket_fields)
  have "onclose code ?c = Completed (scheduleReconnect ?c)"
    using assms(7,8) by (intro onclose_retry c assms(6)) (simp_all add: closed_socket_fields M)
  with step_close [OF assms(1-3), of rt code]
  show e: "step rt (SocketClose sid code) st = scheduleReconnect ?c" by simp
  show "reconnectAttempts (step rt (SocketClose sid code) st) = reconnectAttempts st + 1"
    "timers (step rt (SocketClose sid code) st) = timers st @
           [\<lparr>t_id = nextTimerId st, t_delay = 1000 * (reconnectAttempts st + 1),
             t_callback = CbReconnect\<rparr>]"
    "posted (step rt (SocketClose sid code) st) = posted st @
           [\<lparr>st_text = ConnectionLostRetrying (reconnectAttempts st + 1) 3,
             st_type = Warning, st_duration = 3000\<rparr>]"
    "isChecking (step rt (SocketClose sid code) st)"
    "currentBatch (step rt (SocketClose sid code) st) = currentBatch st"
    "jobQueue (step rt (SocketClose sid code) st) = jobQueue st"
    "length (sockets (step rt (SocketClose sid code) st)) = length (sockets st)"
    unfolding e using assms(4) by (simp_all add: scheduleReconnect_fields closed_socket_fields M)
qed

lemma reconnect_timer:
  "isChecking st \<and> \<not> isPaused st \<and> currentBatch st = Some cb \<Longrightarrow>
     runCallback CbReconnect st =
       Completed (connectWebSocket (b_providerConfig cb) (batch cb) (b_concurrency cb) st)"
  "isPaused st \<or> \<not> isChecking st \<Longrightarrow> runCallback CbReconnect st = Completed st"
  by (auto simp: reconnect_def)

lemma openRun_facts:
  "isChecking openRun \<and> \<not> isPaused openRun
   \<and> reconnectAttempts openRun = 0 \<and> hasUnresolved openRun
   \<and> map ws_state (sockets openRun) = [OPEN]
   \<and> map ws_onclose (sockets openRun) = [True]
   \<and> timers openRun = [] \<and> nextTimerId openRun = 0"
  unfolding openRun_def
  by (simp add: store_defs tokensRaw_k1 trim_k1 keys_k1 Let_def)

text \<open>Three abnormal closes of the sessions of one batch, each followed by its timer: the
  timers wait 1, 2 and 3 seconds, each opens a session for the same batch, and the fourth
  abnormal close stops the run.\<close>

lemma threeRetries_facts:
  "isChecking threeRetries \<and> \<not> isPaused threeRetries
   \<and> reconnectAttempts threeRetries = 3 \<and> hasUnresolved threeRetries
   \<and> map ws_state (sockets threeRetries) = [CLOSED, CLOSED, CLOSED, CONNECTING]
   \<and> map ws_onclose (sockets threeRetries) = [True, True, True, True]
   \<and> map ws_batch (sockets threeRetries) =
        [[\<lparr>token = ''k1'', order = 0\<rparr>], [\<lparr>token = ''k1'', order = 0\<rparr>],
         [\<lparr>token = ''k1'', order = 0\<rparr>], [\<lparr>token = ''k1'', order = 0\<rparr>]]
   \<and> map st_text (posted threeRetries) =
        [StartChecking 1, ProcessingKeys 1 1, ConnectionLostRetrying 1 3,
         ConnectionLostRetrying 2 3, ConnectionLostRetrying 3 3]
   \<and> timers threeRetries = [] \<and> resultBuffer threeRetries = []"
  unfolding threeRetries_def openRun_def
  by (simp add: store_defs tokensRaw_k1 trim_k1 keys_k1 Let_def)

lemma fourth_abnormal_close_stops_run:
  "\<not> isChecking (step example_rt (SocketClose 3 1006) threeRetries)
   \<and> length (sockets (step example_rt (SocketClose 3 1006) threeRetries)) = 4
   \<and> map st_text (posted (step example_rt (SocketClose 3 1006) threeRetries)) =
        [StartChecking 1, ProcessingKeys 1 1, ConnectionLostRetrying 1 3,
         ConnectionLostRetrying 2 3, ConnectionLostRetrying 3 3, ReconnectFailedStopped,
         CheckStopped]"
proof -
  note R = threeRetries_facts
  from R have l: "length (sockets threeRetries) = 4"
    using length_map [of ws_state "sockets threeRetries"] by simp
  from l have r1: "3 < length (sockets threeRetries)" by simp
  from R have "map ws_state (sockets threeRetries) ! 3 = CONNECTING"
    and "map ws_onclose (sockets threeRetries) ! 3 = True" by simp_all
  with r1 have r2: "ws_state (sockets threeRetries ! 3) \<noteq> CLOSED"
    and r3: "ws_onclose (sockets threeRetries ! 3)" by simp_all
  from R have r4: "isChecking threeRetries" and r5: "\<not> isPaused threeRetries" by simp_all
  have c: "(1006::nat) \<noteq> 1000" by simp
  from R have r6: "MAX_RECONNECT_ATTEMPTS \<le> reconnectAttempts threeRetries \<or> \<not> hasUnresolved threeRetries"
    by (simp add: MAX_RECONNECT_ATTEMPTS_def)
  from R have b: "buildable (config threeRetries) (resultBuffer threeRetries)"
    by (simp add: buildable_Nil)
  note A = close_aborts [OF r1 r2 r3 r4 r5 c r6, of example_rt]
  from A(4) A(5) [OF b] R l show ?thesis by simp
qed

subsection \<open>One result per credential\<close>

lemma tokensRaw_k1k2: "tokensRaw ''k1,k2'' = [''k1'', ''k2'']"
  by (simp add: tokensRaw_def split_seps_def trim_def js_ws_def is_sep_def)

lemma trim_k1k2: "trim ''k1,k2'' = ''k1,k2''"
  by (simp add: trim_def js_ws_def)

lemma keys_k1k2:
  "keysToProcess [''k1'', ''k2''] = [\<lparr>token = ''k1'', order = 0\<rparr>, \<lparr>token = ''k2'', order = 1\<rparr>]"
  "duplicateResults [''k1'', ''k2''] = []"
  by (simp_all add: keysToProcess_def duplicateResults_def allKeys_def dedup_step_def)

lemma doubledRun_facts:
  "\<not> isChecking doubledRun \<and> completedCount doubledRun = 3 \<and> totalTasks doubledRun = 2
   \<and> map st_text (posted doubledRun) =
       [StartChecking 2, ProcessingKeys 2 2, ConnectionLostRetrying 1 3, CheckPaused, CheckResumed,
        ProcessingKeys 2 2, CheckFinished [(Valid, 3)]]
   \<and> results doubledRun Valid =
       [\<lparr>i_token = ''k1'', i_balance = BNum 5, i_order = 0\<rparr>,
        \<lparr>i_token = ''k1'', i_balance = BNum 5, i_order = 0\<rparr>,
        \<lparr>i_token = ''k2'', i_balance = BNum 5, i_order = 1\<rparr>]
   \<and> totalResults doubledRun = 3
   \<and> timers doubledRun = [] \<and> resultBuffer doubledRun = []
   \<and> tokensInput (config doubledRun) = ''k1,k2''"
  unfolding doubledRun_def resumedBeforeTimer_def
  by (simp add: store_defs tokensRaw_k1k2 trim_k1k2 keys_k1k2 Let_def totalResults_def)

lemma plainRun_facts:
  "\<not> isChecking plainRun \<and> completedCount plainRun = 2 \<and> totalTasks plainRun = 2
   \<and> map st_text (posted plainRun) =
       [StartChecking 2, ProcessingKeys 2 2, CheckFinished [(Valid, 2)]]
   \<and> map i_order (results plainRun Valid) = [0, 1]
   \<and> totalResults plainRun = 2"
  unfolding plainRun_def
  by (simp add: store_defs tokensRaw_k1k2 trim_k1k2 keys_k1k2 Let_def totalResults_def)

text \<open>
  C1. Every input credential is to receive exactly one result in a run that completes
  without \<^verbatim>\<open>stopCheck\<close>, whatever the interleaving of pause, resume and reconnect. The
  run \<open>doubledRun\<close> completes (\<^verbatim>\<open>finishCheck\<close> posts the summary, \<^verbatim>\<open>stopCheck\<close> posts
  nothing, the buffer is flushed and no timer is left), its input has 2 credentials, and
  the store holds 3 results: the credential of order 0 has two.
\<close>

theorem resume_before_reconnect_timer_doubles_result:
  "length (tokensRaw (tokensInput (config doubledRun))) = 2
   \<and> \<not> isChecking doubledRun
   \<and> CheckStopped \<notin> set (map st_text (posted doubledRun))
   \<and> last (map st_text (posted doubledRun)) = CheckFinished [(Valid, 3)]
   \<and> timers doubledRun = [] \<and> resultBuffer doubledRun = []
   \<and> totalResults doubledRun = 3
   \<and> completedCount doubledRun = 3 \<and> totalTasks doubledRun = 2
   \<and> map i_order (results doubledRun Valid) = [0, 0, 1]"
proof -
  from doubledRun_facts have "length (tokensRaw (tokensInput (config doubledRun))) = 2"
    by (simp add: tokensRaw_k1k2)
  with doubledRun_facts show ?thesis by simp
qed

section \<open>Properties of the worker pool\<close>

lemma poolRun_snoc: "poolRun (evs @ [ev]) tm = poolStep ev (poolRun evs tm)"
  by (simp add: poolRun_def)

lemma poolRun_Nil: "poolRun [] tm = tm"
  by (simp add: poolRun_def)

text \<open>Once stopped, never done.\<close>

lemma isStopped_setWorker: "isStopped (setWorker i w tm) = isStopped tm"
  by (simp add: setWorker_def)

lemma emitted_setWorker: "emitted (setWorker i w tm) = emitted tm"
  by (simp add: setWorker_def)

lemma loopHead_keeps:
  "isStopped (loopHead i tm) = isStopped tm"
  "emitted (loopHead i tm) = emitted tm"
  "poolReturned (loopHead i tm) = poolReturned tm"
  "queue (loopHead i tm) = queue tm"
  "length (workers (loopHead i tm)) = length (workers tm)"
  by (simp_all add: loopHead_def getNextItem_def setWorker_def Let_def split: option.splits)

lemma afterAll_keeps:
  "isStopped (afterAll tm) = isStopped tm"
  "queue (afterAll tm) = queue tm"
  "workers (afterAll tm) = workers tm"
  "currentIndex (afterAll tm) = currentIndex tm"
  "claimed (afterAll tm) = claimed tm"
  by (simp_all add: afterAll_def)

lemma afterAll_stopped: "isStopped tm \<Longrightarrow> emitted (afterAll tm) = emitted tm"
  by (simp add: afterAll_def)

lemma poolStep_stopped:
  assumes "isStopped tm"
  shows "isStopped (poolStep ev tm) \<and> doneCount (poolStep ev tm) = doneCount tm"
  using assms
  by (cases ev)
     (auto simp: poolStep_def doneCount_def setWorker_def afterAll_keeps afterAll_stopped
        loopHead_keeps split: worker.splits)

lemma poolRun_stopped:
  "isStopped tm \<Longrightarrow> isStopped (poolRun evs tm) \<and> doneCount (poolRun evs tm) = doneCount tm"
proof (induction evs rule: rev_induct)
  case Nil
  then show ?case by (simp add: poolRun_Nil)
next
  case (snoc ev evs)
  then show ?case using poolStep_stopped [of "poolRun evs tm" ev] by (simp add: poolRun_snoc)
qed

lemma cursorInv_loopHead: "cursorInv tm \<Longrightarrow> cursorInv (loopHead i tm)"
  by (auto simp: cursorInv_def loopHead_def getNextItem_def setWorker_def Let_def
      split: option.splits)

lemma cursorInv_afterAll: "cursorInv (afterAll tm) = cursorInv tm"
  by (simp add: cursorInv_def afterAll_keeps)

lemma spawn_keeps:
  "isStopped (spawn tm) = isStopped tm"
  "emitted (spawn tm) = emitted tm"
  "poolReturned (spawn tm) = poolReturned tm"
  "queue (spawn tm) = queue tm"
  "length (workers (spawn tm)) = length (workers tm) + 1"
  by (simp_all add: spawn_def loopHead_keeps)

lemma cursorInv_spawn: "cursorInv tm \<Longrightarrow> cursorInv (spawn tm)"
  unfolding spawn_def by (rule cursorInv_loopHead) (simp add: cursorInv_def)

lemma spawn_pow:
  "cursorInv tm \<Longrightarrow>
   cursorInv ((spawn ^^ n) tm) \<and> isStopped ((spawn ^^ n) tm) = isStopped tm
   \<and> emitted ((spawn ^^ n) tm) = emitted tm \<and> poolReturned ((spawn ^^ n) tm) = poolReturned tm
   \<and> queue ((spawn ^^ n) tm) = queue tm
   \<and> length (workers ((spawn ^^ n) tm)) = length (workers tm) + n"
  by (induction n) (simp_all add: spawn_keeps cursorInv_spawn)

lemma poolInv_afterAll:
  assumes "cursorInv tm" and "\<not> poolReturned tm" and "doneCount tm = 0"
  shows "poolInv (afterAll tm)"
  using assms
  by (cases "list_all (\<lambda>w. w = Exited) (workers tm)"; cases "isStopped tm")
     (simp_all add: poolInv_def cursorInv_def afterAll_def doneCount_def)

lemma poolInv_runWorkerPool:
  assumes "cursorInv tm" and "\<not> poolReturned tm" and "doneCount tm = 0"
  shows "poolInv (runWorkerPool tm)"
  unfolding runWorkerPool_def
  using spawn_pow [OF assms(1), of "tm_concurrency tm"] assms(2,3)
  by (intro poolInv_afterAll) (simp_all add: doneCount_def)

lemma poolInv_new: "poolInv (runWorkerPool (newManager q n))"
  by (rule poolInv_runWorkerPool) (simp_all add: newManager_def cursorInv_def doneCount_def)

lemma not_all_exited:
  "i < length ws \<Longrightarrow> ws ! i \<noteq> Exited \<Longrightarrow> \<not> list_all (\<lambda>w. w = Exited) ws"
  by (auto simp: list_all_length)

lemma not_all_exited_update:
  "i < length ws \<Longrightarrow> w \<noteq> Exited \<Longrightarrow> \<not> list_all (\<lambda>w. w = Exited) (ws[i := w])"
  by (auto simp: list_all_length nth_list_update intro!: exI [of _ i])

lemma poolInv_not_returned:
  "poolInv tm \<Longrightarrow> \<not> poolReturned tm \<Longrightarrow> doneCount tm = 0"
  by (simp add: poolInv_def)

lemma poolInv_step: 
  assumes "poolInv tm"
  shows "poolInv (poolStep ev tm)"
proof (cases ev)
  case (CheckEnds i outcome)
  show ?thesis
  proof (cases "i < length (workers tm) \<and> (\<exists>item. workers tm ! i = Checking item)")
    case True
    then obtain item where i: "i < length (workers tm)" and w: "workers tm ! i = Checking item"
      by blast
    from i w have n: "\<not> list_all (\<lambda>w. w = Exited) (workers tm)"
      by (intro not_all_exited [of i]) simp_all
    from i have n': "\<not> list_all (\<lambda>w. w = Exited) ((workers tm)[i := Yielding])"
      by (intro not_all_exited_update) simp_all
    from assms n have r: "\<not> poolReturned tm" by (simp add: poolInv_def)
    with assms have d: "doneCount tm = 0" by (rule poolInv_not_returned)
    from assms have c: "cursorInv tm" by (simp add: poolInv_def)
    have e: "poolStep ev tm = setWorker i Yielding (tm\<lparr>emitted := emitted tm @ [OnResult item outcome]\<rparr>)"
      using i w by (simp add: CheckEnds poolStep_def)
    have d': "doneCount (poolStep ev tm) = 0"
      using d by (simp add: e setWorker_def doneCount_def)
    have r': "\<not> poolReturned (poolStep ev tm)" using r by (simp add: e setWorker_def)
    have c': "cursorInv (poolStep ev tm)" using c by (simp add: e setWorker_def cursorInv_def)
    have w': "workers (poolStep ev tm) = (workers tm)[i := Yielding]" by (simp add: e setWorker_def)
    show ?thesis
      unfolding poolInv_def using c' r' d' n' by (simp add: w')
  next
    case False
    with assms show ?thesis
      by (auto simp: CheckEnds poolStep_def split: worker.splits)
  qed
next
  case (TimerEnds i)
  show ?thesis
  proof (cases "i < length (workers tm) \<and> workers tm ! i = Yielding")
    case True
    then have n: "\<not> list_all (\<lambda>w. w = Exited) (workers tm)"
      by (intro not_all_exited [of i]) simp_all
    with assms have r: "\<not> poolReturned tm" by (simp add: poolInv_def)
    with assms have d: "doneCount tm = 0" by (rule poolInv_not_returned)
    from assms have c: "cursorInv tm" by (simp add: poolInv_def)
    have "poolInv (afterAll (loopHead i tm))"
      using r d by (intro poolInv_afterAll cursorInv_loopHead c) (simp_all add: loopHead_keeps doneCount_def)
    with True show ?thesis by (simp add: TimerEnds poolStep_def)
  next
    case False
    with assms show ?thesis by (auto simp: TimerEnds poolStep_def)
  qed
next
  case StopCalled
  with assms show ?thesis
    by (auto simp: poolStep_def poolInv_def cursorInv_def doneCount_def split: if_splits)
qed

lemma poolInv_run: "poolInv tm \<Longrightarrow> poolInv (poolRun evs tm)"
  by (induction evs rule: rev_induct) (simp_all add: poolRun_Nil poolRun_snoc poolInv_step)

lemma isStopped_poolStep: "isStopped (poolStep ev tm) = (isStopped tm \<or> ev = StopCalled)"
  by (cases ev)
     (simp_all add: poolStep_def setWorker_def afterAll_keeps loopHead_keeps split: worker.splits)

lemma isStopped_poolRun: "isStopped (poolRun evs tm) = (isStopped tm \<or> StopCalled \<in> set evs)"
  by (induction evs rule: rev_induct) (auto simp: poolRun_Nil poolRun_snoc isStopped_poolStep)

lemma runWorkerPool_new_facts:
  "\<not> isStopped (runWorkerPool (newManager q n :: 'r taskManager))"
  "queue (runWorkerPool (newManager q n :: 'r taskManager)) = q"
  "length (workers (runWorkerPool (newManager q n :: 'r taskManager))) = n"
proof -
  have c: "cursorInv (newManager q n :: 'r taskManager)" by (simp add: cursorInv_def newManager_def)
  note S = spawn_pow [OF c, of n]
  show "\<not> isStopped (runWorkerPool (newManager q n :: 'r taskManager))"
    using S by (simp add: runWorkerPool_def afterAll_keeps newManager_def)
  show "queue (runWorkerPool (newManager q n :: 'r taskManager)) = q"
    using S by (simp add: runWorkerPool_def afterAll_keeps newManager_def)
  show "length (workers (runWorkerPool (newManager q n :: 'r taskManager))) = n"
    using S by (simp add: runWorkerPool_def afterAll_keeps newManager_def)
qed

lemma poolStep_keeps:
  "queue (poolStep ev tm) = queue tm"
  "length (workers (poolStep ev tm)) = length (workers tm)"
  by (cases ev; simp add: poolStep_def setWorker_def afterAll_keeps loopHead_keeps split: worker.splits)+

lemma poolRun_keeps:
  "queue (poolRun evs tm) = queue tm"
  "length (workers (poolRun evs tm)) = length (workers tm)"
  by (induction evs rule: rev_induct; simp add: poolRun_Nil poolRun_snoc poolStep_keeps)+

lemma poolRun_append: "poolRun (evs1 @ evs2) tm = poolRun evs2 (poolRun evs1 tm)"
  by (simp add: poolRun_def)

lemma poolRun_Cons: "poolRun (ev # evs) tm = poolRun evs (poolStep ev tm)"
  by (simp add: poolRun_def)

text \<open>
  C8. For every queue, every number of workers and every schedule of a pool started on a
  new manager: \<^verbatim>\<open>onDone\<close> is called at most once; when \<^verbatim>\<open>stop()\<close> was never called
  and every worker has left its loop, it has been called exactly once; when \<^verbatim>\<open>stop()\<close>
  is called at a moment where some worker has not yet left its loop, it is never called,
  whatever happens afterwards. The calls of \<^verbatim>\<open>getNextItem\<close> that returned an element got
  the indices 0, 1, 2, ... in this order, up to the cursor: no index is claimed twice, so
  no element goes to two workers, and the cursor never passes the end of the queue.
\<close>

theorem workerPool_done_signal:
  "doneCount (poolRun evs (runWorkerPool (newManager q n))) \<le> 1
   \<and> (StopCalled \<notin> set evs
        \<and> list_all (\<lambda>w. w = Exited) (workers (poolRun evs (runWorkerPool (newManager q n))))
       \<longrightarrow> doneCount (poolRun evs (runWorkerPool (newManager q n))) = 1)
   \<and> (\<forall>evs1 evs2. evs = evs1 @ StopCalled # evs2
          \<and> \<not> list_all (\<lambda>w. w = Exited) (workers (poolRun evs1 (runWorkerPool (newManager q n))))
       \<longrightarrow> doneCount (poolRun evs (runWorkerPool (newManager q n))) = 0)
   \<and> map snd (claimed (poolRun evs (runWorkerPool (newManager q n))))
        = [0..<currentIndex (poolRun evs (runWorkerPool (newManager q n)))]
   \<and> distinct (map snd (claimed (poolRun evs (runWorkerPool (newManager q n)))))
   \<and> currentIndex (poolRun evs (runWorkerPool (newManager q n))) \<le> length q
   \<and> length (workers (poolRun evs (runWorkerPool (newManager q n)))) = n"
proof -
  let ?base = "runWorkerPool (newManager q n) :: 'a taskManager"
  let ?tm = "poolRun evs ?base"
  have I: "poolInv ?tm" by (intro poolInv_run poolInv_new)
  have 1: "doneCount ?tm \<le> 1"
    using I by (simp add: poolInv_def split: if_splits)
  have 2: "doneCount ?tm = 1"
    if "StopCalled \<notin> set evs \<and> list_all (\<lambda>w. w = Exited) (workers ?tm)"
  proof -
    from that have "\<not> isStopped ?tm" by (simp add: isStopped_poolRun runWorkerPool_new_facts)
    moreover from that I have "poolReturned ?tm" by (simp add: poolInv_def)
    ultimately show ?thesis using I by (simp add: poolInv_def split: if_splits)
  qed
  have 3: "doneCount ?tm = 0"
    if "evs = evs1 @ StopCalled # evs2
        \<and> \<not> list_all (\<lambda>w. w = Exited) (workers (poolRun evs1 ?base))" for evs1 evs2
  proof -
    let ?tm1 = "poolRun evs1 ?base"
    have J: "poolInv ?tm1" by (intro poolInv_run poolInv_new)
    with that have "\<not> poolReturned ?tm1" by (simp add: poolInv_def)
    with J have d: "doneCount ?tm1 = 0" by (intro poolInv_not_returned) simp_all
    have s: "isStopped (poolStep StopCalled ?tm1)" by (simp add: isStopped_poolStep)
    have d': "doneCount (poolStep StopCalled ?tm1) = 0"
      using d by (simp add: poolStep_def doneCount_def)
    from that have "?tm = poolRun evs2 (poolStep StopCalled ?tm1)"
      by (simp add: poolRun_append poolRun_Cons)
    with poolRun_stopped [OF s, of evs2] d' show ?thesis by simp
  qed
  from I have 4: "map snd (claimed ?tm) = [0..<currentIndex ?tm]"
    and 6: "currentIndex ?tm \<le> length q"
    by (simp_all add: poolInv_def cursorInv_def poolRun_keeps runWorkerPool_new_facts)
  from 4 have 5: "distinct (map snd (claimed ?tm))" by simp
  have 7: "length (workers ?tm) = n" by (simp add: poolRun_keeps runWorkerPool_new_facts)
  from 1 2 3 4 5 6 7 show ?thesis by blast
qed

lemmas pool_defs =
  poolRun_def poolStep_def runWorkerPool_def spawn_def loopHead_def getNextItem_def setWorker_def
  afterAll_def newManager_def doneCount_def threeItems_def

theorem workerPool_done_signal_witness:
  "StopCalled \<notin> set toTheEnd
   \<and> workers (poolRun toTheEnd (runWorkerPool (newManager threeItems 2))) = [Exited, Exited]
   \<and> doneCount (poolRun toTheEnd (runWorkerPool (newManager threeItems 2))) = 1
   \<and> claimed (poolRun toTheEnd (runWorkerPool (newManager threeItems 2))) = [(0, 0), (1, 1), (0, 2)]
   \<and> workers (poolRun [CheckEnds 0 (Inr ())] (runWorkerPool (newManager threeItems 2)))
        = [Yielding, Checking \<lparr>token = ''b'', order = 1\<rparr>]
   \<and> workers (poolRun stoppedEarly (runWorkerPool (newManager threeItems 2))) = [Exited, Exited]
   \<and> doneCount (poolRun stoppedEarly (runWorkerPool (newManager threeItems 2))) = 0"
proof -
  let ?base = "runWorkerPool (newManager threeItems 2) :: unit taskManager"
  have a: "StopCalled \<notin> set toTheEnd" by (simp add: toTheEnd_def)
  have b: "workers (poolRun toTheEnd ?base) = [Exited, Exited]"
    by (simp add: pool_defs toTheEnd_def numeral_2_eq_2 Let_def)
  have c: "claimed (poolRun toTheEnd ?base) = [(0, 0), (1, 1), (0, 2)]"
    by (simp add: pool_defs toTheEnd_def numeral_2_eq_2 Let_def)
  have d: "workers (poolRun [CheckEnds 0 (Inr ())] ?base)
             = [Yielding, Checking \<lparr>token = ''b'', order = 1\<rparr>]"
    by (simp add: pool_defs numeral_2_eq_2 Let_def)
  have e: "workers (poolRun stoppedEarly ?base) = [Exited, Exited]"
    by (simp add: pool_defs stoppedEarly_def numeral_2_eq_2 Let_def)
  from workerPool_done_signal [of toTheEnd threeItems 2] a b
  have A: "doneCount (poolRun toTheEnd ?base) = 1" by simp
  have "stoppedEarly = [CheckEnds 0 (Inr ())] @ StopCalled # [TimerEnds 0, CheckEnds 1 (Inr ()), TimerEnds 1]
        \<and> \<not> list_all (\<lambda>w. w = Exited) (workers (poolRun [CheckEnds 0 (Inr ())] ?base))"
    by (simp add: stoppedEarly_def d)
  with workerPool_done_signal [of stoppedEarly threeItems 2]
  have B: "doneCount (poolRun stoppedEarly ?base) = 0" by blast
  from a b c d e A B show ?thesis by simp
qed

section \<open>Properties of the validator\<close>

lemma fetches_append: "fetches (xs @ ys) = fetches xs @ fetches ys"
  by (simp add: fetches_def map_filter_def)

lemma fetches_simps:
  "fetches [] = []"
  "fetches (Fetched r # es) = r # fetches es"
  "fetches (GetReader # es) = fetches es"
  "fetches (ReaderRead # es) = fetches es"
  "fetches (ReaderCancel # es) = fetches es"
  "fetches (ConsoleWarn # es) = fetches es"
  "fetches (ReaderReleaseLock # es) = fetches es"
  by (simp_all add: fetches_def map_filter_simps)

lemma fetches_cleanup: "fetches (cleanup resp) = []"
  by (simp add: cleanup_def fetches_simps)

lemma fetches_streamBlock: "fetches (snd (streamBlock tok resp effs)) = fetches effs"
  by (simp add: streamBlock_def fetches_append fetches_simps fetches_cleanup
      split: option.splits readOutcome.splits)

lemma balanceStep_none: "balanceCheck meta = None \<Longrightarrow> balanceStep pf meta pc res effs = (res, effs)"
  by (simp add: balanceStep_def)

lemma template_one_fetch:
  assumes "onFail strat = None" and "balanceCheck meta = None"
  shows "fetches (snd (checkTokenTemplate pf tok meta pc strat effs))
           = fetches effs @ [buildRequest strat tok pc]"
proof (cases "pf_net pf effs (buildRequest strat tok pc)")
  case (Throws m)
  then show ?thesis
    by (simp add: checkTokenTemplate_def secureProxiedFetch_def fetches_append fetches_simps)
next
  case (Responds resp)
  have s: "fetches (snd (streamBlock tok resp (effs @ [Fetched (buildRequest strat tok pc)])))
             = fetches effs @ [buildRequest strat tok pc]"
    by (simp add: fetches_streamBlock fetches_append fetches_simps)
  show ?thesis
  proof (cases "streamBlock tok resp (effs @ [Fetched (buildRequest strat tok pc)])")
    case (Pair ex effs2)
    with s have e2: "fetches effs2 = fetches effs @ [buildRequest strat tok pc]" by simp
    from Responds Pair assms e2 show ?thesis
      by (cases ex)
         (simp_all add: checkTokenTemplate_def secureProxiedFetch_def Let_def balanceStep_none
            fetches_append fetches_simps)
  qed
qed


lemma retryBody_eq:
  "retryBody pc =
     [(''model'', JStr (model pc)),
      (''messages'', JArr [JObj [(''role'', JStr ''user''),
                                (''content'', JStr (promptOr (validationPrompt pc) ''Hi''))]]),
      (''stream'', JBool (enableStream pc)),
      (''max_completion_tokens'', JNum (of_int (or_default (validationMaxOutputTokens pc) 16)))]"
  by (simp add: retryBody_def openai_body_def obj_set_def obj_delete_def)

lemma openai_onFail_retry:
  "unsupportedMaxTokens err \<Longrightarrow>
   openai_onFail pf err tok pc effs =
     (Some (fst (checkTokenTemplate pf tok emptyMeta pc (retryStrategy tok pc) effs)),
      snd (checkTokenTemplate pf tok emptyMeta pc (retryStrategy tok pc) effs))"
  by (simp add: openai_onFail_def split: prod.splits)

lemma openai_onFail_none:
  "\<not> unsupportedMaxTokens err \<Longrightarrow> openai_onFail pf err tok pc effs = (None, effs)"
  by (simp add: openai_onFail_def)

lemma checkToken_openai:
  "apiStyle meta = ''openai'' \<Longrightarrow>
   checkToken pf tok meta pc effs =
     checkTokenTemplate pf tok meta pc
       \<lparr>buildRequest = openai_buildRequest, onFail = Some (openai_onFail pf)\<rparr> effs"
  by (simp add: checkToken_def apiStrategies_def)

lemma openai_failure:
  assumes "apiStyle meta = ''openai''"
    and "pf_net pf effs (openai_buildRequest tok pc) = Responds resp" and "\<not> ok resp"
  shows "checkToken pf tok meta pc effs =
     (case openai_onFail pf (handleApiError (pf_runtime pf) resp) tok pc
             (effs @ [Fetched (openai_buildRequest tok pc)]) of
        (Some r, effs2) \<Rightarrow> (r, effs2)
      | (None, effs2) \<Rightarrow> (failed tok (handleApiError (pf_runtime pf) resp), effs2))"
  using assms
  by (simp add: checkToken_openai checkTokenTemplate_def secureProxiedFetch_def Let_def)

text \<open>
  C3. A validation in the style \<^verbatim>\<open>openai\<close> whose request gets a response that is not 2xx:
  when the body of the error has \<^verbatim>\<open>error.code = "unsupported_parameter"\<close> and
  \<^verbatim>\<open>error.param = "max_tokens"\<close>, the template runs once more, with the same request
  except that its body has lost \<^verbatim>\<open>max_tokens\<close> and gained \<^verbatim>\<open>max_completion_tokens\<close>
  (\<^verbatim>\<open>validationMaxOutputTokens\<close>, or 16), under a strategy without \<^verbatim>\<open>onFail\<close>: whatever
  the second response is, the validation has fetched exactly these two requests. For any
  other error \<^verbatim>\<open>onFail\<close> returns nothing, the result is the failure of the first
  response and there was one fetch. No other style has an \<^verbatim>\<open>onFail\<close>.
\<close>

theorem openai_retry_once:
  assumes "apiStyle meta = ''openai''"
    and "pf_net pf effs (openai_buildRequest tok pc) = Responds resp" and "\<not> ok resp"
  shows
   "(unsupportedMaxTokens (handleApiError (pf_runtime pf) resp) \<longrightarrow>
        checkToken pf tok meta pc effs =
          checkTokenTemplate pf tok emptyMeta pc (retryStrategy tok pc)
            (effs @ [Fetched (openai_buildRequest tok pc)])
      \<and> fetches (snd (checkToken pf tok meta pc effs)) =
          fetches effs @ [openai_buildRequest tok pc, retryRequest tok pc])
    \<and> (\<not> unsupportedMaxTokens (handleApiError (pf_runtime pf) resp) \<longrightarrow>
        checkToken pf tok meta pc effs =
          (failed tok (handleApiError (pf_runtime pf) resp),
           effs @ [Fetched (openai_buildRequest tok pc)])
      \<and> fetches (snd (checkToken pf tok meta pc effs)) =
          fetches effs @ [openai_buildRequest tok pc])
    \<and> unsupportedMaxTokens (handleApiError (pf_runtime pf) resp) =
        (get_prop (get_prop (Some (ae_content (handleApiError (pf_runtime pf) resp))) ''error'') ''code''
           = Some (JStr ''unsupported_parameter'')
         \<and> get_prop (get_prop (Some (ae_content (handleApiError (pf_runtime pf) resp))) ''error'') ''param''
           = Some (JStr ''max_tokens''))
    \<and> retryRequest tok pc = (openai_buildRequest tok pc)\<lparr>rq_body := Some (JObj (retryBody pc))\<rparr>
    \<and> rq_body (openai_buildRequest tok pc) = Some (JObj (openai_body pc))
    \<and> map_of (openai_body pc) ''max_tokens''
        = Some (JNum (of_int (or_default (validationMaxTokens pc) 1)))
    \<and> map_of (openai_body pc) ''max_completion_tokens'' = None
    \<and> map_of (retryBody pc) ''max_tokens'' = None
    \<and> map_of (retryBody pc) ''max_completion_tokens''
        = Some (JNum (of_int (or_default (validationMaxOutputTokens pc) 16)))
    \<and> (\<forall>k. k = ''max_tokens'' \<or> k = ''max_completion_tokens''
            \<or> map_of (retryBody pc) k = map_of (openai_body pc) k)
    \<and> onFail (retryStrategy tok pc) = None
    \<and> (\<forall>style s. apiStrategies pf style = Some s \<and> style \<noteq> ''openai'' \<longrightarrow> onFail s = None)"
proof -
  let ?err = "handleApiError (pf_runtime pf) resp"
  let ?e1 = "effs @ [Fetched (openai_buildRequest tok pc)]"
  note F = openai_failure [OF assms]
  have A: "checkToken pf tok meta pc effs =
          checkTokenTemplate pf tok emptyMeta pc (retryStrategy tok pc) ?e1
      \<and> fetches (snd (checkToken pf tok meta pc effs)) =
          fetches effs @ [openai_buildRequest tok pc, retryRequest tok pc]"
    if u: "unsupportedMaxTokens ?err"
  proof -
    have c: "checkToken pf tok meta pc effs =
          checkTokenTemplate pf tok emptyMeta pc (retryStrategy tok pc) ?e1"
      unfolding F openai_onFail_retry [OF u] by simp
    have "fetches (snd (checkTokenTemplate pf tok emptyMeta pc (retryStrategy tok pc) ?e1))
            = fetches ?e1 @ [buildRequest (retryStrategy tok pc) tok pc]"
      by (rule template_one_fetch) (simp_all add: retryStrategy_def emptyMeta_def)
    with c show ?thesis
      by (simp add: fetches_append fetches_simps retryStrategy_def)
  qed
  have B: "checkToken pf tok meta pc effs = (failed tok ?err, ?e1)
      \<and> fetches (snd (checkToken pf tok meta pc effs)) = fetches effs @ [openai_buildRequest tok pc]"
    if u: "\<not> unsupportedMaxTokens ?err"
    unfolding F openai_onFail_none [OF u] by (simp add: fetches_append fetches_simps)
  have C: "map_of (openai_body pc) ''max_tokens''
        = Some (JNum (of_int (or_default (validationMaxTokens pc) 1)))
    \<and> map_of (openai_body pc) ''max_completion_tokens'' = None
    \<and> map_of (retryBody pc) ''max_tokens'' = None
    \<and> map_of (retryBody pc) ''max_completion_tokens''
        = Some (JNum (of_int (or_default (validationMaxOutputTokens pc) 16)))
    \<and> (\<forall>k. k = ''max_tokens'' \<or> k = ''max_completion_tokens''
            \<or> map_of (retryBody pc) k = map_of (openai_body pc) k)"
    by (simp add: retryBody_eq) (simp add: openai_body_def)
  have D: "rq_body (openai_buildRequest tok pc) = Some (JObj (openai_body pc))"
    by (simp add: openai_buildRequest_def post_def)
  have E: "\<forall>style s. apiStrategies pf style = Some s \<and> style \<noteq> ''openai'' \<longrightarrow> onFail s = None"
    by (auto simp: apiStrategies_def split: if_splits)
  have G: "onFail (retryStrategy tok pc) = None" by (simp add: retryStrategy_def)
  have H: "unsupportedMaxTokens ?err =
        (get_prop (get_prop (Some (ae_content ?err)) ''error'') ''code''
           = Some (JStr ''unsupported_parameter'')
         \<and> get_prop (get_prop (Some (ae_content ?err)) ''error'') ''param''
           = Some (JStr ''max_tokens''))"
    by (simp add: unsupportedMaxTokens_def)
  have I: "retryRequest tok pc = (openai_buildRequest tok pc)\<lparr>rq_body := Some (JObj (retryBody pc))\<rparr>"
    by (simp add: retryRequest_def)
  from A have A': "unsupportedMaxTokens ?err \<longrightarrow>
        checkToken pf tok meta pc effs =
          checkTokenTemplate pf tok emptyMeta pc (retryStrategy tok pc) ?e1
      \<and> fetches (snd (checkToken pf tok meta pc effs)) =
          fetches effs @ [openai_buildRequest tok pc, retryRequest tok pc]" by blast
  from B have B': "\<not> unsupportedMaxTokens ?err \<longrightarrow>
      checkToken pf tok meta pc effs = (failed tok ?err, ?e1)
      \<and> fetches (snd (checkToken pf tok meta pc effs)) = fetches effs @ [openai_buildRequest tok pc]"
    by blast
  show ?thesis
    by (intro conjI) (rule A' B' H I D E G | use C in blast)+
qed

lemma rejecting_net: "pf_net rejecting effs req = Responds rejection"
  by (simp add: rejecting_def)

lemma rejection_unsupported:
  "\<not> ok rejection \<and> unsupportedMaxTokens (handleApiError (pf_runtime rejecting) rejection)"
  by (simp add: ok_def rejection_def unsupportedMaxTokens_def handleApiError_def Let_def
      rawErrorContent_def rejecting_def serverRuntime_def unsupportedJson_def)

theorem openai_retry_once_witness:
  "apiStyle deepseekMeta = ''openai''
   \<and> pf_net rejecting [] (openai_buildRequest ''sk-1'' serverConfig) = Responds rejection
   \<and> \<not> ok rejection
   \<and> unsupportedMaxTokens (handleApiError (pf_runtime rejecting) rejection)
   \<and> fetches (snd (checkToken rejecting ''sk-1'' deepseekMeta serverConfig []))
       = [openai_buildRequest ''sk-1'' serverConfig, retryRequest ''sk-1'' serverConfig]
   \<and> \<not> v_isValid (fst (checkToken rejecting ''sk-1'' deepseekMeta serverConfig []))"
proof -
  have m: "apiStyle deepseekMeta = ''openai''" by (simp add: deepseekMeta_def)
  have n: "pf_net rejecting [] (openai_buildRequest ''sk-1'' serverConfig) = Responds rejection"
    by (rule rejecting_net)
  from rejection_unsupported have k: "\<not> ok rejection"
    and u: "unsupportedMaxTokens (handleApiError (pf_runtime rejecting) rejection)" by simp_all
  note T = openai_retry_once [OF m n k]
  from T u have c: "checkToken rejecting ''sk-1'' deepseekMeta serverConfig [] =
          checkTokenTemplate rejecting ''sk-1'' emptyMeta serverConfig
            (retryStrategy ''sk-1'' serverConfig)
            ([] @ [Fetched (openai_buildRequest ''sk-1'' serverConfig)])"
    and f: "fetches (snd (checkToken rejecting ''sk-1'' deepseekMeta serverConfig [])) =
          fetches [] @ [openai_buildRequest ''sk-1'' serverConfig, retryRequest ''sk-1'' serverConfig]"
    by blast+
  have v: "\<not> v_isValid (fst (checkToken rejecting ''sk-1'' deepseekMeta serverConfig []))"
    unfolding c using k
    by (simp add: checkTokenTemplate_def secureProxiedFetch_def rejecting_net retryStrategy_def
        Let_def failed_def)
  from m n k u f v show ?thesis by (simp add: fetches_simps)
qed

subsection \<open>The stream block and the balance step\<close>

lemma cleanup_shape:
  "cleanup resp = [ReaderCancel] @ (if rs_cancelFails resp then [ConsoleWarn] else [])
                    @ [ReaderReleaseLock]"
  by (simp add: cleanup_def)

lemma streamBlock_effects:
  "snd (streamBlock tok resp effs) =
     effs @ (case rs_firstRead resp of None \<Rightarrow> [] | Some out \<Rightarrow> [GetReader, ReaderRead] @ cleanup resp)"
  by (simp add: streamBlock_def split: option.splits readOutcome.splits)

lemma stream_done_invalid:
  assumes "pf_net pf effs (buildRequest strat tok pc) = Responds resp" and "ok resp"
    and "enableStream pc" and "rs_firstRead resp = Some ReadDone"
  shows "checkTokenTemplate pf tok meta pc strat effs =
           (streamEnded tok,
            effs @ [Fetched (buildRequest strat tok pc), GetReader, ReaderRead] @ cleanup resp)"
  using assms by (simp add: checkTokenTemplate_def secureProxiedFetch_def streamBlock_def)

lemma stream_read_fails:
  assumes "pf_net pf effs (buildRequest strat tok pc) = Responds resp" and "ok resp"
    and "enableStream pc" and "rs_firstRead resp = Some (ReadFails m)"
  shows "checkTokenTemplate pf tok meta pc strat effs =
           (caught tok (ReadFailed m),
            effs @ [Fetched (buildRequest strat tok pc), GetReader, ReaderRead] @ cleanup resp)"
  using assms by (simp add: checkTokenTemplate_def secureProxiedFetch_def streamBlock_def)

lemma stream_chunk_goes_on:
  assumes "pf_net pf effs (buildRequest strat tok pc) = Responds resp" and "ok resp"
    and "enableStream pc" and "rs_firstRead resp = Some ReadChunk"
  shows "checkTokenTemplate pf tok meta pc strat effs =
           balanceStep pf meta pc
             (validWith tok (JObj [(''note'', JStr ''Validation successful via streaming.'')]))
             (effs @ [Fetched (buildRequest strat tok pc), GetReader, ReaderRead] @ cleanup resp)"
  using assms by (simp add: checkTokenTemplate_def secureProxiedFetch_def streamBlock_def)

lemma buffered_goes_on:
  assumes "pf_net pf effs (buildRequest strat tok pc) = Responds resp" and "ok resp"
    and "\<not> enableStream pc"
  shows "checkTokenTemplate pf tok meta pc strat effs =
           balanceStep pf meta pc (validWith tok (bufferedBody (pf_runtime pf) resp))
             (effs @ [Fetched (buildRequest strat tok pc)])"
  using assms by (simp add: checkTokenTemplate_def secureProxiedFetch_def)

lemma balanceStep_valid_or_caught:
  assumes "v_isValid res"
  shows "v_isValid (fst (balanceStep pf meta pc res effs))
         \<or> (\<exists>e. fst (balanceStep pf meta pc res effs) = caught (v_token res) e)"
  using assms
  by (auto simp: balanceStep_def assignBalance_def split: option.splits prod.splits sum.splits)

lemma balanceStep_not_ok:
  assumes "balanceCheck meta = Some name"
    and "balanceRequest name (v_token res) (baseUrl pc) (region pc) = Some req"
    and "pf_net pf effs req = Responds resp" and "\<not> ok resp"
  shows "balanceStep pf meta pc res effs =
           (res\<lparr>v_balance := BNum (- 1), v_message := Some MSG_BALANCE_UNAVAILABLE\<rparr>,
            effs @ [Fetched req])"
  using assms
  by (simp add: balanceStep_def balanceChecker_def secureProxiedFetch_def assignBalance_def
      BALANCE_UNAVAILABLE_def)

subsection \<open>An exception in the balance adapter\<close>

lemma balanceDown_net:
  "pf_net balanceDown effs (openai_buildRequest tok pc) = Responds acceptance"
  "rq_method req = ''GET'' \<Longrightarrow> pf_net balanceDown effs req = Throws ''connection reset''"
  by (simp_all add: balanceDown_def openai_buildRequest_def post_def)

lemma deepseek_balanceRequest:
  "balanceRequest ''checkDeepSeekBalance'' tok base reg =
     Some \<lparr>rq_url = remove_first ''/v1'' (normalizeBaseUrl base) @ ''/user/balance'',
           rq_method = ''GET'',
           rq_headers = [bearer tok, (''Accept'', ''application/json'')],
           rq_body = None, rq_region = reg\<rparr>"
  by (simp add: balanceRequest_def Let_def)

text \<open>
  C2. A key whose validation request is answered with a 2xx response is to come out
  valid whether the balance adapter succeeds or fails. Here the validation is answered
  with 200 and the request of the balance adapter fails in the network: the exception
  leaves the adapter, reaches the \<^verbatim>\<open>catch\<close> of the template, and the result is invalid,
  with the message for network errors and without the default balance.
\<close>

theorem balance_fetch_exception_invalidates:
  "pf_net balanceDown [] (openai_buildRequest ''sk-1'' serverConfig) = Responds acceptance
   \<and> ok acceptance \<and> \<not> enableStream serverConfig
   \<and> balanceCheck deepseekMeta = Some ''checkDeepSeekBalance''
   \<and> fst (checkToken balanceDown ''sk-1'' deepseekMeta serverConfig [])
        = caught ''sk-1'' (FetchFailed ''connection reset'')
   \<and> \<not> v_isValid (fst (checkToken balanceDown ''sk-1'' deepseekMeta serverConfig []))
   \<and> v_message (fst (checkToken balanceDown ''sk-1'' deepseekMeta serverConfig [])) = Some MSG_NETWORK
   \<and> v_balance (fst (checkToken balanceDown ''sk-1'' deepseekMeta serverConfig [])) = BAbsent"
proof -
  have a: "ok acceptance" by (simp add: ok_def acceptance_def)
  have s: "\<not> enableStream serverConfig"
    by (simp add: serverConfig_def buildProviderConfig_def example_cfg_def)
  have r: "fst (checkToken balanceDown ''sk-1'' deepseekMeta serverConfig [])
        = caught ''sk-1'' (FetchFailed ''connection reset'')"
    using a s
    by (simp add: checkToken_def apiStrategies_def deepseekMeta_def checkTokenTemplate_def
        secureProxiedFetch_def balanceDown_net balanceStep_def deepseek_balanceRequest
        balanceChecker_def validWith_def)
  show ?thesis
    unfolding r using a s by (simp add: balanceDown_net deepseekMeta_def caught_def)
qed

text \<open>
  C5. With \<^verbatim>\<open>enableStream\<close> and a 2xx response whose first read yields a chunk, the result
  is to be valid. Here the first read yields a chunk, the reader is cancelled and released
  after this one read, and then the request of the balance adapter fails in the network:
  the result is invalid. (\<open>stream_done_invalid\<close>, \<open>stream_read_fails\<close>,
  \<open>stream_chunk_goes_on\<close> and \<open>streamBlock_effects\<close> above are the parts of the claim
  that hold: the block itself behaves as claimed on each of its ways out.)
\<close>

theorem stream_chunk_then_balance_exception_invalidates:
  "pf_net balanceDown [] (openai_buildRequest ''sk-1'' streamingConfig) = Responds acceptance
   \<and> ok acceptance \<and> enableStream streamingConfig
   \<and> rs_firstRead acceptance = Some ReadChunk
   \<and> balanceCheck deepseekMeta = Some ''checkDeepSeekBalance''
   \<and> fst (checkToken balanceDown ''sk-1'' deepseekMeta streamingConfig [])
        = caught ''sk-1'' (FetchFailed ''connection reset'')
   \<and> \<not> v_isValid (fst (checkToken balanceDown ''sk-1'' deepseekMeta streamingConfig []))
   \<and> filter (\<lambda>e. e \<in> {GetReader, ReaderRead, ReaderCancel, ReaderReleaseLock})
        (snd (checkToken balanceDown ''sk-1'' deepseekMeta streamingConfig []))
        = [GetReader, ReaderRead, ReaderCancel, ReaderReleaseLock]"
proof -
  have a: "ok acceptance" by (simp add: ok_def acceptance_def)
  have s: "enableStream streamingConfig" by (simp add: streamingConfig_def)
  have c: "rs_firstRead acceptance = Some ReadChunk" "\<not> rs_cancelFails acceptance"
    by (simp_all add: acceptance_def)
  have r: "checkToken balanceDown ''sk-1'' deepseekMeta streamingConfig []
        = (caught ''sk-1'' (FetchFailed ''connection reset''),
           [Fetched (openai_buildRequest ''sk-1'' streamingConfig),
            GetReader, ReaderRead, ReaderCancel, ReaderReleaseLock,
            Fetched \<lparr>rq_url = remove_first ''/v1'' (normalizeBaseUrl (baseUrl streamingConfig))
                               @ ''/user/balance'',
                     rq_method = ''GET'',
                     rq_headers = [bearer ''sk-1'', (''Accept'', ''application/json'')],
                     rq_body = None, rq_region = region streamingConfig\<rparr>])"
    using a s c
    by (simp add: checkToken_def apiStrategies_def deepseekMeta_def checkTokenTemplate_def
        secureProxiedFetch_def balanceDown_net balanceStep_def deepseek_balanceRequest
        balanceChecker_def validWith_def streamBlock_def cleanup_def)
  show ?thesis
    unfolding r using a s c by (simp add: balanceDown_net deepseekMeta_def caught_def)
qed

end
